theory Spec2Isabelle
  imports Main
begin

unbundle bit_operations_syntax

section \<open>JavaScript strings\<close>

text \<open>
  A JavaScript string is a sequence of UTF-16 code units; \<open>length\<close>, \<open>slice\<close> and the
  regular expressions of the crawler all count code units. \<open>js\<close> embeds an ASCII literal.
\<close>

type_synonym jsstring = "nat list"

definition js :: "string \<Rightarrow> jsstring" where
  "js s = map of_char s"

definition startsWith :: "jsstring \<Rightarrow> jsstring \<Rightarrow> bool" where
  "startsWith s p = (take (length p) s = p)"

fun includesStr :: "jsstring \<Rightarrow> jsstring \<Rightarrow> bool" where
  "includesStr [] p = (p = [])"
| "includesStr (c # cs) p = (startsWith (c # cs) p \<or> includesStr cs p)"

definition isDigit :: "nat \<Rightarrow> bool" where
  "isDigit c = (48 \<le> c \<and> c \<le> 57)"

text \<open>\<open>String(n)\<close> for a non-negative integer, and \<open>parseInt(s, 10)\<close> on a digit string.\<close>

function showNat :: "nat \<Rightarrow> jsstring" where
  "showNat n = (if n < 10 then [48 + n] else showNat (n div 10) @ [48 + n mod 10])"
  by pat_completeness auto
termination
  by (relation "measure id") auto

declare showNat.simps [simp del]

definition parseInt10 :: "jsstring \<Rightarrow> nat" where
  "parseInt10 ds = foldl (\<lambda>a d. a * 10 + (d - 48)) 0 ds"

section \<open>types.ts\<close>

text \<open>
  A \<open>Date\<close> object holds a time value in milliseconds since the epoch, or \<open>NaN\<close>: the
  Invalid Date, which is an object like any other date and not \<open>null\<close>.
\<close>

datatype jsdate = DateOf int | InvalidDate

record NewsPortalConfig =
  name :: jsstring
  baseUrl :: jsstring
  articleLinkSelector :: jsstring
  titleSelector :: jsstring
  contentSelector :: jsstring
  dateSelector :: "jsstring option"
  removeSelectors :: "jsstring list option"
  delayMs :: "int option"

record RawArticle =
  url :: jsstring
  title :: jsstring
  content :: "jsstring option"
  publishedAt :: "jsdate option"
  portal :: jsstring

record NewsArticleInsert = RawArticle +
  contentHash :: jsstring

record CrawlResult =
  resultPortal :: jsstring
  success :: bool
  articlesFound :: nat
  articlesCrawled :: nat
  newArticles :: nat
  errors :: "jsstring list"
  durationMs :: int

record CrawlSummary =
  totalPortals :: int
  successfulPortals :: int
  failedPortals :: int
  totalArticlesFound :: int
  totalNewArticles :: int
  totalDurationMs :: int
  results :: "CrawlResult list"

text \<open>The \<open>headers\<close> of the options are passed to the transport unchanged and are left out.\<close>

record FetchOptions =
  timeout :: "nat option"
  retries :: "int option"
  retryDelayMs :: "int option"

definition DEFAULT_FETCH_OPTIONS :: FetchOptions where
  "DEFAULT_FETCH_OPTIONS = \<lparr>timeout = Some 15000, retries = Some 2, retryDelayMs = Some 1000\<rparr>"

section \<open>The environment: clock, network, sleeping\<close>

text \<open>
  The world is what the crawler reads and changes: the clock \<open>Date.now()\<close> in milliseconds,
  the log of every request handed to the transport, the log of every \<open>sleep\<close> argument, the
  process-wide rate limiter, the article store, and the log of the records inserted into it.
  The environment answers: the \<open>k\<close>-th request of a run gets \<open>net e k url\<close>, either a response
  (status, status text, body) or a thrown error (name, message), after \<open>net_ms e k\<close>
  milliseconds. \<open>sleep(ms)\<close> is \<open>setTimeout(resolve, ms)\<close>: the runtime takes a delay from 1 to
  2147483647 as it is and any other delay as 1 (\<open>timerDelay\<close>), and the \<open>k\<close>-th timer of a run
  fires \<open>oversleep e k\<close> milliseconds after its delay has passed, never before. The clock of
  the world does not run backwards.
\<close>

datatype attempt_result =
    Response nat jsstring jsstring
  | Threw jsstring jsstring

record env =
  net :: "nat \<Rightarrow> jsstring \<Rightarrow> attempt_result"
  net_ms :: "nat \<Rightarrow> nat"
  oversleep :: "nat \<Rightarrow> nat"

record RateLimiter =
  lastRequestTime :: "jsstring \<rightharpoonup> int"
  defaultDelayMs :: int

record 's world =
  now :: int
  requests :: "jsstring list"
  sleeps :: "int list"
  rateLimiter :: RateLimiter
  store :: 's
  inserted :: "NewsArticleInsert list"

definition TIMEOUT_MAX :: int where
  "TIMEOUT_MAX = 2147483647"

definition timerDelay :: "int \<Rightarrow> int" where
  "timerDelay ms = (if 1 \<le> ms \<and> ms \<le> TIMEOUT_MAX then ms else 1)"

definition sleep :: "env \<Rightarrow> int \<Rightarrow> 's world \<Rightarrow> 's world" where
  "sleep e ms w =
     w\<lparr>now := now w + timerDelay ms + int (oversleep e (length (sleeps w))),
       sleeps := sleeps w @ [ms]\<rparr>"

definition fetch :: "env \<Rightarrow> jsstring \<Rightarrow> 's world \<Rightarrow> attempt_result \<times> 's world" where
  "fetch e u w =
     (net e (length (requests w)) u,
      w\<lparr>now := now w + int (net_ms e (length (requests w))),
        requests := requests w @ [u]\<rparr>)"

section \<open>fetcher.ts\<close>

text \<open>
  A thrown value is a \<open>FetchError\<close> with its code and message, or any other error with its name
  and message. A function that can throw returns a sum, the thrown value on the left.
  \<open>tryAttempt\<close> is the \<open>try\<close> block of \<open>fetchWithRetry\<close> and \<open>fetchLoop\<close> its \<open>for\<close> loop with
  the \<open>catch\<close> block: the status is read back out of the message of the error, as the source
  does with \<open>/HTTP (\d+)/\<close>. \<open>waitForDomain\<close> is the method of the rate limiter held in the world.
\<close>

datatype exn =
    FetchError (code: jsstring) (message: jsstring)
  | Exn jsstring (message: jsstring)

definition newFetchError :: "jsstring \<Rightarrow> jsstring \<Rightarrow> exn" where
  "newFetchError c m = FetchError c (js ''['' @ c @ js ''] '' @ m)"

fun exnName :: "exn \<Rightarrow> jsstring" where
  "exnName (FetchError c m) = js ''FetchError''"
| "exnName (Exn n m) = n"

fun isHttpError :: "exn \<Rightarrow> bool" where
  "isHttpError (FetchError c m) = (c = js ''HTTP_ERROR'')"
| "isHttpError (Exn n m) = False"

definition noOptions :: FetchOptions where
  "noOptions = \<lparr>timeout = None, retries = None, retryDelayMs = None\<rparr>"

definition spread :: "FetchOptions \<Rightarrow> FetchOptions \<Rightarrow> FetchOptions" where
  "spread d opts =
     \<lparr>timeout = (case timeout opts of None \<Rightarrow> timeout d | Some v \<Rightarrow> Some v),
      retries = (case retries opts of None \<Rightarrow> retries d | Some v \<Rightarrow> Some v),
      retryDelayMs = (case retryDelayMs opts of None \<Rightarrow> retryDelayMs d | Some v \<Rightarrow> Some v)\<rparr>"

fun matchHttpStatus :: "jsstring \<Rightarrow> jsstring option" where
  "matchHttpStatus [] = None"
| "matchHttpStatus (c # cs) =
     (if startsWith (c # cs) (js ''HTTP '') \<and> takeWhile isDigit (drop 5 (c # cs)) \<noteq> []
      then Some (takeWhile isDigit (drop 5 (c # cs)))
      else matchHttpStatus cs)"

definition statusOf :: "exn \<Rightarrow> nat" where
  "statusOf err = (case matchHttpStatus (message err) of None \<Rightarrow> 0 | Some ds \<Rightarrow> parseInt10 ds)"

definition responseOk :: "nat \<Rightarrow> bool" where
  "responseOk status = (200 \<le> status \<and> status \<le> 299)"

definition httpError :: "nat \<Rightarrow> jsstring \<Rightarrow> exn" where
  "httpError status statusText =
     newFetchError (js ''HTTP_ERROR'') (js ''HTTP '' @ showNat status @ js '': '' @ statusText)"

definition tryAttempt :: "env \<Rightarrow> jsstring \<Rightarrow> 's world \<Rightarrow> (exn + jsstring) \<times> 's world" where
  "tryAttempt e u w =
     (case fetch e u w of
        (Response status statusText body, w1) \<Rightarrow>
          if \<not> responseOk status then (Inl (httpError status statusText), w1)
          else (Inr body, w1)
      | (Threw n m, w1) \<Rightarrow> (Inl (Exn n m), w1))"

definition timeoutError :: "nat option \<Rightarrow> exn" where
  "timeoutError ms =
     newFetchError (js ''TIMEOUT'')
       (js ''Request timed out after '' @ (case ms of None \<Rightarrow> js ''undefined'' | Some n \<Rightarrow> showNat n)
          @ js ''ms'')"

definition noRetry :: "exn \<Rightarrow> bool" where
  "noRetry lastError =
     (isHttpError lastError \<and>
      (let status = statusOf lastError in 400 \<le> status \<and> status < 500 \<and> status \<noteq> 429))"

function fetchLoop ::
  "env \<Rightarrow> jsstring \<Rightarrow> nat option \<Rightarrow> int \<Rightarrow> int \<Rightarrow> int \<Rightarrow> exn option \<Rightarrow> 's world
     \<Rightarrow> (exn + jsstring) \<times> 's world" where
  "fetchLoop e u t r d attempt lastError w =
     (if attempt \<le> r then
        (case tryAttempt e u w of
           (Inr html, w1) \<Rightarrow> (Inr html, w1)
         | (Inl error, w1) \<Rightarrow>
             (let lastError' = (if exnName error = js ''AbortError'' then timeoutError t else error) in
              if noRetry lastError' then (Inl lastError', w1)
              else fetchLoop e u t r d (attempt + 1) (Some lastError')
                     (if attempt < r then sleep e (d * (attempt + 1)) w1 else w1)))
      else
        (Inl (case lastError of
                None \<Rightarrow> newFetchError (js ''UNKNOWN'') (js ''Unknown fetch error'')
              | Some err \<Rightarrow> err), w))"
  by pat_completeness auto
termination
  by (relation "measure (\<lambda>(e, u, t, r, d, attempt, lastError, w). nat (r + 1 - attempt))") auto

declare fetchLoop.simps [simp del]

definition fetchWithRetry ::
  "env \<Rightarrow> jsstring \<Rightarrow> FetchOptions \<Rightarrow> 's world \<Rightarrow> (exn + jsstring) \<times> 's world" where
  "fetchWithRetry e u options w =
     (let opts = spread DEFAULT_FETCH_OPTIONS options in
      fetchLoop e u (timeout opts)
        (case retries opts of None \<Rightarrow> 2 | Some r \<Rightarrow> r)
        (case retryDelayMs opts of None \<Rightarrow> 1000 | Some d \<Rightarrow> d)
        0 None w)"

definition waitForDomain :: "env \<Rightarrow> jsstring \<Rightarrow> int option \<Rightarrow> 's world \<Rightarrow> 's world" where
  "waitForDomain e domain delay_opt w =
     (let delay = (case delay_opt of None \<Rightarrow> defaultDelayMs (rateLimiter w) | Some d \<Rightarrow> d);
          lastTime = (case lastRequestTime (rateLimiter w) domain of None \<Rightarrow> 0 | Some t \<Rightarrow> t);
          elapsed = now w - lastTime;
          w1 = (if elapsed < delay then sleep e (delay - elapsed) w else w)
      in w1\<lparr>rateLimiter := (rateLimiter w1)\<lparr>lastRequestTime :=
              (lastRequestTime (rateLimiter w1))(domain \<mapsto> now w1)\<rparr>\<rparr>)"

section \<open>The platform: cheerio, \<open>URL\<close>, \<open>Date\<close>, case mapping\<close>

text \<open>
  cheerio, the \<open>URL\<close> class, \<open>Date\<close> and the case mapping of strings are library code. They
  enter as parameters: a loaded document of some type \<open>'d\<close>, the elements a selector matches in
  document order, the removal of the elements a selector matches, the host name of an
  absolute URL (\<open>None\<close> where \<open>new URL\<close> throws), the resolution of a reference against a
  base, \<open>new Date(string)\<close>, the time value of \<open>new Date(year, month, day)\<close> for numbers, and
  \<open>String.prototype.toLowerCase\<close>. An element is what the parser reads of it: its attributes,
  its rendered text and the rendered texts of the \<open>p\<close> elements below it. Selectors are taken
  to be well formed, as all selectors of the portal table are.
\<close>

datatype element = Element (attrs: "(jsstring \<times> jsstring) list") (elText: jsstring)
  (paragraphs: "jsstring list")

record 'd platform =
  cheerio_load :: "jsstring \<Rightarrow> 'd"
  cheerio_select :: "'d \<Rightarrow> jsstring \<Rightarrow> element list"
  cheerio_remove :: "'d \<Rightarrow> jsstring \<Rightarrow> 'd"
  url_hostname :: "jsstring \<Rightarrow> jsstring option"
  url_resolve :: "jsstring \<Rightarrow> jsstring \<Rightarrow> jsstring option"
  date_parse :: "jsstring \<Rightarrow> jsdate"
  date_local :: "nat \<Rightarrow> nat \<Rightarrow> nat \<Rightarrow> int"
  lower_case :: "jsstring \<Rightarrow> jsstring"

text \<open>
  \<open>toLowerCase\<close> follows the case mappings of Unicode, some of which look at the characters
  around. On a text made of Basic Latin, white space and general punctuation only (\<open>plain\<close>:
  code units below 128, U+00A0, U+1680, U+2000 to U+206F, U+3000, U+FEFF) it lowers the
  letters A to Z and changes nothing else; that much is written out. On any other text the
  result is the platform's.
\<close>

definition lowerUnit :: "nat \<Rightarrow> nat" where
  "lowerUnit c = (if 65 \<le> c \<and> c \<le> 90 then c + 32 else c)"

definition plain :: "nat \<Rightarrow> bool" where
  "plain c =
     (c < 128 \<or> c = 160 \<or> c = 5760 \<or> (8192 \<le> c \<and> c \<le> 8303) \<or> c = 12288 \<or> c = 65279)"

definition toLowerCase :: "'d platform \<Rightarrow> jsstring \<Rightarrow> jsstring" where
  "toLowerCase p s = (if list_all plain s then map lowerUnit s else lower_case p s)"

text \<open>The test \<open>!isNaN(date.getTime())\<close> of the parser.\<close>

definition isValidDate :: "jsdate \<Rightarrow> bool" where
  "isValidDate d = (d \<noteq> InvalidDate)"

section \<open>SHA-256 (the digest behind \<open>Bun.CryptoHasher("sha256")\<close>)\<close>

text \<open>
  The hasher is a library primitive. It is written out here after FIPS 180-4, on 32-bit
  words kept as natural numbers with the wrap-around explicit, so that fingerprints of
  concrete inputs can be computed inside the logic.
\<close>

definition add32 :: "nat \<Rightarrow> nat \<Rightarrow> nat" where
  "add32 x y = (x + y) mod 4294967296"

definition rotr :: "nat \<Rightarrow> nat \<Rightarrow> nat" where
  "rotr n x = x div 2 ^ n + (x mod 2 ^ n) * 2 ^ (32 - n)"

definition Ch :: "nat \<Rightarrow> nat \<Rightarrow> nat \<Rightarrow> nat" where
  "Ch x y z = (x AND y) XOR ((4294967295 - x) AND z)"

definition Maj :: "nat \<Rightarrow> nat \<Rightarrow> nat \<Rightarrow> nat" where
  "Maj x y z = (x AND y) XOR (x AND z) XOR (y AND z)"

definition bsig0 :: "nat \<Rightarrow> nat" where
  "bsig0 x = rotr 2 x XOR rotr 13 x XOR rotr 22 x"

definition bsig1 :: "nat \<Rightarrow> nat" where
  "bsig1 x = rotr 6 x XOR rotr 11 x XOR rotr 25 x"

definition ssig0 :: "nat \<Rightarrow> nat" where
  "ssig0 x = rotr 7 x XOR rotr 18 x XOR (x div 2 ^ 3)"

definition ssig1 :: "nat \<Rightarrow> nat" where
  "ssig1 x = rotr 17 x XOR rotr 19 x XOR (x div 2 ^ 10)"

definition K256 :: "nat list" where
  "K256 =
    [1116352408, 1899447441, 3049323471, 3921009573, 961987163, 1508970993,
     2453635748, 2870763221, 3624381080, 310598401, 607225278, 1426881987,
     1925078388, 2162078206, 2614888103, 3248222580, 3835390401, 4022224774,
     264347078, 604807628, 770255983, 1249150122, 1555081692, 1996064986,
     2554220882, 2821834349, 2952996808, 3210313671, 3336571891, 3584528711,
     113926993, 338241895, 666307205, 773529912, 1294757372, 1396182291,
     1695183700, 1986661051, 2177026350, 2456956037, 2730485921, 2820302411,
     3259730800, 3345764771, 3516065817, 3600352804, 4094571909, 275423344,
     430227734, 506948616, 659060556, 883997877, 958139571, 1322822218,
     1537002063, 1747873779, 1955562222, 2024104815, 2227730452, 2361852424,
     2428436474, 2756734187, 3204031479, 3329325298]"

type_synonym hstate = "nat \<times> nat \<times> nat \<times> nat \<times> nat \<times> nat \<times> nat \<times> nat"

definition H256 :: hstate where
  "H256 = (1779033703, 3144134277, 1013904242, 2773480762, 1359893119, 2600822924, 528734635, 1541459225)"

definition be64 :: "nat \<Rightarrow> nat list" where
  "be64 n = map (\<lambda>i. (n div 256 ^ i) mod 256) [7, 6, 5, 4, 3, 2, 1, 0]"

definition pad :: "nat list \<Rightarrow> nat list" where
  "pad m = m @ [128] @ replicate ((119 - length m mod 64) mod 64) 0 @ be64 (8 * length m)"

fun toWords :: "nat list \<Rightarrow> nat list" where
  "toWords (a # b # c # d # bs) = (((a * 256 + b) * 256 + c) * 256 + d) # toWords bs"
| "toWords _ = []"

definition nextW :: "nat list \<Rightarrow> nat" where
  "nextW ws =
     (let t = length ws in
      add32 (add32 (add32 (ssig1 (ws ! (t - 2))) (ws ! (t - 7))) (ssig0 (ws ! (t - 15))))
        (ws ! (t - 16)))"

definition schedule :: "nat list \<Rightarrow> nat list" where
  "schedule block = foldl (\<lambda>ws t. ws @ [nextW ws]) block [16..<64]"

fun round :: "hstate \<Rightarrow> nat \<times> nat \<Rightarrow> hstate" where
  "round (a, b, c, d, e, f, g, h) (k, w) =
     (let t1 = add32 (add32 (add32 (add32 h (bsig1 e)) (Ch e f g)) k) w;
          t2 = add32 (bsig0 a) (Maj a b c)
      in (add32 t1 t2, a, b, c, add32 d t1, e, f, g))"

fun addState :: "hstate \<Rightarrow> hstate \<Rightarrow> hstate" where
  "addState (a, b, c, d, e, f, g, h) (a', b', c', d', e', f', g', h') =
     (add32 a a', add32 b b', add32 c c', add32 d d',
      add32 e e', add32 f f', add32 g g', add32 h h')"

definition compress :: "hstate \<Rightarrow> nat list \<Rightarrow> hstate" where
  "compress hs block = addState hs (foldl round hs (zip K256 (schedule block)))"

fun blocks :: "nat list \<Rightarrow> nat list list" where
  "blocks (w0 # w1 # w2 # w3 # w4 # w5 # w6 # w7 # ws) =
     (if length ws < 8 then []
      else (w0 # w1 # w2 # w3 # w4 # w5 # w6 # w7 # take 8 ws) # blocks (drop 8 ws))"
| "blocks _ = []"

definition sha256 :: "nat list \<Rightarrow> hstate" where
  "sha256 m = foldl compress H256 (blocks (toWords (pad m)))"

definition hexDigit :: "nat \<Rightarrow> nat" where
  "hexDigit n = (if n < 10 then 48 + n else 87 + n)"

definition hex32 :: "nat \<Rightarrow> jsstring" where
  "hex32 w = map (\<lambda>i. hexDigit ((w div 16 ^ i) mod 16)) [7, 6, 5, 4, 3, 2, 1, 0]"

fun digestHex :: "hstate \<Rightarrow> jsstring" where
  "digestHex (a, b, c, d, e, f, g, h) =
     hex32 a @ hex32 b @ hex32 c @ hex32 d @ hex32 e @ hex32 f @ hex32 g @ hex32 h"

text \<open>\<open>hasher.update(string)\<close> hashes the UTF-8 encoding of the string.\<close>

fun utf8 :: "jsstring \<Rightarrow> nat list" where
  "utf8 [] = []"
| "utf8 (c # cs) =
     (if c < 128 then c # utf8 cs
      else if c < 2048 then (192 + c div 64) # (128 + c mod 64) # utf8 cs
      else if 55296 \<le> c \<and> c < 56320 then
        (case cs of
           [] \<Rightarrow> [239, 191, 189]
         | d # ds \<Rightarrow>
             if 56320 \<le> d \<and> d < 57344 then
               (let cp = 65536 + (c - 55296) * 1024 + (d - 56320) in
                (240 + cp div 262144) # (128 + (cp div 4096) mod 64) #
                (128 + (cp div 64) mod 64) # (128 + cp mod 64) # utf8 ds)
             else 239 # 191 # 189 # utf8 cs)
      else if 56320 \<le> c \<and> c < 57344 then 239 # 191 # 189 # utf8 cs
      else (224 + c div 4096) # (128 + (c div 64) mod 64) # (128 + c mod 64) # utf8 cs)"

section \<open>deduplicator.ts\<close>

text \<open>
  \<open>isSpace\<close> is the class \<open>\s\<close> of a JavaScript regular expression, which is also what \<open>trim\<close>
  strips. The character class of the quote replacement holds the straight double quote and
  the straight single quote, each twice, and the replacement is the straight double quote.
\<close>

definition isSpace :: "nat \<Rightarrow> bool" where
  "isSpace c =
     (c = 9 \<or> c = 10 \<or> c = 11 \<or> c = 12 \<or> c = 13 \<or> c = 32 \<or> c = 160 \<or> c = 5760 \<or>
      (8192 \<le> c \<and> c \<le> 8202) \<or> c = 8232 \<or> c = 8233 \<or> c = 8239 \<or> c = 8287 \<or>
      c = 12288 \<or> c = 65279)"

function collapseSpaces :: "jsstring \<Rightarrow> jsstring" where
  "collapseSpaces [] = []"
| "collapseSpaces (c # cs) =
     (if isSpace c then 32 # collapseSpaces (dropWhile isSpace cs) else c # collapseSpaces cs)"
  by pat_completeness auto
termination
  by (relation "measure length") (auto simp: less_Suc_eq_le length_dropWhile_le)

definition trim :: "jsstring \<Rightarrow> jsstring" where
  "trim s = rev (dropWhile isSpace (rev (dropWhile isSpace s)))"

definition unifyQuotes :: "jsstring \<Rightarrow> jsstring" where
  "unifyQuotes s = map (\<lambda>c. if c = 34 \<or> c = 39 then 34 else c) s"

definition unifyDashes :: "jsstring \<Rightarrow> jsstring" where
  "unifyDashes s = map (\<lambda>c. if c = 8211 \<or> c = 8212 then 45 else c) s"

definition normalizeText :: "'d platform \<Rightarrow> jsstring \<Rightarrow> jsstring" where
  "normalizeText p text = trim (unifyDashes (unifyQuotes (collapseSpaces (toLowerCase p text))))"

definition generateContentHash :: "'d platform \<Rightarrow> jsstring \<Rightarrow> jsstring option \<Rightarrow> jsstring" where
  "generateContentHash p aTitle aContent =
     (let normalizedTitle = normalizeText p aTitle;
          normalizedContent =
            (case aContent of None \<Rightarrow> [] | Some c \<Rightarrow> if c = [] then [] else normalizeText p c);
          contentSample = take 500 normalizedContent;
          combined = normalizedTitle @ js ''|'' @ contentSample
      in digestHex (sha256 (utf8 combined)))"

section \<open>parser.ts\<close>

text \<open>
  The parser, over the platform. \<open>replaceFirst\<close> is \<open>replace\<close> with a string for its pattern,
  which replaces the first occurrence only; \<open>splitOn\<close> is \<open>split\<close> at a one-character
  separator; the replacements with a regular expression are written out on code units.
\<close>

fun replaceFirst :: "jsstring \<Rightarrow> jsstring \<Rightarrow> jsstring \<Rightarrow> jsstring" where
  "replaceFirst pat rep [] = (if pat = [] then rep else [])"
| "replaceFirst pat rep (c # cs) =
     (if startsWith (c # cs) pat then rep @ drop (length pat) (c # cs)
      else c # replaceFirst pat rep cs)"

fun splitOn :: "nat \<Rightarrow> jsstring \<Rightarrow> jsstring list" where
  "splitOn sep [] = [[]]"
| "splitOn sep (c # cs) =
     (if c = sep then [] # splitOn sep cs
      else (case splitOn sep cs of [] \<Rightarrow> [[c]] | x # xs \<Rightarrow> (c # x) # xs))"

definition selectorList :: "jsstring \<Rightarrow> jsstring list" where
  "selectorList selector = map trim (splitOn 44 selector)"

definition firstText :: "element list \<Rightarrow> jsstring" where
  "firstText els = (case els of [] \<Rightarrow> [] | el # _ \<Rightarrow> elText el)"

text \<open>
  \<open>replace(/\n\s*\n/g, "\n\n")\<close>: a match starts at a line feed and, \<open>\s*\<close> being greedy,
  ends at the last line feed of the white space that follows.
\<close>

function replaceBlankLines :: "jsstring \<Rightarrow> jsstring" where
  "replaceBlankLines [] = []"
| "replaceBlankLines (c # cs) =
     (let run = takeWhile isSpace cs in
      if c = 10 \<and> 10 \<in> set run
      then 10 # 10 # replaceBlankLines
             (drop (length run - length (takeWhile (\<lambda>x. x \<noteq> 10) (rev run))) cs)
      else c # replaceBlankLines cs)"
  by pat_completeness auto
termination
  by (relation "measure length") auto

definition cleanText :: "jsstring \<Rightarrow> jsstring" where
  "cleanText text = trim (replaceBlankLines (collapseSpaces text))"

definition resolveUrl :: "'d platform \<Rightarrow> jsstring \<Rightarrow> jsstring \<Rightarrow> jsstring option" where
  "resolveUrl p href base =
     (if startsWith href (js ''http'') then Some href else url_resolve p href base)"

definition skipPatterns :: "jsstring list" where
  "skipPatterns =
     [js ''/tag/'', js ''/tags/'', js ''/category/'', js ''/kategori/'', js ''/author/'',
      js ''/penulis/'', js ''/page/'', js ''/search'', js ''/login'', js ''/register'',
      js ''#'', js ''javascript:'']"

definition isValidArticleUrl :: "'d platform \<Rightarrow> jsstring \<Rightarrow> NewsPortalConfig \<Rightarrow> bool" where
  "isValidArticleUrl p u config =
     (let lowercaseUrl = toLowerCase p u in
      if list_ex (\<lambda>pattern. includesStr lowercaseUrl pattern) skipPatterns then False
      else
        (case url_hostname p u of
           None \<Rightarrow> False
         | Some urlDomain \<Rightarrow>
             (case url_hostname p (baseUrl config) of
                None \<Rightarrow> False
              | Some baseDomain \<Rightarrow>
                  if \<not> includesStr urlDomain (replaceFirst (js ''www.'') [] baseDomain)
                  then False else True)))"

definition linkStep ::
  "'d platform \<Rightarrow> NewsPortalConfig \<Rightarrow> jsstring list \<times> jsstring set \<Rightarrow> element
     \<Rightarrow> jsstring list \<times> jsstring set" where
  "linkStep p config acc el =
     (case acc of (links, seen) \<Rightarrow>
        (case map_of (attrs el) (js ''href'') of
           None \<Rightarrow> (links, seen)
         | Some href \<Rightarrow>
             if href = [] then (links, seen)
             else
               (case resolveUrl p href (baseUrl config) of
                  None \<Rightarrow> (links, seen)
                | Some fullUrl \<Rightarrow>
                    if fullUrl = [] \<or> fullUrl \<in> seen then (links, seen)
                    else if isValidArticleUrl p fullUrl config
                    then (links @ [fullUrl], insert fullUrl seen)
                    else (links, seen))))"

definition parseArticleLinks :: "'d platform \<Rightarrow> jsstring \<Rightarrow> NewsPortalConfig \<Rightarrow> jsstring list" where
  "parseArticleLinks p html config =
     fst (foldl (linkStep p config) ([], {})
            (cheerio_select p (cheerio_load p html) (articleLinkSelector config)))"

fun extractTitleFrom :: "'d platform \<Rightarrow> 'd \<Rightarrow> jsstring list \<Rightarrow> jsstring option" where
  "extractTitleFrom p d [] = None"
| "extractTitleFrom p d (sel # sels) =
     (let text = trim (firstText (cheerio_select p d sel)) in
      if text \<noteq> [] \<and> length text > 10 then Some (cleanText text)
      else extractTitleFrom p d sels)"

definition extractTitle :: "'d platform \<Rightarrow> 'd \<Rightarrow> jsstring \<Rightarrow> jsstring option" where
  "extractTitle p d selector = extractTitleFrom p d (selectorList selector)"

definition joinBlank :: "jsstring list \<Rightarrow> jsstring" where
  "joinBlank ps = (case ps of [] \<Rightarrow> [] | q # qs \<Rightarrow> q @ concat (map (\<lambda>x. [10, 10] @ x) qs))"

fun extractContentFrom :: "'d platform \<Rightarrow> 'd \<Rightarrow> jsstring list \<Rightarrow> jsstring option" where
  "extractContentFrom p d [] = None"
| "extractContentFrom p d (sel # sels) =
     (case cheerio_select p d sel of
        [] \<Rightarrow> extractContentFrom p d sels
      | el # _ \<Rightarrow>
          (let ps = filter (\<lambda>text. text \<noteq> [] \<and> length text > 20) (map trim (paragraphs el)) in
           if length ps > 0 then Some (cleanText (joinBlank ps))
           else
             (let fullText = trim (elText el) in
              if fullText \<noteq> [] \<and> length fullText > 50 then Some (cleanText fullText)
              else extractContentFrom p d sels)))"

definition extractContent :: "'d platform \<Rightarrow> 'd \<Rightarrow> jsstring \<Rightarrow> jsstring option" where
  "extractContent p d selector = extractContentFrom p d (selectorList selector)"

text \<open>
  The month table is an object literal: \<open>months[monthStr]\<close> finds its own entries and, for
  any other key, what the table inherits from \<open>Object.prototype\<close>, a function or an object
  and not \<open>undefined\<close>. \<open>new Date(year, month, day)\<close> with such a month is the Invalid Date.
  Then the two patterns of \<open>parseIndonesianDate\<close>. In \<open>/(\d{1,2})\s+(\w+)\s+(\d{4})/\<close> the classes \<open>\d\<close>, \<open>\w\<close> and \<open>\s\<close>
  that meet are disjoint where it matters, so at a given start the greedy runs are the only
  way to match; the leftmost start wins.
\<close>

definition months :: "(jsstring \<times> nat) list" where
  "months =
     [(js ''januari'', 0), (js ''jan'', 0), (js ''februari'', 1), (js ''feb'', 1),
      (js ''maret'', 2), (js ''mar'', 2), (js ''april'', 3), (js ''apr'', 3),
      (js ''mei'', 4), (js ''may'', 4), (js ''juni'', 5), (js ''jun'', 5),
      (js ''juli'', 6), (js ''jul'', 6), (js ''agustus'', 7), (js ''agu'', 7), (js ''aug'', 7),
      (js ''september'', 8), (js ''sep'', 8), (js ''oktober'', 9), (js ''okt'', 9),
      (js ''oct'', 9), (js ''november'', 10), (js ''nov'', 10), (js ''desember'', 11),
      (js ''des'', 11), (js ''dec'', 11)]"

definition objectPrototype :: "jsstring list" where
  "objectPrototype =
     [js ''constructor'', js ''__defineGetter__'', js ''__defineSetter__'', js ''hasOwnProperty'',
      js ''__lookupGetter__'', js ''__lookupSetter__'', js ''isPrototypeOf'',
      js ''propertyIsEnumerable'', js ''toString'', js ''valueOf'', js ''__proto__'',
      js ''toLocaleString'']"

datatype tableValue = MonthNumber nat | Inherited

definition monthsGet :: "jsstring \<Rightarrow> tableValue option" where
  "monthsGet key =
     (case map_of months key of
        Some n \<Rightarrow> Some (MonthNumber n)
      | None \<Rightarrow> if key \<in> set objectPrototype then Some Inherited else None)"

fun newDate :: "'d platform \<Rightarrow> nat \<Rightarrow> tableValue \<Rightarrow> nat \<Rightarrow> jsdate" where
  "newDate p year (MonthNumber month) day = DateOf (date_local p year month day)"
| "newDate p year Inherited day = InvalidDate"

definition isWord :: "nat \<Rightarrow> bool" where
  "isWord c = (isDigit c \<or> (65 \<le> c \<and> c \<le> 90) \<or> (97 \<le> c \<and> c \<le> 122) \<or> c = 95)"

definition matchDateAt :: "jsstring \<Rightarrow> (jsstring \<times> jsstring \<times> jsstring) option" where
  "matchDateAt s =
     (let day = takeWhile isDigit (take 2 s); r1 = drop (length day) s;
          r2 = dropWhile isSpace r1; word = takeWhile isWord r2;
          r3 = dropWhile isWord r2; r4 = dropWhile isSpace r3; year = take 4 r4
      in if day \<noteq> [] \<and> takeWhile isSpace r1 \<noteq> [] \<and> word \<noteq> [] \<and> takeWhile isSpace r3 \<noteq> [] \<and>
            length year = 4 \<and> list_all isDigit year
         then Some (day, word, year) else None)"

fun searchDate :: "jsstring \<Rightarrow> (jsstring \<times> jsstring \<times> jsstring) option" where
  "searchDate [] = None"
| "searchDate (c # cs) =
     (case matchDateAt (c # cs) of Some m \<Rightarrow> Some m | None \<Rightarrow> searchDate cs)"

definition matchIsoAt :: "jsstring \<Rightarrow> jsstring option" where
  "matchIsoAt s =
     (let m = take 10 s in
      if length m = 10 \<and> list_all isDigit (take 4 m) \<and> m ! 4 = 45 \<and>
         list_all isDigit (take 2 (drop 5 m)) \<and> m ! 7 = 45 \<and> list_all isDigit (drop 8 m)
      then Some m else None)"

fun searchIso :: "jsstring \<Rightarrow> jsstring option" where
  "searchIso [] = None"
| "searchIso (c # cs) = (case matchIsoAt (c # cs) of Some m \<Rightarrow> Some m | None \<Rightarrow> searchIso cs)"

definition parseIsoIn :: "'d platform \<Rightarrow> jsstring \<Rightarrow> jsdate option" where
  "parseIsoIn p text =
     (case searchIso text of
        None \<Rightarrow> None
      | Some m \<Rightarrow> (let parsed = date_parse p m in if isValidDate parsed then Some parsed else None))"

definition parseIndonesianDate :: "'d platform \<Rightarrow> jsstring \<Rightarrow> jsdate option" where
  "parseIndonesianDate p text =
     (case searchDate text of
        None \<Rightarrow> parseIsoIn p text
      | Some (d, monthWord, y) \<Rightarrow>
          (let day = parseInt10 d; monthStr = toLowerCase p monthWord; year = parseInt10 y in
           case monthsGet monthStr of
             None \<Rightarrow> parseIsoIn p text
           | Some month \<Rightarrow>
               if day > 0 \<and> year > 2000 then Some (newDate p year month day)
               else parseIsoIn p text))"

fun extractDateFrom :: "'d platform \<Rightarrow> 'd \<Rightarrow> jsstring list \<Rightarrow> jsdate option" where
  "extractDateFrom p d [] = None"
| "extractDateFrom p d (sel # sels) =
     (let els = cheerio_select p d sel;
          datetime = (case els of [] \<Rightarrow> None | el # _ \<Rightarrow> map_of (attrs el) (js ''datetime''));
          fromAttr = (case datetime of
                        None \<Rightarrow> None
                      | Some v \<Rightarrow>
                          if v = [] then None
                          else (let parsed = date_parse p v
                                in if isValidDate parsed then Some parsed else None))
      in case fromAttr of
           Some parsed \<Rightarrow> Some parsed
         | None \<Rightarrow>
             (let text = trim (firstText els);
                  fromText = (if text \<noteq> [] then parseIndonesianDate p text else None)
              in case fromText of
                   Some parsed \<Rightarrow> Some parsed
                 | None \<Rightarrow> extractDateFrom p d sels))"

definition extractDate :: "'d platform \<Rightarrow> 'd \<Rightarrow> jsstring option \<Rightarrow> jsdate option" where
  "extractDate p d selector =
     (case selector of
        None \<Rightarrow> None
      | Some s \<Rightarrow> if s = [] then None else extractDateFrom p d (selectorList s))"

definition parseArticle ::
  "'d platform \<Rightarrow> jsstring \<Rightarrow> jsstring \<Rightarrow> NewsPortalConfig \<Rightarrow> RawArticle option" where
  "parseArticle p html u config =
     (let d0 = cheerio_load p html;
          d = (case removeSelectors config of
                 None \<Rightarrow> d0
               | Some sels \<Rightarrow> foldl (cheerio_remove p) d0 sels)
      in case extractTitle p d (titleSelector config) of
           None \<Rightarrow> None
         | Some t \<Rightarrow>
             if t = [] then None
             else Some \<lparr>url = u, title = t,
                        content = extractContent p d (contentSelector config),
                        publishedAt = extractDate p d (dateSelector config),
                        portal = name config\<rparr>)"

section \<open>orchestrator.ts\<close>

text \<open>
  The queries of the database module enter as parameters over a store of some type \<open>'s\<close>:
  a lookup by content hash and an insertion, either of which may throw. The calls of
  \<open>logEmitter\<close> only append to a log and print, and cannot throw; they are left out.
  \<open>Promise.all\<close> over a batch is taken in the order of the batch.
\<close>

record 's database =
  getNewsArticleByHash :: "'s \<Rightarrow> jsstring \<Rightarrow> exn + NewsArticleInsert option"
  insertNewsArticle :: "'s \<Rightarrow> NewsArticleInsert \<Rightarrow> exn + 's"

definition isArticleDuplicate :: "'s database \<Rightarrow> 's \<Rightarrow> jsstring \<Rightarrow> exn + bool" where
  "isArticleDuplicate db s hash =
     (case getNewsArticleByHash db s hash of
        Inl err \<Rightarrow> Inl err
      | Inr existing \<Rightarrow> Inr (existing \<noteq> None))"

definition MAX_ARTICLES_PER_PORTAL :: nat where
  "MAX_ARTICLES_PER_PORTAL = 15"

definition MAX_CONCURRENT_PORTALS :: nat where
  "MAX_CONCURRENT_PORTALS = 3"

definition getDomain :: "'d platform \<Rightarrow> jsstring \<Rightarrow> jsstring" where
  "getDomain p u = (case url_hostname p u of None \<Rightarrow> u | Some h \<Rightarrow> h)"

definition articleError :: "jsstring \<Rightarrow> exn \<Rightarrow> jsstring" where
  "articleError u err = js ''Article error ('' @ u @ js ''): '' @ message err"

definition portalError :: "exn \<Rightarrow> jsstring" where
  "portalError err = js ''Portal error: '' @ message err"

type_synonym 's progress = "nat \<times> nat \<times> jsstring list \<times> 's world"

definition processArticle ::
  "env \<Rightarrow> 'd platform \<Rightarrow> 's database \<Rightarrow> NewsPortalConfig \<Rightarrow> jsstring \<Rightarrow> 's progress
     \<Rightarrow> jsstring \<Rightarrow> 's progress" where
  "processArticle e p db config domain st u =
     (case st of (crawled, new, errs, w) \<Rightarrow>
        (let w1 = waitForDomain e domain (delayMs config) w in
         case fetchWithRetry e u noOptions w1 of
           (Inl err, w2) \<Rightarrow> (crawled, new, errs @ [articleError u err], w2)
         | (Inr articleHtml, w2) \<Rightarrow>
             (case parseArticle p articleHtml u config of
                None \<Rightarrow> (crawled, new, errs, w2)
              | Some article \<Rightarrow>
                  if title article = [] then (crawled, new, errs, w2)
                  else
                    (let hash = generateContentHash p (title article) (content article) in
                     case isArticleDuplicate db (store w2) hash of
                       Inl err \<Rightarrow> (crawled + 1, new, errs @ [articleError u err], w2)
                     | Inr True \<Rightarrow> (crawled + 1, new, errs, w2)
                     | Inr False \<Rightarrow>
                         (let articleInsert =
                                \<lparr>url = url article, title = title article,
                                 content = content article, publishedAt = publishedAt article,
                                 portal = portal article, contentHash = hash\<rparr>
                          in case insertNewsArticle db (store w2) articleInsert of
                               Inl err \<Rightarrow> (crawled + 1, new, errs @ [articleError u err], w2)
                             | Inr s' \<Rightarrow>
                                 (crawled + 1, new + 1, errs,
                                  w2\<lparr>store := s',
                                     inserted := inserted w2 @ [articleInsert]\<rparr>))))))"

definition crawlPortal ::
  "env \<Rightarrow> 'd platform \<Rightarrow> 's database \<Rightarrow> NewsPortalConfig \<Rightarrow> 's world
     \<Rightarrow> CrawlResult \<times> 's world" where
  "crawlPortal e p db config w =
     (let startTime = now w;
          domain = getDomain p (baseUrl config);
          w1 = waitForDomain e domain (delayMs config) w
      in case fetchWithRetry e (baseUrl config) noOptions w1 of
           (Inl err, w2) \<Rightarrow>
             (\<lparr>resultPortal = name config, success = False, articlesFound = 0,
               articlesCrawled = 0, newArticles = 0, errors = [portalError err],
               durationMs = now w2 - startTime\<rparr>, w2)
         | (Inr listingHtml, w2) \<Rightarrow>
             (let articleUrls = parseArticleLinks p listingHtml config;
                  urlsToProcess = take MAX_ARTICLES_PER_PORTAL articleUrls
              in case foldl (processArticle e p db config domain) (0, 0, [], w2) urlsToProcess of
                   (crawled, new, errs, w3) \<Rightarrow>
                     (\<lparr>resultPortal = name config, success = True,
                       articlesFound = length articleUrls, articlesCrawled = crawled,
                       newArticles = new, errors = errs,
                       durationMs = now w3 - startTime\<rparr>, w3)))"

text \<open>
  \<open>chunkArray\<close> advances its index by \<open>size\<close>; with \<open>size = 0\<close> the loop of the source does not
  end, which is the value \<open>None\<close> here.
\<close>

partial_function (option) chunkLoop ::
  "'a list \<Rightarrow> nat \<Rightarrow> nat \<Rightarrow> 'a list list \<Rightarrow> 'a list list option" where
  "chunkLoop array sz i chunks =
     (if i < length array
      then chunkLoop array sz (i + sz) (chunks @ [take sz (drop i array)])
      else Some chunks)"

definition chunkArray :: "'a list \<Rightarrow> nat \<Rightarrow> 'a list list option" where
  "chunkArray array sz = chunkLoop array sz 0 []"

fun crawlBatch ::
  "env \<Rightarrow> 'd platform \<Rightarrow> 's database \<Rightarrow> NewsPortalConfig list \<Rightarrow> 's world
     \<Rightarrow> CrawlResult list \<times> 's world" where
  "crawlBatch e p db [] w = ([], w)"
| "crawlBatch e p db (config # batch) w =
     (case crawlPortal e p db config w of
        (r, w1) \<Rightarrow> (case crawlBatch e p db batch w1 of (rs, w2) \<Rightarrow> (r # rs, w2)))"

fun crawlBatches ::
  "env \<Rightarrow> 'd platform \<Rightarrow> 's database \<Rightarrow> NewsPortalConfig list list \<Rightarrow> CrawlResult list
     \<Rightarrow> 's world \<Rightarrow> CrawlResult list \<times> 's world" where
  "crawlBatches e p db [] rs w = (rs, w)"
| "crawlBatches e p db (batch # batches) rs w =
     (case crawlBatch e p db batch w of
        (batchResults, w1) \<Rightarrow> crawlBatches e p db batches (rs @ batchResults) (sleep e 2000 w1))"

definition crawlAllPortals ::
  "env \<Rightarrow> 'd platform \<Rightarrow> 's database \<Rightarrow> NewsPortalConfig list \<Rightarrow> 's world
     \<Rightarrow> (CrawlSummary \<times> 's world) option" where
  "crawlAllPortals e p db PORTAL_CONFIGS w =
     (let startTime = now w in
      case chunkArray PORTAL_CONFIGS MAX_CONCURRENT_PORTALS of
        None \<Rightarrow> None
      | Some batches \<Rightarrow>
          (case crawlBatches e p db batches [] w of
             (rs, w1) \<Rightarrow>
               (let successful = int (length (filter success rs)) in
                Some (\<lparr>totalPortals = int (length PORTAL_CONFIGS),
                       successfulPortals = successful,
                       failedPortals = int (length PORTAL_CONFIGS) - successful,
                       totalArticlesFound = foldl (\<lambda>sum r. sum + int (articlesFound r)) 0 rs,
                       totalNewArticles = foldl (\<lambda>sum r. sum + int (newArticles r)) 0 rs,
                       totalDurationMs = now w1 - startTime,
                       results = rs\<rparr>, w1))))"

section \<open>Vocabulary of the properties\<close>

text \<open>
  The failure classes of an attempt. A client error is a response with a status from 400 to
  499 other than 429; every other failed attempt (another status that is not ok, a timeout,
  any other thrown error) is retryable. \<open>failureOf\<close> is the error the attempt leaves behind.
\<close>

fun clientError :: "attempt_result \<Rightarrow> bool" where
  "clientError (Response status statusText body) = (400 \<le> status \<and> status < 500 \<and> status \<noteq> 429)"
| "clientError (Threw n m) = False"

fun retryable :: "attempt_result \<Rightarrow> bool" where
  "retryable (Response status statusText body) =
     (\<not> responseOk status \<and> \<not> (400 \<le> status \<and> status < 500 \<and> status \<noteq> 429))"
| "retryable (Threw n m) = True"

fun failureOf :: "nat option \<Rightarrow> attempt_result \<Rightarrow> exn" where
  "failureOf ms (Response status statusText body) = httpError status statusText"
| "failureOf ms (Threw n m) = (if n = js ''AbortError'' then timeoutError ms else Exn n m)"

text \<open>The effective options of a call: the defaults overridden by the caller's.\<close>

definition retriesOf :: "FetchOptions \<Rightarrow> int" where
  "retriesOf options =
     (case retries (spread DEFAULT_FETCH_OPTIONS options) of None \<Rightarrow> 2 | Some r \<Rightarrow> r)"

definition retryDelayOf :: "FetchOptions \<Rightarrow> int" where
  "retryDelayOf options =
     (case retryDelayMs (spread DEFAULT_FETCH_OPTIONS options) of None \<Rightarrow> 1000 | Some d \<Rightarrow> d)"

definition timeoutOf :: "FetchOptions \<Rightarrow> nat option" where
  "timeoutOf options = timeout (spread DEFAULT_FETCH_OPTIONS options)"


section \<open>Vocabulary of the deduplicator\<close>

text \<open>
  The normalized body of a document (an absent body counts as empty), and the string that is
  hashed. \<open>specNormalize\<close> is normalization in the words of the specification: lower case,
  runs of white space collapsed to one space, the curly and the straight quotes all unified
  to one quote character, the en and em dashes unified to a hyphen, trimmed. A text with
  \<open>noCurly\<close> holds none of the four curly quotes.
\<close>

definition normalizedBody :: "'d platform \<Rightarrow> jsstring option \<Rightarrow> jsstring" where
  "normalizedBody p c = (case c of None \<Rightarrow> [] | Some x \<Rightarrow> normalizeText p x)"

definition hashedString :: "'d platform \<Rightarrow> jsstring \<Rightarrow> jsstring option \<Rightarrow> jsstring" where
  "hashedString p t c = normalizeText p t @ js ''|'' @ take 500 (normalizedBody p c)"

definition specUnifyQuotes :: "jsstring \<Rightarrow> jsstring" where
  "specUnifyQuotes s =
     map (\<lambda>c. if c = 34 \<or> c = 39 \<or> c = 8216 \<or> c = 8217 \<or> c = 8220 \<or> c = 8221 then 34 else c) s"

definition noCurly :: "jsstring \<Rightarrow> bool" where
  "noCurly s = list_all (\<lambda>c. c \<noteq> 8216 \<and> c \<noteq> 8217 \<and> c \<noteq> 8220 \<and> c \<noteq> 8221) s"

definition specNormalize :: "'d platform \<Rightarrow> jsstring \<Rightarrow> jsstring" where
  "specNormalize p text = trim (unifyDashes (specUnifyQuotes (collapseSpaces (toLowerCase p text))))"

text \<open>\<open>trim\<close> in its two halves, \<open>trimStart\<close> and \<open>trimEnd\<close>.\<close>

definition trimStart :: "jsstring \<Rightarrow> jsstring" where
  "trimStart s = dropWhile isSpace s"

definition trimEnd :: "jsstring \<Rightarrow> jsstring" where
  "trimEnd s = rev (dropWhile isSpace (rev s))"

text \<open>
  Two characters are variants of one another when they are the same letter in either case,
  or both white space, or both a straight quote, or both a hyphen or dash; \<open>canonUnit\<close> picks
  one character for each. Two texts are \<open>variants\<close> when they are so character by character.
\<close>

definition canonUnit :: "nat \<Rightarrow> nat" where
  "canonUnit c =
     (if isSpace c then 32
      else if c = 34 \<or> c = 39 then 34
      else if c = 45 \<or> c = 8211 \<or> c = 8212 then 45
      else lowerUnit c)"

definition variants :: "jsstring \<Rightarrow> jsstring \<Rightarrow> bool" where
  "variants s t = (map canonUnit s = map canonUnit t)"

section \<open>Vocabulary of the parser\<close>

text \<open>
  The candidate of an anchor is its \<open>href\<close>, resolved; the candidates of a listing are those
  of the anchors the link selector matches, in document order. \<open>keepFirst\<close> keeps the first
  occurrence of every element of a list. \<open>stripWww\<close> drops a leading \<open>www.\<close> from a host name.
\<close>

definition candidateUrl :: "'d platform \<Rightarrow> NewsPortalConfig \<Rightarrow> element \<Rightarrow> jsstring option" where
  "candidateUrl p config el =
     (case map_of (attrs el) (js ''href'') of
        None \<Rightarrow> None
      | Some href \<Rightarrow>
          if href = [] then None
          else (case resolveUrl p href (baseUrl config) of
                  None \<Rightarrow> None
                | Some fullUrl \<Rightarrow> if fullUrl = [] then None else Some fullUrl))"

definition anchors :: "'d platform \<Rightarrow> jsstring \<Rightarrow> NewsPortalConfig \<Rightarrow> element list" where
  "anchors p html config = cheerio_select p (cheerio_load p html) (articleLinkSelector config)"

definition candidates :: "'d platform \<Rightarrow> jsstring \<Rightarrow> NewsPortalConfig \<Rightarrow> jsstring list" where
  "candidates p html config = List.map_filter (candidateUrl p config) (anchors p html config)"

fun keepFirst :: "'a list \<Rightarrow> 'a list" where
  "keepFirst [] = []"
| "keepFirst (x # xs) = x # keepFirst (removeAll x xs)"

definition stripWww :: "jsstring \<Rightarrow> jsstring" where
  "stripWww h = (if startsWith h (js ''www.'') then drop 4 h else h)"

text \<open>
  A host matches the configured host, subdomains and a leading \<open>www.\<close> aside, when it is the
  configured host up to a leading \<open>www.\<close>, or ends with a dot and the configured host without
  its \<open>www.\<close>.
\<close>

definition endsWith :: "jsstring \<Rightarrow> jsstring \<Rightarrow> bool" where
  "endsWith s suffix = (length suffix \<le> length s \<and> drop (length s - length suffix) s = suffix)"

definition sameSite :: "jsstring \<Rightarrow> jsstring \<Rightarrow> bool" where
  "sameSite host base = (stripWww host = stripWww base \<or> endsWith host (46 # stripWww base))"

text \<open>
  The document an article is read from, after the removals; whether a title selector
  qualifies, that is, whether the trimmed text of its first element has more than 10
  characters; and the first selector of a list that does.
\<close>

definition prepared :: "'d platform \<Rightarrow> jsstring \<Rightarrow> NewsPortalConfig \<Rightarrow> 'd" where
  "prepared p html config =
     (case removeSelectors config of
        None \<Rightarrow> cheerio_load p html
      | Some sels \<Rightarrow> foldl (cheerio_remove p) (cheerio_load p html) sels)"

definition titleText :: "'d platform \<Rightarrow> 'd \<Rightarrow> jsstring \<Rightarrow> jsstring" where
  "titleText p d sel = trim (firstText (cheerio_select p d sel))"

definition qualifies :: "'d platform \<Rightarrow> 'd \<Rightarrow> jsstring \<Rightarrow> bool" where
  "qualifies p d sel = (length (titleText p d sel) > 10)"

text \<open>
  The elements a content selector matches are \<open>bodyless\<close> when they yield no body: there is
  none, or the first has no paragraph of more than 20 characters and a text of at most 50.
\<close>

definition bodyless :: "element list \<Rightarrow> bool" where
  "bodyless els =
     (case els of
        [] \<Rightarrow> True
      | el # _ \<Rightarrow>
          filter (\<lambda>text. length text > 20) (map trim (paragraphs el)) = [] \<and>
          length (trim (elText el)) \<le> 50)"

text \<open>
  A timestamp text is \<open>unparseable\<close> when it holds no date: where it reads as day, word and
  year, the word is no key of the month table, or the day is 0, or the year is not after
  2000; and where it holds an ISO date, that date is invalid. The elements a date selector
  matches are \<open>unreadable\<close> when the first has no \<open>datetime\<close> attribute that is a valid date,
  and its text is empty or unparseable; so they are when there is no element at all.
\<close>

definition unparseable :: "'d platform \<Rightarrow> jsstring \<Rightarrow> bool" where
  "unparseable p text =
     ((case searchDate text of
         None \<Rightarrow> True
       | Some (d, monthWord, y) \<Rightarrow>
           monthsGet (toLowerCase p monthWord) = None \<or> parseInt10 d = 0 \<or> parseInt10 y \<le> 2000) \<and>
      (case searchIso text of
         None \<Rightarrow> True
       | Some m \<Rightarrow> date_parse p m = InvalidDate))"

definition unreadable :: "'d platform \<Rightarrow> element list \<Rightarrow> bool" where
  "unreadable p els =
     ((case els of
         [] \<Rightarrow> True
       | el # _ \<Rightarrow>
           (case map_of (attrs el) (js ''datetime'') of
              None \<Rightarrow> True
            | Some v \<Rightarrow> v = [] \<or> date_parse p v = InvalidDate)) \<and>
      (trim (firstText els) = [] \<or> unparseable p (trim (firstText els))))"

section \<open>Sample environments\<close>

text \<open>A network that answers from a fixed table, and a fresh world over a given store.\<close>

definition envOf :: "(nat \<Rightarrow> jsstring \<Rightarrow> attempt_result) \<Rightarrow> env" where
  "envOf f = \<lparr>net = f, net_ms = (\<lambda>k. 120), oversleep = (\<lambda>k. 0)\<rparr>"

definition world0 :: "'s \<Rightarrow> 's world" where
  "world0 s =
     \<lparr>now = 1762000000000, requests = [], sleeps = [],
      rateLimiter = \<lparr>lastRequestTime = Map.empty, defaultDelayMs = 1500\<rparr>,
      store = s, inserted = []\<rparr>"

text \<open>
  A small platform for concrete runs. A page is a table from selectors to the elements they
  match, and \<open>pages\<close> says which page a markup string loads as; removing a selector removes
  its row. Host names and resolution are those of \<open>https\<close> URLs with a plain host and path,
  on which they agree with the \<open>URL\<close> class. Of \<open>Date\<close> the small platform knows nothing:
  \<open>new Date(string)\<close> is the Invalid Date for every string, the time value of a local date is
  some number, and the case mapping of a text that is not plain lowers A to Z; no run below
  parses a date string, reads a time value or lowers such a text. A small store keeps the
  inserted records and finds them by hash.
\<close>

type_synonym page = "(jsstring \<times> element list) list"

definition sampleHostname :: "jsstring \<Rightarrow> jsstring option" where
  "sampleHostname u =
     (if startsWith u (js ''https://'') \<and> takeWhile (\<lambda>c. c \<noteq> 47) (drop 8 u) \<noteq> []
      then Some (takeWhile (\<lambda>c. c \<noteq> 47) (drop 8 u)) else None)"

definition sampleResolve :: "jsstring \<Rightarrow> jsstring \<Rightarrow> jsstring option" where
  "sampleResolve href base =
     (case sampleHostname base of
        None \<Rightarrow> None
      | Some h \<Rightarrow>
          if startsWith href (js ''/'') then Some (js ''https://'' @ h @ href)
          else if startsWith href (js ''#'') then Some (base @ href)
          else None)"

definition samplePlatform :: "(jsstring \<times> page) list \<Rightarrow> page platform" where
  "samplePlatform pages =
     \<lparr>cheerio_load = (\<lambda>html. case map_of pages html of None \<Rightarrow> [] | Some pg \<Rightarrow> pg),
      cheerio_select = (\<lambda>pg sel. case map_of pg sel of None \<Rightarrow> [] | Some els \<Rightarrow> els),
      cheerio_remove = (\<lambda>pg sel. filter (\<lambda>row. fst row \<noteq> sel) pg),
      url_hostname = sampleHostname,
      url_resolve = sampleResolve,
      date_parse = (\<lambda>s. InvalidDate),
      date_local = (\<lambda>y m d. int (((y * 12) + m) * 31 + d)),
      lower_case = map lowerUnit\<rparr>"

definition sampleDatabase :: "NewsArticleInsert list database" where
  "sampleDatabase =
     \<lparr>getNewsArticleByHash = (\<lambda>s hash. Inr (find (\<lambda>r. contentHash r = hash) s)),
      insertNewsArticle = (\<lambda>s r. Inr (s @ [r]))\<rparr>"

definition sampleConfig :: "jsstring \<Rightarrow> jsstring \<Rightarrow> NewsPortalConfig" where
  "sampleConfig nm base =
     \<lparr>name = nm, baseUrl = base, articleLinkSelector = js ''a'', titleSelector = js ''h1.title, h1'',
      contentSelector = js ''article'', dateSelector = Some (js ''time''),
      removeSelectors = Some [js ''script''], delayMs = Some 1500\<rparr>"

definition anchor :: "jsstring \<Rightarrow> element" where
  "anchor href = Element [(js ''href'', href)] [] []"

text \<open>
  A network that answers by URL from a table and with 404 for any other URL, and a scenario
  on it. The listing of source \<open>A\<close> links to four documents: the first parses and is new, the
  second is the same document again, the third has no title that qualifies, the fourth is
  not there. Source \<open>B\<close> has no listing, the listing of source \<open>C\<close> has no links, and the
  listing of source \<open>D\<close> links to sixteen documents: the first parses and is new, the second
  is the same document again, the third has no title that qualifies, the next twelve are
  not there, and the sixteenth is there and parses.
\<close>

definition sampleNet :: "(jsstring \<times> attempt_result) list \<Rightarrow> nat \<Rightarrow> jsstring \<Rightarrow> attempt_result" where
  "sampleNet table k u =
     (case map_of table u of None \<Rightarrow> Response 404 (js ''Not Found'') [] | Some r \<Rightarrow> r)"

definition scenarioEnv :: env where
  "scenarioEnv =
     envOf (sampleNet
       [(js ''https://www.a.test/news/'', Response 200 (js ''OK'') (js ''LA'')),
        (js ''https://www.a.test/read/1'', Response 200 (js ''OK'') (js ''P1'')),
        (js ''https://www.a.test/read/2'', Response 200 (js ''OK'') (js ''P1'')),
        (js ''https://www.a.test/read/3'', Response 200 (js ''OK'') (js ''P0'')),
        (js ''https://www.c.test/news/'', Response 200 (js ''OK'') (js ''LC'')),
        (js ''https://www.d.test/news/'', Response 200 (js ''OK'') (js ''LD'')),
        (js ''https://www.d.test/n/a'', Response 200 (js ''OK'') (js ''P1'')),
        (js ''https://www.d.test/n/b'', Response 200 (js ''OK'') (js ''P1'')),
        (js ''https://www.d.test/n/c'', Response 200 (js ''OK'') (js ''P0'')),
        (js ''https://www.d.test/n/p'', Response 200 (js ''OK'') (js ''P2''))])"

definition scenarioPlatform :: "page platform" where
  "scenarioPlatform =
     samplePlatform
       [(js ''LA'', [(js ''a'', [anchor (js ''/read/1''), anchor (js ''/read/2''),
                               anchor (js ''/read/3''), anchor (js ''/read/4'')])]),
        (js ''P1'', [(js ''h1'', [Element [] (js ''  Laba  BCA naik tajam '') []])]),
        (js ''P0'', [(js ''h1'', [Element [] (js ''Terkini'') []])]),
        (js ''P2'', [(js ''h1'', [Element [] (js ''Rupiah menguat lagi'') []])]),
        (js ''LC'', []),
        (js ''LD'', [(js ''a'', map anchor
           [js ''/n/a'', js ''/n/b'', js ''/n/c'', js ''/n/d'', js ''/n/e'', js ''/n/f'',
            js ''/n/g'', js ''/n/h'', js ''/n/i'', js ''/n/j'', js ''/n/k'', js ''/n/l'',
            js ''/n/m'', js ''/n/n'', js ''/n/o'', js ''/n/p''])])]"

definition sourceA :: NewsPortalConfig where
  "sourceA = sampleConfig (js ''A'') (js ''https://www.a.test/news/'')"

definition sourceB :: NewsPortalConfig where
  "sourceB = sampleConfig (js ''B'') (js ''https://www.b.test/news/'')"

definition sourceC :: NewsPortalConfig where
  "sourceC = sampleConfig (js ''C'') (js ''https://www.c.test/news/'')"

definition sourceD :: NewsPortalConfig where
  "sourceD = sampleConfig (js ''D'') (js ''https://www.d.test/news/'')"

section \<open>Vocabulary of the rate limiter\<close>

text \<open>
  The delay a call of \<open>waitForDomain\<close> works with, the last dispatch time recorded for a
  domain, and a run of calls issued one after another, each completed before the next: before
  every call the clock moves on by some gap, and the call is for some domain. \<open>dispatchLog\<close>
  lists, call by call, the domain and the time the call recorded.
\<close>

definition delayOf :: "'s world \<Rightarrow> int option \<Rightarrow> int" where
  "delayOf w delay_opt =
     (case delay_opt of None \<Rightarrow> defaultDelayMs (rateLimiter w) | Some d \<Rightarrow> d)"

definition lastDispatch :: "'s world \<Rightarrow> jsstring \<Rightarrow> int option" where
  "lastDispatch w domain = lastRequestTime (rateLimiter w) domain"

definition forget :: "jsstring \<Rightarrow> int option \<Rightarrow> 's world \<Rightarrow> 's world" where
  "forget domain v w =
     w\<lparr>rateLimiter := (rateLimiter w)\<lparr>lastRequestTime :=
          (lastRequestTime (rateLimiter w))(domain := v)\<rparr>\<rparr>"

fun dispatchLog ::
  "env \<Rightarrow> int option \<Rightarrow> (nat \<times> jsstring) list \<Rightarrow> 's world \<Rightarrow> (jsstring \<times> int) list" where
  "dispatchLog e delay_opt [] w = []"
| "dispatchLog e delay_opt ((gap, domain) # calls) w =
     (let w1 = waitForDomain e domain delay_opt (w\<lparr>now := now w + int gap\<rparr>)
      in (domain, now w1) # dispatchLog e delay_opt calls w1)"

definition dispatchTimes :: "jsstring \<Rightarrow> (jsstring \<times> int) list \<Rightarrow> int list" where
  "dispatchTimes domain log = map snd (filter (\<lambda>x. fst x = domain) log)"

text \<open>
  An asynchronous call of \<open>waitForDomain\<close> runs in two steps: \<open>waitBegin\<close> up to \<open>await sleep\<close>,
  which reads the record and says how long to sleep, if at all, and \<open>waitEnd\<close> from the timer
  on, which records the time. In \<open>overlapped\<close> two calls for one domain are made without
  awaiting the first: both take their first step in the same world, and where that step asks
  for a sleep, the first call records when its timer fires and the second when its own does,
  or right after the first if that is later. The result is the two recorded times.
\<close>

definition waitBegin :: "jsstring \<Rightarrow> int option \<Rightarrow> 's world \<Rightarrow> int option" where
  "waitBegin domain delay_opt w =
     (let delay = (case delay_opt of None \<Rightarrow> defaultDelayMs (rateLimiter w) | Some d \<Rightarrow> d);
          lastTime = (case lastRequestTime (rateLimiter w) domain of None \<Rightarrow> 0 | Some t \<Rightarrow> t);
          elapsed = now w - lastTime
      in if elapsed < delay then Some (delay - elapsed) else None)"

definition waitEnd :: "jsstring \<Rightarrow> 's world \<Rightarrow> 's world" where
  "waitEnd domain w =
     w\<lparr>rateLimiter := (rateLimiter w)\<lparr>lastRequestTime :=
         (lastRequestTime (rateLimiter w))(domain \<mapsto> now w)\<rparr>\<rparr>"

definition overlapped :: "env \<Rightarrow> jsstring \<Rightarrow> int option \<Rightarrow> 's world \<Rightarrow> (int \<times> int) option" where
  "overlapped e domain delay_opt w =
     (case waitBegin domain delay_opt w of
        None \<Rightarrow> None
      | Some ms \<Rightarrow>
          (let w1 = waitEnd domain (sleep e ms w);
               second = now w + timerDelay ms + int (oversleep e (length (sleeps w) + 1));
               w2 = waitEnd domain (w1\<lparr>now := max (now w1) second\<rparr>)
           in Some (now w1, now w2)))"

section \<open>Vocabulary of the orchestrator\<close>

text \<open>
  What happens to one candidate link, in the words of the specification: its fetch fails,
  its page does not parse into a document, the duplicate lookup fails, the document is a
  duplicate, the insertion fails, or the document is stored. \<open>linkOutcome\<close> reads this off
  the world in which the link is taken up; \<open>linkOutcomes\<close> does so link by link, each link in
  the world the links before it have left behind.
\<close>

datatype linkOutcome =
    FetchFailed exn
  | ParseFailed
  | LookupFailed exn
  | Duplicate
  | InsertFailed exn
  | Stored

definition linkOutcome ::
  "env \<Rightarrow> 'd platform \<Rightarrow> 's database \<Rightarrow> NewsPortalConfig \<Rightarrow> jsstring \<Rightarrow> 's world \<Rightarrow> jsstring
     \<Rightarrow> linkOutcome" where
  "linkOutcome e p db config domain w u =
     (case fetchWithRetry e u noOptions (waitForDomain e domain (delayMs config) w) of
        (Inl err, w2) \<Rightarrow> FetchFailed err
      | (Inr html, w2) \<Rightarrow>
          (case parseArticle p html u config of
             None \<Rightarrow> ParseFailed
           | Some a \<Rightarrow>
               (case isArticleDuplicate db (store w2) (generateContentHash p (title a) (content a)) of
                  Inl err \<Rightarrow> LookupFailed err
                | Inr True \<Rightarrow> Duplicate
                | Inr False \<Rightarrow>
                    (case insertNewsArticle db (store w2)
                            \<lparr>url = url a, title = title a, content = content a,
                             publishedAt = publishedAt a, portal = portal a,
                             contentHash = generateContentHash p (title a) (content a)\<rparr> of
                       Inl err \<Rightarrow> InsertFailed err
                     | Inr s' \<Rightarrow> Stored))))"

definition afterLink ::
  "env \<Rightarrow> 'd platform \<Rightarrow> 's database \<Rightarrow> NewsPortalConfig \<Rightarrow> jsstring \<Rightarrow> 's world \<Rightarrow> jsstring
     \<Rightarrow> 's world" where
  "afterLink e p db config domain w u =
     (case processArticle e p db config domain (0, 0, [], w) u of (crawled, new, errs, w') \<Rightarrow> w')"

fun linkOutcomes ::
  "env \<Rightarrow> 'd platform \<Rightarrow> 's database \<Rightarrow> NewsPortalConfig \<Rightarrow> jsstring \<Rightarrow> 's world
     \<Rightarrow> jsstring list \<Rightarrow> linkOutcome list" where
  "linkOutcomes e p db config domain w [] = []"
| "linkOutcomes e p db config domain w (u # us) =
     linkOutcome e p db config domain w u #
     linkOutcomes e p db config domain (afterLink e p db config domain w u) us"

fun afterLinks ::
  "env \<Rightarrow> 'd platform \<Rightarrow> 's database \<Rightarrow> NewsPortalConfig \<Rightarrow> jsstring \<Rightarrow> 's world
     \<Rightarrow> jsstring list \<Rightarrow> 's world" where
  "afterLinks e p db config domain w [] = w"
| "afterLinks e p db config domain w (u # us) =
     afterLinks e p db config domain (afterLink e p db config domain w u) us"

fun isParsed :: "linkOutcome \<Rightarrow> bool" where
  "isParsed (FetchFailed err) = False"
| "isParsed ParseFailed = False"
| "isParsed _ = True"

fun outcomeErrors :: "jsstring \<Rightarrow> linkOutcome \<Rightarrow> jsstring list" where
  "outcomeErrors u (FetchFailed err) = [articleError u err]"
| "outcomeErrors u (LookupFailed err) = [articleError u err]"
| "outcomeErrors u (InsertFailed err) = [articleError u err]"
| "outcomeErrors u _ = []"

text \<open>The world in which a portal's listing has just been asked for, and what came back.\<close>

definition listingFetch ::
  "env \<Rightarrow> 'd platform \<Rightarrow> NewsPortalConfig \<Rightarrow> 's world \<Rightarrow> (exn + jsstring) \<times> 's world" where
  "listingFetch e p config w =
     fetchWithRetry e (baseUrl config) noOptions
       (waitForDomain e (getDomain p (baseUrl config)) (delayMs config) w)"

text \<open>A result is \<open>crawled\<close> from a source when \<open>crawlPortal\<close> returns it for that source in some world.\<close>

definition crawled :: "env \<Rightarrow> 'd platform \<Rightarrow> 's database \<Rightarrow> NewsPortalConfig \<Rightarrow> CrawlResult \<Rightarrow> bool" where
  "crawled e p db config r = (\<exists>w. r = fst (crawlPortal e p db config w))"

section \<open>Properties of the fetcher\<close>

subsection \<open>The status the fetcher reads back from its own message\<close>

lemma isDigit_low: "n < 10 \<Longrightarrow> isDigit (48 + n)"
  by (simp add: isDigit_def)

lemma showNat_digits: "list_all isDigit (showNat n)"
proof (induction n rule: showNat.induct)
  case (1 n)
  show ?case
  proof (cases "n < 10")
    case True
    then show ?thesis by (subst showNat.simps) (simp add: isDigit_low)
  next
    case False
    have "n mod 10 < 10" by simp
    then have "isDigit (48 + n mod 10)" by (rule isDigit_low)
    with False 1 show ?thesis by (subst showNat.simps) simp
  qed
qed

lemma showNat_nonempty: "showNat n \<noteq> []"
  by (subst showNat.simps) simp

lemma parseInt10_snoc: "parseInt10 (ds @ [c]) = parseInt10 ds * 10 + (c - 48)"
  by (simp add: parseInt10_def)

lemma parseInt10_showNat: "parseInt10 (showNat n) = n"
proof (induction n rule: showNat.induct)
  case (1 n)
  show ?case
  proof (cases "n < 10")
    case True
    then show ?thesis by (subst showNat.simps) (simp add: parseInt10_def)
  next
    case False
    with 1 show ?thesis by (subst showNat.simps) (simp add: parseInt10_snoc)
  qed
qed

lemma takeWhile_digits_showNat:
  "takeWhile isDigit (showNat n @ js '': '' @ rest) = showNat n"
proof -
  have "\<forall>x \<in> set (showNat n). isDigit x"
    using showNat_digits [of n] by (simp add: list_all_iff)
  then show ?thesis
    by (simp add: takeWhile_append2 js_def isDigit_def)
qed

lemma matchHttpStatus_message:
  "matchHttpStatus (message (httpError st stt)) = Some (showNat st)"
  by (simp add: httpError_def newFetchError_def js_def startsWith_def
      takeWhile_digits_showNat [unfolded js_def, simplified] showNat_nonempty)

lemma statusOf_httpError: "statusOf (httpError st stt) = st"
  by (simp add: statusOf_def matchHttpStatus_message parseInt10_showNat)

lemma noRetry_httpError:
  "noRetry (httpError st stt) = (400 \<le> st \<and> st < 500 \<and> st \<noteq> 429)"
  by (simp add: noRetry_def statusOf_httpError) (simp add: httpError_def newFetchError_def)

lemma noRetry_Exn: "noRetry (Exn n m) = False"
  by (simp add: noRetry_def)

lemma noRetry_timeoutError: "noRetry (timeoutError ms) = False"
  by (simp add: noRetry_def timeoutError_def newFetchError_def js_def)

lemma fetch_fields [simp]:
  "requests (snd (fetch e u w)) = requests w @ [u]"
  "sleeps (snd (fetch e u w)) = sleeps w"
  "fst (fetch e u w) = net e (length (requests w)) u"
  by (simp_all add: fetch_def)

lemma sleep_fields [simp]:
  "requests (sleep e ms w) = requests w"
  "sleeps (sleep e ms w) = sleeps w @ [ms]"
  by (simp_all add: sleep_def)

lemma clientError_not_ok: "clientError (Response st stt body) \<Longrightarrow> \<not> responseOk st"
  by (simp add: responseOk_def)

lemma fetchLoop_success:
  assumes "attempt \<le> r" "net e (length (requests w)) u = Response st stt body" "responseOk st"
  shows "fetchLoop e u ms r d attempt le w = (Inr body, snd (fetch e u w))"
  using assms
  by (subst fetchLoop.simps) (simp add: tryAttempt_def fetch_def)

lemma fetchLoop_clientError:
  assumes "attempt \<le> r" "clientError (net e (length (requests w)) u)"
  shows "fetchLoop e u ms r d attempt le w =
           (Inl (failureOf ms (net e (length (requests w)) u)), snd (fetch e u w))"
proof (cases "net e (length (requests w)) u")
  case (Response st stt body)
  with assms have ce: "400 \<le> st \<and> st < 500 \<and> st \<noteq> 429" by simp
  then have nok: "\<not> responseOk st" by (simp add: responseOk_def)
  have nm: "exnName (httpError st stt) \<noteq> js ''AbortError''"
    by (simp add: httpError_def newFetchError_def js_def)
  show ?thesis
    using assms(1) Response ce nok nm
    by (subst fetchLoop.simps) (auto simp add: tryAttempt_def fetch_def noRetry_httpError Let_def)
next
  case (Threw n m)
  with assms show ?thesis by simp
qed

lemma fetchLoop_retry:
  assumes "attempt \<le> r" "retryable (net e (length (requests w)) u)"
  shows "fetchLoop e u ms r d attempt le w =
           fetchLoop e u ms r d (attempt + 1) (Some (failureOf ms (net e (length (requests w)) u)))
             (if attempt < r then sleep e (d * (attempt + 1)) (snd (fetch e u w))
              else snd (fetch e u w))"
proof (cases "net e (length (requests w)) u")
  case (Response st stt body)
  with assms have nok: "\<not> responseOk st" and nce: "\<not> (400 \<le> st \<and> st < 500 \<and> st \<noteq> 429)"
    by simp_all
  have nm: "exnName (httpError st stt) \<noteq> js ''AbortError''"
    by (simp add: httpError_def newFetchError_def js_def)
  show ?thesis
    using assms(1) Response nok nce nm
    by (subst fetchLoop.simps) (auto simp add: tryAttempt_def fetch_def noRetry_httpError Let_def)
next
  case (Threw n m)
  show ?thesis
    using assms(1) Threw
    by (subst fetchLoop.simps)
       (auto simp add: tryAttempt_def fetch_def noRetry_Exn noRetry_timeoutError Let_def)
qed








lemma retriesOf_noOptions [simp]: "retriesOf noOptions = 2"
  by (simp add: retriesOf_def noOptions_def spread_def DEFAULT_FETCH_OPTIONS_def)

lemma retryDelayOf_noOptions [simp]: "retryDelayOf noOptions = 1000"
  by (simp add: retryDelayOf_def noOptions_def spread_def DEFAULT_FETCH_OPTIONS_def)

lemma timeoutOf_noOptions [simp]: "timeoutOf noOptions = Some 15000"
  by (simp add: timeoutOf_def noOptions_def spread_def DEFAULT_FETCH_OPTIONS_def)





section \<open>Properties of the rate limiter\<close>

lemma timerDelay_range: "1 \<le> ms \<Longrightarrow> ms \<le> TIMEOUT_MAX \<Longrightarrow> timerDelay ms = ms"
  by (simp add: timerDelay_def)

lemma timerDelay_pos: "1 \<le> timerDelay ms"
  by (simp add: timerDelay_def)

lemma sleep_clock: "now w < now (sleep e ms w)"
  using timerDelay_pos [of ms] by (simp add: sleep_def)

lemma waitForDomain_record:
  "lastDispatch (waitForDomain e domain delay_opt w) domain = Some (now (waitForDomain e domain delay_opt w))"
  by (simp add: waitForDomain_def lastDispatch_def Let_def)

lemma waitForDomain_other:
  "d' \<noteq> domain \<Longrightarrow> lastDispatch (waitForDomain e domain delay_opt w) d' = lastDispatch w d'"
  by (simp add: waitForDomain_def lastDispatch_def Let_def sleep_def)

lemma waitForDomain_default [simp]:
  "defaultDelayMs (rateLimiter (waitForDomain e domain delay_opt w)) = defaultDelayMs (rateLimiter w)"
  by (simp add: waitForDomain_def Let_def sleep_def)

lemma waitForDomain_clock: "now w \<le> now (waitForDomain e domain delay_opt w)"
  using sleep_clock [of w e] by (simp add: waitForDomain_def Let_def less_imp_le)

lemma waitForDomain_sleeps:
  assumes "lastDispatch w domain = Some t"
  shows "sleeps (waitForDomain e domain delay_opt w) =
           (if now w - t < delayOf w delay_opt then sleeps w @ [delayOf w delay_opt - (now w - t)]
            else sleeps w)"
  using assms
  by (simp add: waitForDomain_def lastDispatch_def delayOf_def Let_def sleep_def)

lemma waitForDomain_spacing:
  assumes "lastDispatch w domain = Some t" "t \<le> now w" "delayOf w delay_opt \<le> TIMEOUT_MAX"
  shows "t + delayOf w delay_opt \<le> now (waitForDomain e domain delay_opt w)"
proof (cases "now w - t < delayOf w delay_opt")
  case True
  let ?ms = "delayOf w delay_opt - (now w - t)"
  have "1 \<le> ?ms" "?ms \<le> TIMEOUT_MAX" using True assms(2,3) by simp_all
  then have "timerDelay ?ms = ?ms" by (rule timerDelay_range)
  then have "now (sleep e ?ms w) = t + delayOf w delay_opt + int (oversleep e (length (sleeps w)))"
    by (simp add: sleep_def)
  moreover have "now (waitForDomain e domain delay_opt w) = now (sleep e ?ms w)"
    using True assms(1) by (simp add: waitForDomain_def lastDispatch_def delayOf_def Let_def)
  ultimately show ?thesis by simp
next
  case False
  then show ?thesis
    using assms(1) by (simp add: waitForDomain_def lastDispatch_def delayOf_def Let_def)
qed

lemma waitForDomain_no_wait:
  assumes "lastDispatch w domain = None" "delayOf w delay_opt \<le> now w"
  shows "sleeps (waitForDomain e domain delay_opt w) = sleeps w \<and>
         now (waitForDomain e domain delay_opt w) = now w"
  using assms
  by (auto simp add: waitForDomain_def lastDispatch_def delayOf_def Let_def sleep_def
      split: option.splits)

lemma waitForDomain_independent:
  assumes "d' \<noteq> domain"
  shows "sleeps (waitForDomain e domain delay_opt (forget d' v w)) = sleeps (waitForDomain e domain delay_opt w) \<and>
         now (waitForDomain e domain delay_opt (forget d' v w)) = now (waitForDomain e domain delay_opt w)"
  using assms
  by (auto simp add: waitForDomain_def forget_def Let_def sleep_def split: option.splits)

lemma delayOf_step [simp]:
  "delayOf (waitForDomain e domain delay_opt w) x = delayOf w x"
  "delayOf (w\<lparr>now := n\<rparr>) x = delayOf w x"
  by (simp_all add: delayOf_def split: option.splits)

lemma lastDispatch_now [simp]: "lastDispatch (w\<lparr>now := n\<rparr>) d = lastDispatch w d"
  by (simp add: lastDispatch_def)

lemma dispatchTimes_Cons:
  "dispatchTimes d ((dm, t) # log) = (if dm = d then t # dispatchTimes d log else dispatchTimes d log)"
  by (simp add: dispatchTimes_def)

text \<open>
  In a run of awaited calls no record lies in the future, the clock never running backwards;
  so every call for the domain finds a record at most as late as its own clock.
\<close>

lemma dispatchLog_spaced:
  assumes "delayOf w delay_opt \<le> TIMEOUT_MAX" "\<forall>t. lastDispatch w d = Some t \<longrightarrow> t \<le> now w"
  shows "successively (\<lambda>a b. a + delayOf w delay_opt \<le> b) (dispatchTimes d (dispatchLog e delay_opt calls w)) \<and>
   (\<forall>t x. lastDispatch w d = Some t \<longrightarrow> x \<in> set (take 1 (dispatchTimes d (dispatchLog e delay_opt calls w)))
       \<longrightarrow> t + delayOf w delay_opt \<le> x)"
  using assms
proof (induction calls arbitrary: w)
  case Nil
  show ?case by (simp add: dispatchTimes_def)
next
  case (Cons c calls)
  obtain gap dm where c: "c = (gap, dm)" by (cases c)
  let ?w0 = "w\<lparr>now := now w + int gap\<rparr>"
  let ?w1 = "waitForDomain e dm delay_opt ?w0"
  let ?rest = "dispatchTimes d (dispatchLog e delay_opt calls ?w1)"
  have past0: "\<forall>t. lastDispatch ?w0 d = Some t \<longrightarrow> t \<le> now ?w0"
    using Cons.prems(2) by auto
  have clock: "now ?w0 \<le> now ?w1" by (rule waitForDomain_clock)
  have past1: "\<forall>t. lastDispatch ?w1 d = Some t \<longrightarrow> t \<le> now ?w1"
  proof (cases "dm = d")
    case True
    then show ?thesis using waitForDomain_record [of e d delay_opt ?w0] by simp
  next
    case False
    then have "lastDispatch ?w1 d = lastDispatch ?w0 d"
      using waitForDomain_other [of d dm e delay_opt ?w0] by simp
    with past0 clock show ?thesis by auto
  qed
  have bound1: "delayOf ?w1 delay_opt \<le> TIMEOUT_MAX" using Cons.prems(1) by simp
  note ih = Cons.IH [OF bound1 past1, simplified]
  show ?case
  proof (cases "dm = d")
    case True
    have rec: "lastDispatch ?w1 d = Some (now ?w1)" using True waitForDomain_record by simp
    have first: "\<forall>x \<in> set (take 1 ?rest). now ?w1 + delayOf w delay_opt \<le> x"
      using ih rec by simp
    have succ: "successively (\<lambda>a b. a + delayOf w delay_opt \<le> b) (now ?w1 # ?rest)"
      using ih first by (cases ?rest) simp_all
    have sp: "\<forall>t. lastDispatch w d = Some t \<longrightarrow> t + delayOf w delay_opt \<le> now ?w1"
      using waitForDomain_spacing [of ?w0 d _ delay_opt e] past0 Cons.prems(1) True by simp
    show ?thesis using succ sp True c by (simp add: dispatchTimes_Cons Let_def)
  next
    case False
    then have "lastDispatch ?w1 d = lastDispatch w d"
      using waitForDomain_other [of d dm e delay_opt ?w0] by simp
    with ih False c show ?thesis by (simp add: dispatchTimes_Cons Let_def)
  qed
qed

lemma waitForDomain_steps:
  "waitForDomain e domain delay_opt w =
     (case waitBegin domain delay_opt w of
        None \<Rightarrow> waitEnd domain w
      | Some ms \<Rightarrow> waitEnd domain (sleep e ms w))"
  by (simp add: waitForDomain_def waitBegin_def waitEnd_def Let_def)

text \<open>
  Claim C4, as amended. A call of \<open>waitForDomain\<close> for a domain records the time at which it
  returns as the domain's last dispatch. Where a dispatch is recorded, the call sleeps only
  if less than \<open>delay\<close> has passed since, and then for what is missing; with the record not in
  the future and \<open>delay\<close> at most 2147483647, the longest delay a timer takes, the call returns
  no earlier than \<open>delay\<close> after the recorded dispatch. With no dispatch recorded and a clock
  that reads at least \<open>delay\<close> the call neither sleeps nor lets time pass. The call leaves the
  record of every other domain as it was, and what is recorded for another domain changes
  neither how long the call sleeps nor when it returns. So in every run of calls issued one
  after another, each awaited before the next is made, with such a \<open>delay\<close>, the times
  recorded for one domain are at least \<open>delay\<close> apart, whatever calls for other domains and
  whatever gaps lie between them.
\<close>

theorem waitForDomain_spacing_invariant:
  "lastDispatch (waitForDomain e d delay_opt w) d = Some (now (waitForDomain e d delay_opt w)) \<and>
   now w \<le> now (waitForDomain e d delay_opt w) \<and>
   (\<forall>t. lastDispatch w d = Some t \<longrightarrow>
        sleeps (waitForDomain e d delay_opt w) =
          (if now w - t < delayOf w delay_opt then sleeps w @ [delayOf w delay_opt - (now w - t)]
           else sleeps w)) \<and>
   (\<forall>t. lastDispatch w d = Some t \<and> t \<le> now w \<and> delayOf w delay_opt \<le> TIMEOUT_MAX \<longrightarrow>
        t + delayOf w delay_opt \<le> now (waitForDomain e d delay_opt w)) \<and>
   (lastDispatch w d = None \<and> delayOf w delay_opt \<le> now w \<longrightarrow>
        sleeps (waitForDomain e d delay_opt w) = sleeps w \<and>
        now (waitForDomain e d delay_opt w) = now w) \<and>
   (\<forall>d' v. d' \<noteq> d \<longrightarrow>
        lastDispatch (waitForDomain e d delay_opt w) d' = lastDispatch w d' \<and>
        sleeps (waitForDomain e d delay_opt (forget d' v w)) = sleeps (waitForDomain e d delay_opt w) \<and>
        now (waitForDomain e d delay_opt (forget d' v w)) = now (waitForDomain e d delay_opt w)) \<and>
   (delayOf w delay_opt \<le> TIMEOUT_MAX \<and> (\<forall>t. lastDispatch w d = Some t \<longrightarrow> t \<le> now w) \<longrightarrow>
      successively (\<lambda>a b. a + delayOf w delay_opt \<le> b)
        (dispatchTimes d (dispatchLog e delay_opt calls w)))"
  using waitForDomain_record [of e d delay_opt w] waitForDomain_clock [of w e d delay_opt]
    waitForDomain_sleeps [of w d _ e delay_opt]
    waitForDomain_spacing [of w d _ delay_opt e] waitForDomain_no_wait [of w d delay_opt e]
    waitForDomain_other [of _ d e delay_opt w] waitForDomain_independent [of _ d e delay_opt _ w]
    dispatchLog_spaced [of w delay_opt d e calls]
  by (intro conjI allI impI) auto

theorem waitForDomain_spacing_invariant_witness:
  "lastDispatch (world0 ()) (js ''a.test'') = None \<and>
   delayOf (world0 ()) (Some 1500) \<le> now (world0 ()) \<and>
   delayOf (world0 ()) (Some 1500) \<le> TIMEOUT_MAX \<and>
   sleeps (waitForDomain (envOf (\<lambda>k u. Threw [] [])) (js ''a.test'') (Some 1500) (world0 ())) = [] \<and>
   js ''b.test'' \<noteq> js ''a.test'' \<and>
   lastDispatch (waitForDomain (envOf (\<lambda>k u. Threw [] [])) (js ''a.test'') (Some 1500) (world0 ()))
     (js ''b.test'') = None \<and>
   lastDispatch ((world0 ())\<lparr>now := 1762000000300, rateLimiter :=
       \<lparr>lastRequestTime = [js ''a.test'' \<mapsto> 1762000000000], defaultDelayMs = 1500\<rparr>\<rparr>) (js ''a.test'')
     = Some 1762000000000 \<and>
   sleeps (waitForDomain (envOf (\<lambda>k u. Threw [] [])) (js ''a.test'') None
     ((world0 ())\<lparr>now := 1762000000300, rateLimiter :=
       \<lparr>lastRequestTime = [js ''a.test'' \<mapsto> 1762000000000], defaultDelayMs = 1500\<rparr>\<rparr>)) = [1200] \<and>
   now (waitForDomain (envOf (\<lambda>k u. Threw [] [])) (js ''a.test'') None
     ((world0 ())\<lparr>now := 1762000000300, rateLimiter :=
       \<lparr>lastRequestTime = [js ''a.test'' \<mapsto> 1762000000000], defaultDelayMs = 1500\<rparr>\<rparr>)) = 1762000001500 \<and>
   dispatchTimes (js ''a.test'')
     (dispatchLog (envOf (\<lambda>k u. Threw [] [])) (Some 1500)
        [(0, js ''a.test''), (200, js ''b.test''), (300, js ''a.test''), (4000, js ''a.test'')]
        (world0 ())) = [1762000000000, 1762000001500, 1762000005500] \<and>
   successively (\<lambda>a b. a + 1500 \<le> b) [1762000000000, 1762000001500, 1762000005500 :: int]"
  using waitForDomain_spacing_invariant [of "envOf (\<lambda>k u. Threw [] [])" "js ''a.test''" "Some 1500"
      "world0 ()"
      "[(0, js ''a.test''), (200, js ''b.test''), (300, js ''a.test''), (4000, js ''a.test'')]"]
    waitForDomain_spacing_invariant [of "envOf (\<lambda>k u. Threw [] [])" "js ''a.test''" None
      "(world0 ())\<lparr>now := 1762000000300, rateLimiter :=
         \<lparr>lastRequestTime = [js ''a.test'' \<mapsto> 1762000000000], defaultDelayMs = 1500\<rparr>\<rparr>" "[]"]
  by (simp add: world0_def envOf_def lastDispatch_def delayOf_def waitForDomain_def sleep_def
      timerDelay_def TIMEOUT_MAX_def dispatchTimes_def js_def Let_def)

text \<open>
  With a clock that reads less than the delay (a test clock started near 0) the first call
  for a domain does sleep. With a delay longer than a timer takes, the second of two awaited
  calls returns after one millisecond; so does a call that finds a record far in the future,
  the clock having been set back. And two calls for one domain that overlap, made right
  after a dispatch, both sleep for the full delay and then record the same time.
\<close>

theorem waitForDomain_first_call_counterexample:
  "lastDispatch ((world0 ())\<lparr>now := 1000\<rparr>) (js ''a.test'') = None \<and>
   sleeps (waitForDomain (envOf (\<lambda>k u. Threw [] [])) (js ''a.test'') (Some 1500)
             ((world0 ())\<lparr>now := 1000\<rparr>)) = [500] \<and>
   dispatchTimes (js ''a.test'')
     (dispatchLog (envOf (\<lambda>k u. Threw [] [])) (Some 3000000000)
        [(0, js ''a.test''), (0, js ''a.test'')] (world0 ())) = [1762000000000, 1762000000001] \<and>
   lastDispatch ((world0 ())\<lparr>rateLimiter :=
       \<lparr>lastRequestTime = [js ''a.test'' \<mapsto> 1765000000000], defaultDelayMs = 1500\<rparr>\<rparr>) (js ''a.test'')
     = Some 1765000000000 \<and>
   sleeps (waitForDomain (envOf (\<lambda>k u. Threw [] [])) (js ''a.test'') (Some 1500)
     ((world0 ())\<lparr>rateLimiter :=
       \<lparr>lastRequestTime = [js ''a.test'' \<mapsto> 1765000000000], defaultDelayMs = 1500\<rparr>\<rparr>)) = [3000001500] \<and>
   now (waitForDomain (envOf (\<lambda>k u. Threw [] [])) (js ''a.test'') (Some 1500)
     ((world0 ())\<lparr>rateLimiter :=
       \<lparr>lastRequestTime = [js ''a.test'' \<mapsto> 1765000000000], defaultDelayMs = 1500\<rparr>\<rparr>)) = 1762000000001 \<and>
   overlapped (envOf (\<lambda>k u. Threw [] [])) (js ''a.test'') (Some 1500)
     (waitForDomain (envOf (\<lambda>k u. Threw [] [])) (js ''a.test'') (Some 1500) (world0 ()))
     = Some (1762000001500, 1762000001500)"
  by (simp add: world0_def envOf_def lastDispatch_def waitForDomain_def sleep_def Let_def
      timerDelay_def TIMEOUT_MAX_def dispatchTimes_def overlapped_def waitBegin_def waitEnd_def)

section \<open>Properties of the parser\<close>

subsection \<open>Link extraction\<close>

lemma removeAll_filter_conv: "removeAll x (filter P xs) = filter (\<lambda>u. P u \<and> u \<noteq> x) xs"
  by (induction xs) auto

lemma keepFirst_set [simp]: "set (keepFirst xs) = set xs"
proof (induction xs rule: keepFirst.induct)
  case 1
  show ?case by simp
next
  case (2 x xs)
  then show ?case by auto
qed

lemma keepFirst_distinct: "distinct (keepFirst xs)"
proof (induction xs rule: keepFirst.induct)
  case 1
  show ?case by simp
next
  case (2 x xs)
  then show ?case by simp
qed

lemma linkStep_candidate:
  "linkStep p config (links, seen) el =
     (case candidateUrl p config el of
        None \<Rightarrow> (links, seen)
      | Some f \<Rightarrow>
          if f \<in> seen then (links, seen)
          else if isValidArticleUrl p f config then (links @ [f], insert f seen)
          else (links, seen))"
  by (auto simp add: linkStep_def candidateUrl_def split: option.splits)

lemma foldl_linkStep:
  "foldl (linkStep p config) (links, set links) els =
     (links @ keepFirst (filter (\<lambda>u. isValidArticleUrl p u config \<and> u \<notin> set links)
                 (List.map_filter (candidateUrl p config) els)),
      set (links @ keepFirst (filter (\<lambda>u. isValidArticleUrl p u config \<and> u \<notin> set links)
                 (List.map_filter (candidateUrl p config) els))))"
proof (induction els arbitrary: links)
  case Nil
  show ?case by simp
next
  case (Cons el els)
  show ?case
  proof (cases "candidateUrl p config el")
    case None
    then show ?thesis using Cons.IH [of links]
      by (simp add: linkStep_candidate)
  next
    case (Some f)
    show ?thesis
    proof (cases "f \<in> set links \<or> \<not> isValidArticleUrl p f config")
      case True
      then show ?thesis using Some Cons.IH [of links]
        by (auto simp add: linkStep_candidate)
    next
      case False
      have "(\<lambda>u. (isValidArticleUrl p u config \<and> u \<notin> set links) \<and> u \<noteq> f) =
            (\<lambda>u. isValidArticleUrl p u config \<and> u \<notin> set (links @ [f]))"
        by auto
      then show ?thesis using False Some Cons.IH [of "links @ [f]"]
        by (simp add: linkStep_candidate removeAll_filter_conv)
    qed
  qed
qed

lemma parseArticleLinks_keepFirst:
  "parseArticleLinks p html config =
     keepFirst (filter (\<lambda>u. isValidArticleUrl p u config) (candidates p html config))"
  using foldl_linkStep [of p config "[]"]
  by (simp add: parseArticleLinks_def candidates_def anchors_def)

lemma parseArticleLinks_distinct: "distinct (parseArticleLinks p html config)"
  by (simp add: parseArticleLinks_keepFirst keepFirst_distinct)

lemma isValidArticleUrl_facts:
  assumes "isValidArticleUrl p u config"
  shows "(\<forall>pat \<in> set skipPatterns. \<not> includesStr (toLowerCase p u) pat) \<and>
         (\<exists>h b. url_hostname p u = Some h \<and> url_hostname p (baseUrl config) = Some b \<and>
                includesStr h (replaceFirst (js ''www.'') [] b))"
  using assms
  by (auto simp add: isValidArticleUrl_def Let_def list_ex_iff split: if_splits option.splits)

lemma set_map_filter_conv: "set (List.map_filter g xs) = {y. \<exists>x \<in> set xs. g x = Some y}"
  by (induction xs) (auto split: option.splits)

lemma candidates_origin:
  assumes "u \<in> set (candidates p html config)"
  shows "\<exists>el \<in> set (anchors p html config). \<exists>href.
           map_of (attrs el) (js ''href'') = Some href \<and> resolveUrl p href (baseUrl config) = Some u"
  using assms
  by (auto simp add: candidates_def set_map_filter_conv candidateUrl_def split: option.splits if_splits)

text \<open>
  What link extraction does for every listing. The links are the valid candidates in
  document order, each kept at its first occurrence, so no link occurs twice. Every link is
  the resolved \<open>href\<close> of an anchor the link selector matches: the \<open>href\<close> itself when it
  starts with \<open>http\<close>, its resolution against the base URL otherwise. Every link is an
  absolute URL (it has a host), its lower-case form contains none of the twelve skip
  patterns, and its host contains the configured host, with the first \<open>www.\<close> removed, as a
  substring.
\<close>

lemma parseArticleLinks_facts:
  "distinct (parseArticleLinks p html config) \<and>
   parseArticleLinks p html config =
     keepFirst (filter (\<lambda>u. isValidArticleUrl p u config) (candidates p html config)) \<and>
   (\<forall>u \<in> set (parseArticleLinks p html config).
      (\<exists>el \<in> set (anchors p html config). \<exists>href.
          map_of (attrs el) (js ''href'') = Some href \<and>
          (if startsWith href (js ''http'') then u = href
           else url_resolve p href (baseUrl config) = Some u)) \<and>
      (\<forall>pat \<in> set skipPatterns. \<not> includesStr (toLowerCase p u) pat) \<and>
      (\<exists>h b. url_hostname p u = Some h \<and> url_hostname p (baseUrl config) = Some b \<and>
             includesStr h (replaceFirst (js ''www.'') [] b)))"
proof -
  have "(\<exists>el \<in> set (anchors p html config). \<exists>href.
          map_of (attrs el) (js ''href'') = Some href \<and>
          (if startsWith href (js ''http'') then u = href
           else url_resolve p href (baseUrl config) = Some u)) \<and>
      (\<forall>pat \<in> set skipPatterns. \<not> includesStr (toLowerCase p u) pat) \<and>
      (\<exists>h b. url_hostname p u = Some h \<and> url_hostname p (baseUrl config) = Some b \<and>
             includesStr h (replaceFirst (js ''www.'') [] b))"
    if "u \<in> set (parseArticleLinks p html config)" for u
  proof -
    from that have c: "u \<in> set (candidates p html config)" and v: "isValidArticleUrl p u config"
      by (simp_all add: parseArticleLinks_keepFirst)
    from candidates_origin [OF c]
    have "\<exists>el \<in> set (anchors p html config). \<exists>href.
          map_of (attrs el) (js ''href'') = Some href \<and>
          (if startsWith href (js ''http'') then u = href
           else url_resolve p href (baseUrl config) = Some u)"
      by (auto simp add: resolveUrl_def split: if_splits)
    with isValidArticleUrl_facts [OF v] show ?thesis by blast
  qed
  then show ?thesis
    using parseArticleLinks_distinct [of p html config] parseArticleLinks_keepFirst [of p html config]
    by blast
qed

lemmas link_defs = parseArticleLinks_def linkStep_def samplePlatform_def sampleConfig_def anchor_def
  resolveUrl_def sampleResolve_def sampleHostname_def isValidArticleUrl_def skipPatterns_def
  toLowerCase_def plain_def lowerUnit_def startsWith_def js_def Let_def

lemma sample_links:
  "parseArticleLinks
     (samplePlatform [(js ''L'', [(js ''a'',
        [anchor (js ''/read/123''), anchor (js ''/tag/finance''), anchor (js ''/category/x''),
         anchor (js ''#top''), anchor (js ''/read/123''), anchor (js ''/read/77'')])])])
     (js ''L'') (sampleConfig (js ''A'') (js ''https://www.a.test/news/''))
   = [js ''https://www.a.test/read/123'', js ''https://www.a.test/read/77'']"
  by (simp add: link_defs)

text \<open>
  Claim C5. The code keeps a link to another site whose host name merely contains the
  configured one. On the listing of \<open>www.cnbcindonesia.com\<close> the links to that host and to its
  subdomain \<open>m.cnbcindonesia.com\<close> are returned, as the claim has it, and so is the link to
  \<open>cnbcindonesia.com.mirror.test\<close>, a host that is neither the configured one nor a subdomain
  of it, with or without \<open>www.\<close>: the test of the source is \<open>includes\<close>, under the comment
  that the link must be from the same domain.
\<close>

theorem parseArticleLinks_foreign_host:
  "parseArticleLinks
     (samplePlatform [(js ''L'', [(js ''a'',
        [anchor (js ''https://www.cnbcindonesia.com/market/x0''),
         anchor (js ''https://m.cnbcindonesia.com/market/x1''),
         anchor (js ''https://cnbcindonesia.com.mirror.test/market/x2'')])])])
     (js ''L'') (sampleConfig (js ''CNBC Indonesia'') (js ''https://www.cnbcindonesia.com/market/''))
   = [js ''https://www.cnbcindonesia.com/market/x0'',
      js ''https://m.cnbcindonesia.com/market/x1'',
      js ''https://cnbcindonesia.com.mirror.test/market/x2''] \<and>
   sampleHostname (js ''https://www.cnbcindonesia.com/market/'') = Some (js ''www.cnbcindonesia.com'') \<and>
   sampleHostname (js ''https://m.cnbcindonesia.com/market/x1'') = Some (js ''m.cnbcindonesia.com'') \<and>
   sampleHostname (js ''https://cnbcindonesia.com.mirror.test/market/x2'')
     = Some (js ''cnbcindonesia.com.mirror.test'') \<and>
   sameSite (js ''www.cnbcindonesia.com'') (js ''www.cnbcindonesia.com'') \<and>
   sameSite (js ''m.cnbcindonesia.com'') (js ''www.cnbcindonesia.com'') \<and>
   \<not> sameSite (js ''cnbcindonesia.com.mirror.test'') (js ''www.cnbcindonesia.com'')"
  by (simp add: link_defs sameSite_def stripWww_def endsWith_def)

subsection \<open>Document extraction\<close>

lemma trim_head:
  assumes "trim s \<noteq> []"
  shows "\<exists>c cs. trim s = c # cs \<and> \<not> isSpace c"
proof -
  let ?t = "dropWhile isSpace s"
  have "?t \<noteq> []"
  proof
    assume a: "?t = []"
    have "trim s = rev (dropWhile isSpace (rev ?t))" by (simp add: trim_def)
    also have "\<dots> = []" unfolding a by simp
    finally show False using assms by simp
  qed
  then obtain c cs where t: "?t = c # cs" by (cases ?t) auto
  have ns: "\<not> isSpace c" using hd_dropWhile [of isSpace s] t by auto
  have "dropWhile isSpace (rev cs @ [c]) = dropWhile isSpace (rev cs) @ [c]"
    using ns by (simp add: dropWhile_append3 dropWhile_append)
  then have "trim s = c # rev (dropWhile isSpace (rev cs))"
    using t by (simp add: trim_def)
  with ns show ?thesis by blast
qed

lemma trim_nonspace_head:
  assumes "\<not> isSpace c"
  shows "trim (c # cs) \<noteq> []"
proof -
  have "dropWhile isSpace (rev cs @ [c]) \<noteq> []"
    using assms by (simp add: dropWhile_eq_Nil_conv)
  then show ?thesis using assms by (simp add: trim_def)
qed

lemma cleanText_nonempty:
  assumes "trim s \<noteq> []"
  shows "cleanText (trim s) \<noteq> []"
proof -
  from trim_head [OF assms] obtain c cs where t: "trim s = c # cs" and ns: "\<not> isSpace c" by blast
  from ns have c10: "c \<noteq> 10" by (auto simp add: isSpace_def)
  have "collapseSpaces (c # cs) = c # collapseSpaces cs" using ns by simp
  moreover have "replaceBlankLines (c # collapseSpaces cs) = c # replaceBlankLines (collapseSpaces cs)"
    using c10 by (simp add: Let_def)
  ultimately show ?thesis using t ns by (simp add: cleanText_def trim_nonspace_head)
qed

lemma extractTitleFrom_None:
  "extractTitleFrom p d sels = None \<longleftrightarrow> (\<forall>sel \<in> set sels. \<not> qualifies p d sel)"
  by (induction sels) (auto simp add: qualifies_def titleText_def Let_def)

lemma extractTitleFrom_Some:
  "extractTitleFrom p d sels = Some t \<Longrightarrow>
     \<exists>sel. find (qualifies p d) sels = Some sel \<and> t = cleanText (titleText p d sel)"
  by (induction sels) (auto simp add: qualifies_def titleText_def Let_def split: if_splits)

lemma extractTitleFrom_nonempty: "extractTitleFrom p d sels = Some t \<Longrightarrow> t \<noteq> []"
proof (induction sels)
  case Nil
  then show ?case by simp
next
  case (Cons sel sels)
  show ?case
  proof (cases "qualifies p d sel")
    case True
    then have ne: "trim (firstText (cheerio_select p d sel)) \<noteq> []"
      and len: "10 < length (trim (firstText (cheerio_select p d sel)))"
      by (auto simp add: qualifies_def titleText_def)
    from Cons.prems ne len have "t = cleanText (trim (firstText (cheerio_select p d sel)))"
      by (simp add: Let_def)
    with cleanText_nonempty [OF ne] show ?thesis by simp
  next
    case False
    with Cons show ?thesis by (auto simp add: qualifies_def titleText_def Let_def)
  qed
qed

lemma parseArticle_eq:
  "parseArticle p html u config =
     (case extractTitleFrom p (prepared p html config) (selectorList (titleSelector config)) of
        None \<Rightarrow> None
      | Some t \<Rightarrow>
          Some \<lparr>url = u, title = t,
                content = extractContent p (prepared p html config) (contentSelector config),
                publishedAt = extractDate p (prepared p html config) (dateSelector config),
                portal = name config\<rparr>)"
  by (auto simp add: parseArticle_def prepared_def extractTitle_def Let_def
      dest: extractTitleFrom_nonempty split: option.splits)

lemma filter_long: "filter (\<lambda>text. text \<noteq> [] \<and> length text > n) xs = filter (\<lambda>text. length text > n) xs"
  by (rule filter_cong) auto

lemma extractContentFrom_None:
  "extractContentFrom p d sels = None \<longleftrightarrow> (\<forall>sel \<in> set sels. bodyless (cheerio_select p d sel))"
proof (induction sels)
  case Nil
  show ?case by simp
next
  case (Cons sel sels)
  show ?case
  proof (cases "cheerio_select p d sel")
    case Nil
    with Cons show ?thesis by (simp add: bodyless_def)
  next
    case (Cons el els)
    show ?thesis
    proof (cases "bodyless (cheerio_select p d sel)")
      case True
      with Cons Cons.IH show ?thesis
        by (simp add: bodyless_def filter_long Let_def)
    next
      case False
      with Cons show ?thesis
        by (auto simp add: bodyless_def filter_long Let_def)
    qed
  qed
qed

lemma parseIsoIn_None:
  "(case searchIso s of None \<Rightarrow> True | Some m \<Rightarrow> date_parse p m = InvalidDate)
     \<Longrightarrow> parseIsoIn p s = None"
  by (cases "searchIso s") (simp_all add: parseIsoIn_def isValidDate_def Let_def)

lemma parseIndonesianDate_unparseable:
  assumes "unparseable p text"
  shows "parseIndonesianDate p text = None"
proof -
  from assms have iso: "parseIsoIn p text = None"
    by (intro parseIsoIn_None) (simp add: unparseable_def)
  show ?thesis
  proof (cases "searchDate text")
    case None
    with iso show ?thesis by (simp add: parseIndonesianDate_def)
  next
    case (Some m)
    obtain dd ww yy where m: "m = (dd, ww, yy)" by (cases m)
    from assms Some m have
      "monthsGet (toLowerCase p ww) = None \<or> parseInt10 dd = 0 \<or> parseInt10 yy \<le> 2000"
      by (simp add: unparseable_def)
    with Some m iso show ?thesis
      by (auto simp add: parseIndonesianDate_def Let_def split: option.splits)
  qed
qed

lemma extractDateFrom_unreadable:
  "\<forall>sel \<in> set sels. unreadable p (cheerio_select p d sel) \<Longrightarrow> extractDateFrom p d sels = None"
proof (induction sels)
  case Nil
  show ?case by simp
next
  case (Cons sel sels)
  let ?els = "cheerio_select p d sel"
  from Cons.prems have u: "unreadable p ?els" and rest: "\<forall>s \<in> set sels. unreadable p (cheerio_select p d s)"
    by simp_all
  from u have attr: "(case (case ?els of [] \<Rightarrow> None | el # _ \<Rightarrow> map_of (attrs el) (js ''datetime'')) of
        None \<Rightarrow> None
      | Some v \<Rightarrow> if v = [] then None
                  else (let parsed = date_parse p v in if isValidDate parsed then Some parsed else None)) = None"
    by (auto simp add: unreadable_def isValidDate_def Let_def split: list.splits option.splits)
  from u have tx: "(if trim (firstText ?els) \<noteq> [] then parseIndonesianDate p (trim (firstText ?els)) else None) = None"
    by (auto simp add: unreadable_def parseIndonesianDate_unparseable)
  show ?case
    using Cons.IH [OF rest] attr tx by (simp add: Let_def)
qed

lemma unreadable_Nil: "unreadable p []"
  by (simp add: unreadable_def firstText_def trim_def)

text \<open>
  Claim C6, as amended. \<open>parseArticle\<close> fails exactly when no selector of the title list
  qualifies, that is, when for none of them the trimmed text of the first matching element
  has more than 10 characters. When it succeeds, the title is the text of the first
  qualifying selector after \<open>cleanText\<close> (runs of white space collapsed to one space), and the
  body and the timestamp are whatever their extraction gives, \<open>null\<close> included: with a
  qualifying title, a missing body and a missing timestamp the parser still returns a
  document, with both fields \<open>null\<close>. The body is \<open>null\<close> exactly when no content selector
  yields one, so where none matches an element. The timestamp is \<open>null\<close> where there is no
  date selector, and where what every date selector matches is unreadable: no element, or
  an element without a valid \<open>datetime\<close> whose text is empty or holds no date.
\<close>

theorem parseArticle_spec:
  "(parseArticle p html u config = None \<longleftrightarrow>
      (\<forall>sel \<in> set (selectorList (titleSelector config)). \<not> qualifies p (prepared p html config) sel)) \<and>
   (\<forall>a. parseArticle p html u config = Some a \<longrightarrow>
      (\<exists>sel. find (qualifies p (prepared p html config)) (selectorList (titleSelector config)) = Some sel \<and>
            title a = cleanText (titleText p (prepared p html config) sel)) \<and>
      content a = extractContent p (prepared p html config) (contentSelector config) \<and>
      publishedAt a = extractDate p (prepared p html config) (dateSelector config) \<and>
      url a = u \<and> portal a = name config) \<and>
   ((\<exists>sel \<in> set (selectorList (titleSelector config)). qualifies p (prepared p html config) sel) \<and>
    extractContent p (prepared p html config) (contentSelector config) = None \<and>
    extractDate p (prepared p html config) (dateSelector config) = None \<longrightarrow>
      (\<exists>a. parseArticle p html u config = Some a \<and> content a = None \<and> publishedAt a = None)) \<and>
   (extractContent p (prepared p html config) (contentSelector config) = None \<longleftrightarrow>
      (\<forall>sel \<in> set (selectorList (contentSelector config)).
         bodyless (cheerio_select p (prepared p html config) sel))) \<and>
   ((\<forall>sel \<in> set (selectorList (contentSelector config)).
        cheerio_select p (prepared p html config) sel = []) \<longrightarrow>
      extractContent p (prepared p html config) (contentSelector config) = None) \<and>
   (dateSelector config = None \<or>
    (\<forall>s sel. dateSelector config = Some s \<longrightarrow> sel \<in> set (selectorList s) \<longrightarrow>
        unreadable p (cheerio_select p (prepared p html config) sel)) \<longrightarrow>
      extractDate p (prepared p html config) (dateSelector config) = None) \<and>
   (\<forall>a. parseArticle p html u config = Some a \<and>
        (\<forall>s sel. dateSelector config = Some s \<longrightarrow> sel \<in> set (selectorList s) \<longrightarrow>
           unreadable p (cheerio_select p (prepared p html config) sel)) \<longrightarrow>
      publishedAt a = None)"
proof -
  let ?d = "prepared p html config"
  let ?sels = "selectorList (titleSelector config)"
  have 1: "parseArticle p html u config = None \<longleftrightarrow> (\<forall>sel \<in> set ?sels. \<not> qualifies p ?d sel)"
    using extractTitleFrom_None [of p ?d ?sels]
    by (cases "extractTitleFrom p ?d ?sels") (auto simp add: parseArticle_eq)
  have 2: "(\<exists>sel. find (qualifies p ?d) ?sels = Some sel \<and> title a = cleanText (titleText p ?d sel)) \<and>
      content a = extractContent p ?d (contentSelector config) \<and>
      publishedAt a = extractDate p ?d (dateSelector config) \<and>
      url a = u \<and> portal a = name config"
    if "parseArticle p html u config = Some a" for a
    using that extractTitleFrom_Some [of p ?d ?sels]
    by (auto simp add: parseArticle_eq split: option.splits)
  have 3: "\<exists>a. parseArticle p html u config = Some a \<and> content a = None \<and> publishedAt a = None"
    if "\<exists>sel \<in> set ?sels. qualifies p ?d sel"
      "extractContent p ?d (contentSelector config) = None"
      "extractDate p ?d (dateSelector config) = None"
    using that extractTitleFrom_None [of p ?d ?sels]
    by (cases "extractTitleFrom p ?d ?sels") (auto simp add: parseArticle_eq)
  have 4: "extractContent p ?d (contentSelector config) = None \<longleftrightarrow>
      (\<forall>sel \<in> set (selectorList (contentSelector config)). bodyless (cheerio_select p ?d sel))"
    by (simp add: extractContent_def extractContentFrom_None)
  have 5: "extractContent p ?d (contentSelector config) = None"
    if "\<forall>sel \<in> set (selectorList (contentSelector config)). cheerio_select p ?d sel = []"
    using that by (simp add: 4 bodyless_def)
  have 6: "extractDate p ?d (dateSelector config) = None"
    if "dateSelector config = None \<or>
        (\<forall>s sel. dateSelector config = Some s \<longrightarrow> sel \<in> set (selectorList s) \<longrightarrow>
           unreadable p (cheerio_select p ?d sel))"
    using that by (auto simp add: extractDate_def extractDateFrom_unreadable split: option.splits)
  have 7: "publishedAt a = None"
    if "parseArticle p html u config = Some a"
      "\<forall>s sel. dateSelector config = Some s \<longrightarrow> sel \<in> set (selectorList s) \<longrightarrow>
           unreadable p (cheerio_select p ?d sel)" for a
    using 2 [OF that(1)] 6 that(2) by simp
  from 1 2 3 4 5 6 7 show ?thesis by blast
qed

lemmas page_defs = parseArticle_def samplePlatform_def sampleConfig_def extractTitle_def
  extractContent_def extractDate_def selectorList_def firstText_def cleanText_def trim_def
  isSpace_def js_def Let_def

lemmas date_defs = parseIndonesianDate_def parseIsoIn_def matchDateAt_def matchIsoAt_def
  monthsGet_def months_def objectPrototype_def toLowerCase_def plain_def lowerUnit_def
  parseInt10_def isDigit_def isWord_def isValidDate_def

lemma sample_article:
  "parseArticle
     (samplePlatform [(js ''P'', [(js ''h1'', [Element [] (js ''  Laba  BCA naik tajam '') []]),
                                 (js ''time'', [Element [] (js ''kemarin sore'') []])])])
     (js ''P'') (js ''https://www.a.test/read/1'') (sampleConfig (js ''A'') (js ''https://www.a.test/news/''))
   = Some \<lparr>url = js ''https://www.a.test/read/1'', title = js ''Laba BCA naik tajam'',
           content = None, publishedAt = None, portal = js ''A''\<rparr>"
  by (simp add: page_defs date_defs)

text \<open>A text with a date of the month table is read as that date, at local midnight.\<close>

lemma sample_dated:
  "map_option publishedAt
     (parseArticle
        (samplePlatform [(js ''P'', [(js ''h1'', [Element [] (js ''Laba BCA naik tajam'') []]),
                                    (js ''time'', [Element [] (js ''Senin, 03 Feb 2025 10:30 WIB'') []])])])
        (js ''P'') (js ''https://www.a.test/read/1'')
        (sampleConfig (js ''A'') (js ''https://www.a.test/news/'')))
   = Some (Some (DateOf (date_local (samplePlatform []) 2025 1 3)))"
  by (simp add: page_defs date_defs)

theorem parseArticle_spec_witness:
  "(\<exists>sel \<in> set (selectorList (titleSelector (sampleConfig (js ''A'') (js ''https://www.a.test/news/'')))).
      qualifies (samplePlatform [(js ''P'', [(js ''h1'', [Element [] (js ''  Laba  BCA naik tajam '') []]),
                                 (js ''time'', [Element [] (js ''kemarin sore'') []])])])
        (prepared (samplePlatform [(js ''P'', [(js ''h1'', [Element [] (js ''  Laba  BCA naik tajam '') []]),
                                 (js ''time'', [Element [] (js ''kemarin sore'') []])])])
           (js ''P'') (sampleConfig (js ''A'') (js ''https://www.a.test/news/''))) sel) \<and>
   unreadable (samplePlatform [(js ''P'', [(js ''h1'', [Element [] (js ''  Laba  BCA naik tajam '') []]),
                                 (js ''time'', [Element [] (js ''kemarin sore'') []])])])
     [Element [] (js ''kemarin sore'') []] \<and>
   bodyless [] \<and>
   parseArticle
     (samplePlatform [(js ''P'', [(js ''h1'', [Element [] (js ''  Laba  BCA naik tajam '') []]),
                                 (js ''time'', [Element [] (js ''kemarin sore'') []])])])
     (js ''P'') (js ''https://www.a.test/read/1'') (sampleConfig (js ''A'') (js ''https://www.a.test/news/''))
   = Some \<lparr>url = js ''https://www.a.test/read/1'', title = js ''Laba BCA naik tajam'',
           content = None, publishedAt = None, portal = js ''A''\<rparr> \<and>
   parseArticle
     (samplePlatform [(js ''P'', [(js ''h1'', [Element [] (js ''Terkini'') []])])])
     (js ''P'') (js ''https://www.a.test/read/1'') (sampleConfig (js ''A'') (js ''https://www.a.test/news/''))
   = None"
proof -
  let ?P = "samplePlatform [(js ''P'', [(js ''h1'', [Element [] (js ''  Laba  BCA naik tajam '') []]),
                                 (js ''time'', [Element [] (js ''kemarin sore'') []])])]"
  let ?Q = "samplePlatform [(js ''P'', [(js ''h1'', [Element [] (js ''Terkini'') []])])]"
  let ?c = "sampleConfig (js ''A'') (js ''https://www.a.test/news/'')"
  note th = parseArticle_spec [of ?P "js ''P''" "js ''https://www.a.test/read/1''" ?c]
  note th0 = parseArticle_spec [of ?Q "js ''P''" "js ''https://www.a.test/read/1''" ?c]
  have q: "\<exists>sel \<in> set (selectorList (titleSelector ?c)). qualifies ?P (prepared ?P (js ''P'') ?c) sel"
    by (simp add: samplePlatform_def sampleConfig_def selectorList_def qualifies_def titleText_def
        prepared_def firstText_def trim_def isSpace_def js_def)
  have nq: "\<forall>sel \<in> set (selectorList (titleSelector ?c)). \<not> qualifies ?Q (prepared ?Q (js ''P'') ?c) sel"
    by (simp add: samplePlatform_def sampleConfig_def selectorList_def qualifies_def titleText_def
        prepared_def firstText_def trim_def isSpace_def js_def)
  have un: "unreadable ?P [Element [] (js ''kemarin sore'') []]"
    by (simp add: unreadable_def unparseable_def firstText_def trim_def isSpace_def js_def
        matchDateAt_def matchIsoAt_def isDigit_def)
  have sel: "\<forall>s sel. dateSelector ?c = Some s \<longrightarrow> sel \<in> set (selectorList s) \<longrightarrow>
        unreadable ?P (cheerio_select ?P (prepared ?P (js ''P'') ?c) sel)"
    using un
    by (simp add: samplePlatform_def sampleConfig_def selectorList_def prepared_def trim_def
        isSpace_def js_def)
  have body: "\<forall>sel \<in> set (selectorList (contentSelector ?c)).
        cheerio_select ?P (prepared ?P (js ''P'') ?c) sel = []"
    by (simp add: samplePlatform_def sampleConfig_def selectorList_def prepared_def trim_def
        isSpace_def js_def)
  from th q body sel obtain a where a: "parseArticle ?P (js ''P'') (js ''https://www.a.test/read/1'') ?c = Some a"
    "content a = None" "publishedAt a = None"
    by blast
  from th0 nq have none: "parseArticle ?Q (js ''P'') (js ''https://www.a.test/read/1'') ?c = None"
    by blast
  show ?thesis
    using q un none a by (simp add: sample_article bodyless_def)
qed

text \<open>
  The title is not the qualifying text itself where that text holds a run of white space:
  it is returned with the run collapsed. A rendered text of 13 characters, 7 of them left
  when it is trimmed, does not qualify. And a timestamp text that reads as day, word and
  year, with a word the month table inherits, gives the Invalid Date and not \<open>null\<close>.
\<close>

theorem parseArticle_title_counterexample:
  "map_option title
     (parseArticle
        (samplePlatform [(js ''P'', [(js ''h1'', [Element [] (js ''  Laba  BCA naik tajam '') []]),
                                    (js ''time'', [Element [] (js ''3 constructor 2025'') []])])])
        (js ''P'') (js ''https://www.a.test/read/1'')
        (sampleConfig (js ''A'') (js ''https://www.a.test/news/'')))
     = Some (js ''Laba BCA naik tajam'') \<and>
   find (qualifies (samplePlatform [(js ''P'', [(js ''h1'', [Element [] (js ''  Laba  BCA naik tajam '') []]),
                                    (js ''time'', [Element [] (js ''3 constructor 2025'') []])])])
          (prepared (samplePlatform [(js ''P'', [(js ''h1'', [Element [] (js ''  Laba  BCA naik tajam '') []]),
                                    (js ''time'', [Element [] (js ''3 constructor 2025'') []])])])
             (js ''P'') (sampleConfig (js ''A'') (js ''https://www.a.test/news/''))))
        (selectorList (titleSelector (sampleConfig (js ''A'') (js ''https://www.a.test/news/''))))
     = Some (js ''h1'') \<and>
   titleText (samplePlatform [(js ''P'', [(js ''h1'', [Element [] (js ''  Laba  BCA naik tajam '') []]),
                                    (js ''time'', [Element [] (js ''3 constructor 2025'') []])])])
     (prepared (samplePlatform [(js ''P'', [(js ''h1'', [Element [] (js ''  Laba  BCA naik tajam '') []]),
                                    (js ''time'', [Element [] (js ''3 constructor 2025'') []])])])
        (js ''P'') (sampleConfig (js ''A'') (js ''https://www.a.test/news/''))) (js ''h1'')
     = js ''Laba  BCA naik tajam'' \<and>
   js ''Laba BCA naik tajam'' \<noteq> js ''Laba  BCA naik tajam'' \<and>
   map_option publishedAt
     (parseArticle
        (samplePlatform [(js ''P'', [(js ''h1'', [Element [] (js ''  Laba  BCA naik tajam '') []]),
                                    (js ''time'', [Element [] (js ''3 constructor 2025'') []])])])
        (js ''P'') (js ''https://www.a.test/read/1'')
        (sampleConfig (js ''A'') (js ''https://www.a.test/news/'')))
     = Some (Some InvalidDate) \<and>
   length (firstText (cheerio_select
      (samplePlatform [(js ''P'', [(js ''h1'', [Element [] (js ''   Terkini   '') []])])])
      (prepared (samplePlatform [(js ''P'', [(js ''h1'', [Element [] (js ''   Terkini   '') []])])])
         (js ''P'') (sampleConfig (js ''A'') (js ''https://www.a.test/news/'')))
      (js ''h1''))) = 13 \<and>
   parseArticle
     (samplePlatform [(js ''P'', [(js ''h1'', [Element [] (js ''   Terkini   '') []])])])
     (js ''P'') (js ''https://www.a.test/read/1'') (sampleConfig (js ''A'') (js ''https://www.a.test/news/''))
   = None"
proof -
  let ?P = "samplePlatform [(js ''P'', [(js ''h1'', [Element [] (js ''  Laba  BCA naik tajam '') []]),
                                    (js ''time'', [Element [] (js ''3 constructor 2025'') []])])]"
  let ?c = "sampleConfig (js ''A'') (js ''https://www.a.test/news/'')"
  have a: "parseArticle ?P (js ''P'') (js ''https://www.a.test/read/1'') ?c =
      Some \<lparr>url = js ''https://www.a.test/read/1'', title = js ''Laba BCA naik tajam'',
           content = None, publishedAt = Some InvalidDate, portal = js ''A''\<rparr>"
    by (simp add: page_defs date_defs)
  have b: "parseArticle
     (samplePlatform [(js ''P'', [(js ''h1'', [Element [] (js ''   Terkini   '') []])])])
     (js ''P'') (js ''https://www.a.test/read/1'') ?c = None"
    by (simp add: page_defs)
  show ?thesis
    by (simp add: a b)
       (simp add: samplePlatform_def sampleConfig_def selectorList_def qualifies_def titleText_def
        prepared_def firstText_def trim_def isSpace_def js_def)
qed

section \<open>Properties of the orchestrator\<close>

lemma tryAttempt_frame:
  assumes "tryAttempt e u w = (res, w1)"
  shows "requests w1 = requests w @ [u] \<and> store w1 = store w \<and> inserted w1 = inserted w"
  using assms
  by (auto simp add: tryAttempt_def fetch_def split: attempt_result.splits if_splits)

lemma sleep_frame [simp]:
  "store (sleep e ms w) = store w"
  "inserted (sleep e ms w) = inserted w"
  by (simp_all add: sleep_def)

lemma fetchLoop_frame:
  "\<exists>n. requests (snd (fetchLoop e u ms r d attempt le w)) = requests w @ replicate n u \<and>
       (attempt \<le> r \<longrightarrow> 1 \<le> n) \<and>
       store (snd (fetchLoop e u ms r d attempt le w)) = store w \<and>
       inserted (snd (fetchLoop e u ms r d attempt le w)) = inserted w"
proof (induction e u ms r d attempt le w rule: fetchLoop.induct)
  case (1 e u t r d attempt lastError w)
  show ?case
  proof (cases "attempt \<le> r")
    case False
    then show ?thesis by (subst (1 2 3) fetchLoop.simps) simp
  next
    case True
    obtain res w1 where ta: "tryAttempt e u w = (res, w1)" by (cases "tryAttempt e u w")
    note fr = tryAttempt_frame [OF ta]
    show ?thesis
    proof (cases res)
      case (Inr html)
      with True ta fr show ?thesis
        by (subst (1 2 3) fetchLoop.simps) (auto intro: exI [of _ 1])
    next
      case (Inl err)
      let ?le = "if exnName err = js ''AbortError'' then timeoutError t else err"
      show ?thesis
      proof (cases "noRetry ?le")
        case True
        with \<open>attempt \<le> r\<close> ta fr Inl show ?thesis
          by (subst (1 2 3) fetchLoop.simps) (auto simp add: Let_def intro: exI [of _ 1])
      next
        case False
        let ?w2 = "if attempt < r then sleep e (d * (attempt + 1)) w1 else w1"
        let ?res = "fetchLoop e u t r d (attempt + 1) (Some ?le) ?w2"
        from "1.IH" [OF True ta [symmetric] Inl refl False]
        obtain n where ih: "requests (snd ?res) = requests ?w2 @ replicate n u"
          "store (snd ?res) = store ?w2" "inserted (snd ?res) = inserted ?w2"
          by auto
        have eq: "fetchLoop e u t r d attempt lastError w = ?res"
          using True ta Inl False by (subst fetchLoop.simps) (simp add: Let_def)
        have "requests (snd ?res) = requests w @ replicate (Suc n) u"
          using ih(1) fr by (simp add: replicate_app_Cons_same)
        moreover have "store (snd ?res) = store w" "inserted (snd ?res) = inserted w"
          using ih(2,3) fr by simp_all
        ultimately show ?thesis unfolding eq by (intro exI [of _ "Suc n"]) simp
      qed
    qed
  qed
qed

lemma fetchWithRetry_frame:
  "\<exists>n. requests (snd (fetchWithRetry e u noOptions w)) = requests w @ replicate n u \<and> 1 \<le> n \<and>
       store (snd (fetchWithRetry e u noOptions w)) = store w \<and>
       inserted (snd (fetchWithRetry e u noOptions w)) = inserted w"
  using fetchLoop_frame [of e u "Some 15000" 2 1000 0 None w]
  by (simp add: fetchWithRetry_def noOptions_def spread_def DEFAULT_FETCH_OPTIONS_def)

lemma waitForDomain_frame [simp]:
  "requests (waitForDomain e domain delay_opt w) = requests w"
  "store (waitForDomain e domain delay_opt w) = store w"
  "inserted (waitForDomain e domain delay_opt w) = inserted w"
  by (simp_all add: waitForDomain_def Let_def sleep_def)

lemma parseArticle_title: "parseArticle p html u config = Some a \<Longrightarrow> title a \<noteq> []"
  by (auto simp add: parseArticle_eq dest: extractTitleFrom_nonempty split: option.splits)

lemma processArticle_outcome:
  "processArticle e p db config domain (c, n, errs, w) u =
     (c + (if isParsed (linkOutcome e p db config domain w u) then 1 else 0),
      n + (if linkOutcome e p db config domain w u = Stored then 1 else 0),
      errs @ outcomeErrors u (linkOutcome e p db config domain w u),
      afterLink e p db config domain w u)"
  by (auto simp add: processArticle_def linkOutcome_def afterLink_def Let_def
      dest: parseArticle_title split: prod.splits sum.splits option.splits bool.splits)

lemma length_linkOutcomes [simp]: "length (linkOutcomes e p db config domain w us) = length us"
  by (induction us arbitrary: w) simp_all

lemma foldl_processArticle:
  "foldl (processArticle e p db config domain) (c, n, errs, w) us =
     (c + length (filter isParsed (linkOutcomes e p db config domain w us)),
      n + length (filter (\<lambda>x. x = Stored) (linkOutcomes e p db config domain w us)),
      errs @ concat (map2 outcomeErrors us (linkOutcomes e p db config domain w us)),
      afterLinks e p db config domain w us)"
proof (induction us arbitrary: c n errs w)
  case Nil
  show ?case by simp
next
  case (Cons u us)
  show ?case
    by (simp add: processArticle_outcome Cons.IH)
qed

lemma afterLink_frame:
  "\<exists>k. requests (afterLink e p db config domain w u) = requests w @ replicate k u \<and> 1 \<le> k"
proof -
  let ?w1 = "waitForDomain e domain (delayMs config) w"
  obtain res w2 where f: "fetchWithRetry e u noOptions ?w1 = (res, w2)"
    by (cases "fetchWithRetry e u noOptions ?w1")
  from fetchWithRetry_frame [of e u ?w1] f
  obtain k where k: "requests w2 = requests w @ replicate k u" "1 \<le> k" by auto
  have "requests (afterLink e p db config domain w u) = requests w2"
    using f
    by (auto simp add: afterLink_def processArticle_def Let_def
        split: prod.splits sum.splits option.splits bool.splits)
  with k show ?thesis by auto
qed

lemma afterLink_inserted:
  "\<exists>recs. inserted (afterLink e p db config domain w u) = inserted w @ recs \<and>
          length recs = (if linkOutcome e p db config domain w u = Stored then 1 else 0)"
proof -
  let ?w1 = "waitForDomain e domain (delayMs config) w"
  obtain res w2 where f: "fetchWithRetry e u noOptions ?w1 = (res, w2)"
    by (cases "fetchWithRetry e u noOptions ?w1")
  from fetchWithRetry_frame [of e u ?w1] f
  have ins: "inserted w2 = inserted w" by auto
  show ?thesis
    using f ins
    by (auto simp add: afterLink_def processArticle_def linkOutcome_def Let_def
        dest: parseArticle_title
        split: prod.splits sum.splits option.splits bool.splits)
qed

lemma afterLinks_requests:
  "\<exists>ns. length ns = length us \<and> list_all (\<lambda>n. 1 \<le> n) ns \<and>
        requests (afterLinks e p db config domain w us) = requests w @ concat (map2 replicate ns us)"
proof (induction us arbitrary: w)
  case Nil
  show ?case by simp
next
  case (Cons u us)
  from afterLink_frame [of e p db config domain w u]
  obtain k where k: "requests (afterLink e p db config domain w u) = requests w @ replicate k u" "1 \<le> k"
    by auto
  from Cons.IH [of "afterLink e p db config domain w u"]
  obtain ns where ns: "length ns = length us" "list_all (\<lambda>n. 1 \<le> n) ns"
    "requests (afterLinks e p db config domain (afterLink e p db config domain w u) us) =
       requests (afterLink e p db config domain w u) @ concat (map2 replicate ns us)"
    by auto
  show ?case using k ns by (intro exI [of _ "k # ns"]) simp
qed

lemma afterLinks_inserted:
  "\<exists>recs. inserted (afterLinks e p db config domain w us) = inserted w @ recs \<and>
          length recs = length (filter (\<lambda>x. x = Stored) (linkOutcomes e p db config domain w us))"
proof (induction us arbitrary: w)
  case Nil
  show ?case by simp
next
  case (Cons u us)
  from afterLink_inserted [of e p db config domain w u]
  obtain r1 where r1: "inserted (afterLink e p db config domain w u) = inserted w @ r1"
    "length r1 = (if linkOutcome e p db config domain w u = Stored then 1 else 0)"
    by auto
  from Cons.IH [of "afterLink e p db config domain w u"]
  obtain r2 where r2:
    "inserted (afterLinks e p db config domain (afterLink e p db config domain w u) us) =
       inserted (afterLink e p db config domain w u) @ r2"
    "length r2 = length (filter (\<lambda>x. x = Stored)
        (linkOutcomes e p db config domain (afterLink e p db config domain w u) us))"
    by auto
  show ?case using r1 r2 by (intro exI [of _ "r1 @ r2"]) simp
qed

lemma afterLink_stored:
  "\<exists>recs. inserted (afterLink e p db config domain w u) = inserted w @ recs \<and>
          map url recs = (if linkOutcome e p db config domain w u = Stored then [u] else [])"
proof -
  let ?w1 = "waitForDomain e domain (delayMs config) w"
  obtain res w2 where f: "fetchWithRetry e u noOptions ?w1 = (res, w2)"
    by (cases "fetchWithRetry e u noOptions ?w1")
  from fetchWithRetry_frame [of e u ?w1] f
  have ins: "inserted w2 = inserted w" by auto
  have pu: "url a = u" if "parseArticle p html u config = Some a" for a html
    using that by (auto simp add: parseArticle_eq split: option.splits)
  show ?thesis
    using f ins
    by (auto simp add: afterLink_def processArticle_def linkOutcome_def Let_def
        dest: parseArticle_title pu
        split: prod.splits sum.splits option.splits bool.splits)
qed

lemma afterLinks_stored:
  "\<exists>recs. inserted (afterLinks e p db config domain w us) = inserted w @ recs \<and>
          map url recs =
            map fst (filter (\<lambda>x. snd x = Stored) (zip us (linkOutcomes e p db config domain w us)))"
proof (induction us arbitrary: w)
  case Nil
  show ?case by simp
next
  case (Cons u us)
  from afterLink_stored [of e p db config domain w u]
  obtain r1 where r1: "inserted (afterLink e p db config domain w u) = inserted w @ r1"
    "map url r1 = (if linkOutcome e p db config domain w u = Stored then [u] else [])"
    by auto
  from Cons.IH [of "afterLink e p db config domain w u"]
  obtain r2 where r2:
    "inserted (afterLinks e p db config domain (afterLink e p db config domain w u) us) =
       inserted (afterLink e p db config domain w u) @ r2"
    "map url r2 = map fst (filter (\<lambda>x. snd x = Stored)
        (zip us (linkOutcomes e p db config domain (afterLink e p db config domain w u) us)))"
    by auto
  show ?case using r1 r2 by (intro exI [of _ "r1 @ r2"]) simp
qed

lemma crawlPortal_failed:
  assumes "fst (listingFetch e p config w) = Inl err"
  shows "crawlPortal e p db config w =
           (\<lparr>resultPortal = name config, success = False, articlesFound = 0, articlesCrawled = 0,
             newArticles = 0, errors = [portalError err],
             durationMs = now (snd (listingFetch e p config w)) - now w\<rparr>,
            snd (listingFetch e p config w))"
proof -
  obtain res w2 where f: "listingFetch e p config w = (res, w2)"
    by (cases "listingFetch e p config w")
  with assms have "res = Inl err" by simp
  with f show ?thesis
    using f [unfolded listingFetch_def] by (simp add: crawlPortal_def Let_def)
qed

lemma crawlPortal_ok:
  assumes "fst (listingFetch e p config w) = Inr html"
  shows "crawlPortal e p db config w =
           (\<lparr>resultPortal = name config, success = True,
             articlesFound = length (parseArticleLinks p html config),
             articlesCrawled = length (filter isParsed
                (linkOutcomes e p db config (getDomain p (baseUrl config)) (snd (listingFetch e p config w))
                   (take MAX_ARTICLES_PER_PORTAL (parseArticleLinks p html config)))),
             newArticles = length (filter (\<lambda>x. x = Stored)
                (linkOutcomes e p db config (getDomain p (baseUrl config)) (snd (listingFetch e p config w))
                   (take MAX_ARTICLES_PER_PORTAL (parseArticleLinks p html config)))),
             errors = concat (map2 outcomeErrors
                (take MAX_ARTICLES_PER_PORTAL (parseArticleLinks p html config))
                (linkOutcomes e p db config (getDomain p (baseUrl config)) (snd (listingFetch e p config w))
                   (take MAX_ARTICLES_PER_PORTAL (parseArticleLinks p html config)))),
             durationMs = now (afterLinks e p db config (getDomain p (baseUrl config))
                   (snd (listingFetch e p config w))
                   (take MAX_ARTICLES_PER_PORTAL (parseArticleLinks p html config))) - now w\<rparr>,
            afterLinks e p db config (getDomain p (baseUrl config)) (snd (listingFetch e p config w))
              (take MAX_ARTICLES_PER_PORTAL (parseArticleLinks p html config)))"
proof -
  obtain res w2 where f: "listingFetch e p config w = (res, w2)"
    by (cases "listingFetch e p config w")
  with assms have "res = Inr html" by simp
  with f show ?thesis
    using f [unfolded listingFetch_def] by (simp add: crawlPortal_def Let_def foldl_processArticle)
qed

lemma listingFetch_inserted: "inserted (snd (listingFetch e p config w)) = inserted w"
  using fetchWithRetry_frame [of e "baseUrl config" "waitForDomain e (getDomain p (baseUrl config)) (delayMs config) w"]
  by (auto simp add: listingFetch_def)

lemma filter_Stored_le:
  "length (filter (\<lambda>x. x = Stored) os) \<le> length (filter isParsed os)"
  by (induction os) auto

text \<open>
  Claim C7, as amended. When the listing of a source has been fetched, the crawl succeeds
  whatever happens to its links. Every one of the first 15 links is taken up, each in the
  world the links before it have left. A link whose page does not parse into a document
  leaves the counts and the error list as they were: the parse failure is skipped, not
  recorded. The error list holds one entry for each link whose fetch, duplicate lookup or
  insertion threw, and nothing else.
\<close>

theorem crawlPortal_parse_failure:
  assumes "fst (listingFetch e p config w) = Inr html"
  shows "success (fst (crawlPortal e p db config w)) \<and>
         errors (fst (crawlPortal e p db config w)) =
           concat (map2 outcomeErrors
             (take MAX_ARTICLES_PER_PORTAL (parseArticleLinks p html config))
             (linkOutcomes e p db config (getDomain p (baseUrl config)) (snd (listingFetch e p config w))
                (take MAX_ARTICLES_PER_PORTAL (parseArticleLinks p html config)))) \<and>
         length (linkOutcomes e p db config (getDomain p (baseUrl config)) (snd (listingFetch e p config w))
                (take MAX_ARTICLES_PER_PORTAL (parseArticleLinks p html config))) =
           length (take MAX_ARTICLES_PER_PORTAL (parseArticleLinks p html config)) \<and>
         (\<forall>c n errs w' u. linkOutcome e p db config (getDomain p (baseUrl config)) w' u = ParseFailed \<longrightarrow>
            processArticle e p db config (getDomain p (baseUrl config)) (c, n, errs, w') u =
              (c, n, errs, afterLink e p db config (getDomain p (baseUrl config)) w' u))"
  by (simp add: crawlPortal_ok [OF assms] processArticle_outcome)

text \<open>
  Claim C8, as amended. When the listing of a source is fetched and no link is extracted
  from it, the crawl returns a result with \<open>success = true\<close>, every count 0 and no error:
  the empty listing is not recorded anywhere, and nothing further is requested.
\<close>

theorem crawlPortal_no_links:
  assumes "fst (listingFetch e p config w) = Inr html" and "parseArticleLinks p html config = []"
  shows "crawlPortal e p db config w =
           (\<lparr>resultPortal = name config, success = True, articlesFound = 0, articlesCrawled = 0,
             newArticles = 0, errors = [],
             durationMs = now (snd (listingFetch e p config w)) - now w\<rparr>,
            snd (listingFetch e p config w))"
  by (simp add: crawlPortal_ok [OF assms(1)] assms(2))

text \<open>
  Claim C9. When the listing of a source yields more than 15 links, \<open>articlesFound\<close> is the
  number of all links, and the crawl takes up exactly the first 15 links, in their order,
  each in the world the links before it have left. \<open>articlesCrawled\<close> is the number of those
  15 whose page was fetched and parsed into a document, \<open>newArticles\<close> the number of those
  stored, and the error list holds, in order, the failures of those whose fetch, duplicate
  lookup or insertion threw. The records the crawl inserts are those of the links stored,
  in the order of the links. After the listing the crawl requests exactly the first 15
  links, each at least once (more often only where the fetcher retries), and none of the
  other links.
\<close>

theorem crawlPortal_cap:
  assumes "fst (listingFetch e p config w) = Inr html"
    and "MAX_ARTICLES_PER_PORTAL < length (parseArticleLinks p html config)"
  shows "articlesFound (fst (crawlPortal e p db config w)) = length (parseArticleLinks p html config) \<and>
         articlesCrawled (fst (crawlPortal e p db config w)) =
           length (filter isParsed
             (linkOutcomes e p db config (getDomain p (baseUrl config)) (snd (listingFetch e p config w))
                (take 15 (parseArticleLinks p html config)))) \<and>
         newArticles (fst (crawlPortal e p db config w)) =
           length (filter (\<lambda>x. x = Stored)
             (linkOutcomes e p db config (getDomain p (baseUrl config)) (snd (listingFetch e p config w))
                (take 15 (parseArticleLinks p html config)))) \<and>
         errors (fst (crawlPortal e p db config w)) =
           concat (map2 outcomeErrors (take 15 (parseArticleLinks p html config))
             (linkOutcomes e p db config (getDomain p (baseUrl config)) (snd (listingFetch e p config w))
                (take 15 (parseArticleLinks p html config)))) \<and>
         (\<exists>recs. inserted (snd (crawlPortal e p db config w)) = inserted w @ recs \<and>
            map url recs =
              map fst (filter (\<lambda>x. snd x = Stored)
                (zip (take 15 (parseArticleLinks p html config))
                   (linkOutcomes e p db config (getDomain p (baseUrl config))
                      (snd (listingFetch e p config w)) (take 15 (parseArticleLinks p html config)))))) \<and>
         (\<exists>ns. length ns = 15 \<and> list_all (\<lambda>n. 1 \<le> n) ns \<and>
            requests (snd (crawlPortal e p db config w)) =
              requests (snd (listingFetch e p config w)) @
              concat (map2 replicate ns (take 15 (parseArticleLinks p html config)))) \<and>
         set (drop 15 (parseArticleLinks p html config)) \<inter>
           set (drop (length (requests (snd (listingFetch e p config w))))
                  (requests (snd (crawlPortal e p db config w)))) = {}"
proof -
  let ?links = "parseArticleLinks p html config"
  let ?w2 = "snd (listingFetch e p config w)"
  let ?dm = "getDomain p (baseUrl config)"
  have len: "length (take 15 ?links) = 15"
    using assms(2) by (simp add: MAX_ARTICLES_PER_PORTAL_def)
  have w': "snd (crawlPortal e p db config w) = afterLinks e p db config ?dm ?w2 (take 15 ?links)"
    by (simp add: crawlPortal_ok [OF assms(1)] MAX_ARTICLES_PER_PORTAL_def)
  from afterLinks_requests [of "take 15 ?links" e p db config ?dm ?w2]
  obtain ns where ns: "length ns = length (take 15 ?links)" "list_all (\<lambda>n. 1 \<le> n) ns"
    "requests (afterLinks e p db config ?dm ?w2 (take 15 ?links)) =
       requests ?w2 @ concat (map2 replicate ns (take 15 ?links))"
    by blast
  from afterLinks_stored [of e p db config ?dm ?w2 "take 15 ?links"]
  obtain recs where recs:
    "inserted (afterLinks e p db config ?dm ?w2 (take 15 ?links)) = inserted ?w2 @ recs"
    "map url recs = map fst (filter (\<lambda>x. snd x = Stored)
        (zip (take 15 ?links) (linkOutcomes e p db config ?dm ?w2 (take 15 ?links))))"
    by blast
  have ins: "\<exists>recs. inserted (snd (crawlPortal e p db config w)) = inserted w @ recs \<and>
            map url recs = map fst (filter (\<lambda>x. snd x = Stored)
                (zip (take 15 ?links) (linkOutcomes e p db config ?dm ?w2 (take 15 ?links))))"
    using recs listingFetch_inserted [of e p config w] by (simp add: w')
  have sub: "set (concat (map2 replicate ns (take 15 ?links))) \<subseteq> set (take 15 ?links)"
    by (auto dest!: set_zip_rightD simp add: in_set_zip)
  have "distinct (take 15 ?links @ drop 15 ?links)"
    using parseArticleLinks_distinct [of p html config] by simp
  then have disj: "set (take 15 ?links) \<inter> set (drop 15 ?links) = {}"
    by (simp only: distinct_append) 
  have none: "set (drop 15 ?links) \<inter> set (concat (map2 replicate ns (take 15 ?links))) = {}"
    using sub disj by blast
  have req: "\<exists>ns. length ns = 15 \<and> list_all (\<lambda>n. 1 \<le> n) ns \<and>
            requests (snd (crawlPortal e p db config w)) =
              requests ?w2 @ concat (map2 replicate ns (take 15 ?links))"
    using ns len by (auto simp add: w')
  have rest: "set (drop 15 ?links) \<inter>
           set (drop (length (requests ?w2)) (requests (snd (crawlPortal e p db config w)))) = {}"
    using none ns(3) by (simp add: w')
  have counts: "articlesFound (fst (crawlPortal e p db config w)) = length ?links"
    "articlesCrawled (fst (crawlPortal e p db config w)) =
       length (filter isParsed (linkOutcomes e p db config ?dm ?w2 (take 15 ?links)))"
    "newArticles (fst (crawlPortal e p db config w)) =
       length (filter (\<lambda>x. x = Stored) (linkOutcomes e p db config ?dm ?w2 (take 15 ?links)))"
    "errors (fst (crawlPortal e p db config w)) =
       concat (map2 outcomeErrors (take 15 ?links) (linkOutcomes e p db config ?dm ?w2 (take 15 ?links)))"
    by (simp_all add: crawlPortal_ok [OF assms(1)] MAX_ARTICLES_PER_PORTAL_def)
  show ?thesis
    using counts ins req rest by simp
qed

text \<open>
  Claim C10. In every result of \<open>crawlPortal\<close>, \<open>newArticles\<close> is at most \<open>articlesCrawled\<close>,
  which is at most the smaller of \<open>articlesFound\<close> and 15. The crawl inserts exactly
  \<open>newArticles\<close> records into the store. When the listing was fetched, \<open>articlesCrawled\<close> is the
  number of the links taken up whose page was fetched and parsed into a document
  (duplicates included), and \<open>newArticles\<close> the number of those stored: parsed, found not to
  be a duplicate, and inserted.
\<close>

theorem crawlPortal_counts:
  "newArticles (fst (crawlPortal e p db config w)) \<le> articlesCrawled (fst (crawlPortal e p db config w)) \<and>
   articlesCrawled (fst (crawlPortal e p db config w))
     \<le> min (articlesFound (fst (crawlPortal e p db config w))) MAX_ARTICLES_PER_PORTAL \<and>
   (\<exists>recs. inserted (snd (crawlPortal e p db config w)) = inserted w @ recs \<and>
           length recs = newArticles (fst (crawlPortal e p db config w))) \<and>
   (\<forall>html. fst (listingFetch e p config w) = Inr html \<longrightarrow>
      articlesCrawled (fst (crawlPortal e p db config w)) =
        length (filter isParsed
          (linkOutcomes e p db config (getDomain p (baseUrl config)) (snd (listingFetch e p config w))
             (take MAX_ARTICLES_PER_PORTAL (parseArticleLinks p html config)))) \<and>
      newArticles (fst (crawlPortal e p db config w)) =
        length (filter (\<lambda>x. x = Stored)
          (linkOutcomes e p db config (getDomain p (baseUrl config)) (snd (listingFetch e p config w))
             (take MAX_ARTICLES_PER_PORTAL (parseArticleLinks p html config)))))"
proof (cases "fst (listingFetch e p config w)")
  case (Inl err)
  show ?thesis
    using listingFetch_inserted [of e p config w]
    by (simp add: crawlPortal_failed [OF Inl] Inl)
next
  case (Inr html)
  let ?urls = "take MAX_ARTICLES_PER_PORTAL (parseArticleLinks p html config)"
  let ?w2 = "snd (listingFetch e p config w)"
  let ?os = "linkOutcomes e p db config (getDomain p (baseUrl config)) ?w2 ?urls"
  have a: "length (filter (\<lambda>x. x = Stored) ?os) \<le> length (filter isParsed ?os)"
    by (rule filter_Stored_le)
  have b: "length (filter isParsed ?os) \<le> min (length (parseArticleLinks p html config)) MAX_ARTICLES_PER_PORTAL"
    using length_filter_le [of isParsed ?os] by simp
  from afterLinks_inserted [of e p db config "getDomain p (baseUrl config)" ?w2 ?urls]
  obtain recs where recs:
    "inserted (afterLinks e p db config (getDomain p (baseUrl config)) ?w2 ?urls) = inserted ?w2 @ recs"
    "length recs = length (filter (\<lambda>x. x = Stored) ?os)"
    by blast
  show ?thesis
    using a b recs listingFetch_inserted [of e p config w]
    by (simp add: crawlPortal_ok [OF Inr] Inr)
qed

subsection \<open>The scenario, run\<close>

lemma replicate_num: "replicate (numeral k) x = x # replicate (pred_numeral k) x"
  by (simp add: numeral_eq_Suc)

lemma fetchWithRetry_first:
  "fetchWithRetry e u noOptions w =
     (case net e (length (requests w)) u of
        Response st stt body \<Rightarrow>
          if responseOk st then (Inr body, snd (fetch e u w))
          else if 400 \<le> st \<and> st < 500 \<and> st \<noteq> 429 then (Inl (httpError st stt), snd (fetch e u w))
          else fetchLoop e u (Some 15000) 2 1000 1 (Some (httpError st stt))
                 (sleep e 1000 (snd (fetch e u w)))
      | Threw n m \<Rightarrow>
          fetchLoop e u (Some 15000) 2 1000 1
            (Some (if n = js ''AbortError'' then timeoutError (Some 15000) else Exn n m))
            (sleep e 1000 (snd (fetch e u w))))"
proof -
  have eq: "fetchWithRetry e u noOptions w = fetchLoop e u (Some 15000) 2 1000 0 None w"
    by (simp add: fetchWithRetry_def noOptions_def spread_def DEFAULT_FETCH_OPTIONS_def)
  show ?thesis
  proof (cases "net e (length (requests w)) u")
    case (Response st stt body)
    show ?thesis
    proof (cases "responseOk st")
      case True
      with Response show ?thesis
        unfolding eq by (simp add: fetchLoop_success [of 0 2 e w u st stt body])
    next
      case nok: False
      show ?thesis
      proof (cases "400 \<le> st \<and> st < 500 \<and> st \<noteq> 429")
        case True
        then have "clientError (net e (length (requests w)) u)" using Response by simp
        from fetchLoop_clientError [OF _ this, of 0 2 "Some 15000" 1000 None] Response nok True
        show ?thesis unfolding eq by simp
      next
        case False
        then have "retryable (net e (length (requests w)) u)" using Response nok by simp
        from fetchLoop_retry [OF _ this, of 0 2 "Some 15000" 1000 None] Response nok False
        show ?thesis unfolding eq by auto
      qed
    qed
  next
    case (Threw n m)
    then have "retryable (net e (length (requests w)) u)" by simp
    from fetchLoop_retry [OF _ this, of 0 2 "Some 15000" 1000 None] Threw
    show ?thesis unfolding eq by simp
  qed
qed

lemma scenario_links:
  "parseArticleLinks scenarioPlatform (js ''LA'') sourceA =
     [js ''https://www.a.test/read/1'', js ''https://www.a.test/read/2'',
      js ''https://www.a.test/read/3'', js ''https://www.a.test/read/4'']"
  by (simp add: parseArticleLinks_def linkStep_def scenarioPlatform_def sourceA_def
      samplePlatform_def sampleConfig_def anchor_def
      resolveUrl_def sampleResolve_def sampleHostname_def isValidArticleUrl_def skipPatterns_def
      toLowerCase_def plain_def lowerUnit_def startsWith_def js_def Let_def)

lemma scenario_P1:
  "parseArticle scenarioPlatform (js ''P1'') u sourceA =
     Some \<lparr>url = u, title = js ''Laba BCA naik tajam'', content = None, publishedAt = None,
           portal = js ''A''\<rparr>"
  by (simp add: parseArticle_def scenarioPlatform_def sourceA_def samplePlatform_def
      sampleConfig_def extractTitle_def
      extractContent_def extractDate_def selectorList_def firstText_def cleanText_def trim_def
      isSpace_def js_def Let_def)

lemma scenario_P0: "parseArticle scenarioPlatform (js ''P0'') u sourceA = None"
  by (simp add: parseArticle_def scenarioPlatform_def sourceA_def samplePlatform_def
      sampleConfig_def extractTitle_def
      extractContent_def extractDate_def selectorList_def firstText_def cleanText_def trim_def
      isSpace_def js_def Let_def)

lemma js_eq_iff [simp]: "js a = js b \<longleftrightarrow> a = b"
  by (simp add: js_def inj_map_eq_map inj_on_def)

lemma js_Nil_iff [simp]: "js a = [] \<longleftrightarrow> a = []" "[] = js a \<longleftrightarrow> a = []"
  by (auto simp add: js_def)

lemma sourceA_fields [simp]:
  "name sourceA = js ''A''" "baseUrl sourceA = js ''https://www.a.test/news/''"
  "delayMs sourceA = Some 1500"
  by (simp_all add: sourceA_def sampleConfig_def)

lemma scenario_domain_A [simp]: "getDomain scenarioPlatform (js ''https://www.a.test/news/'') = js ''www.a.test''"
  by (simp add: getDomain_def scenarioPlatform_def samplePlatform_def sampleHostname_def
      startsWith_def js_def)

lemma scenario_run_A:
  "(case crawlPortal scenarioEnv scenarioPlatform sampleDatabase sourceA (world0 []) of
      (r, w) \<Rightarrow>
        r = \<lparr>resultPortal = js ''A'', success = True, articlesFound = 4, articlesCrawled = 2,
             newArticles = 1,
             errors = [articleError (js ''https://www.a.test/read/4'') (httpError 404 (js ''Not Found''))],
             durationMs = 6120\<rparr> \<and>
        requests w =
          [js ''https://www.a.test/news/'', js ''https://www.a.test/read/1'',
           js ''https://www.a.test/read/2'', js ''https://www.a.test/read/3'',
           js ''https://www.a.test/read/4''] \<and>
        map title (inserted w) = [js ''Laba BCA naik tajam''])"
  by (simp add: crawlPortal_def processArticle_def fetchWithRetry_first waitForDomain_def
      sleep_def timerDelay_def TIMEOUT_MAX_def fetch_def scenarioEnv_def envOf_def sampleNet_def
      scenario_links scenario_P1
      scenario_P0 sampleDatabase_def isArticleDuplicate_def world0_def responseOk_def
      MAX_ARTICLES_PER_PORTAL_def Let_def)

lemma scenario_crawl_A:
  "fst (crawlPortal scenarioEnv scenarioPlatform sampleDatabase sourceA (world0 [])) =
     \<lparr>resultPortal = js ''A'', success = True, articlesFound = 4, articlesCrawled = 2,
      newArticles = 1,
      errors = [articleError (js ''https://www.a.test/read/4'') (httpError 404 (js ''Not Found''))],
      durationMs = 6120\<rparr> \<and>
   requests (snd (crawlPortal scenarioEnv scenarioPlatform sampleDatabase sourceA (world0 []))) =
     [js ''https://www.a.test/news/'', js ''https://www.a.test/read/1'',
      js ''https://www.a.test/read/2'', js ''https://www.a.test/read/3'',
      js ''https://www.a.test/read/4''] \<and>
   map title (inserted (snd (crawlPortal scenarioEnv scenarioPlatform sampleDatabase sourceA (world0 []))))
     = [js ''Laba BCA naik tajam'']"
  using scenario_run_A
  by (cases "crawlPortal scenarioEnv scenarioPlatform sampleDatabase sourceA (world0 ([] :: NewsArticleInsert list))")
     simp

lemma scenario_listing_A:
  "fst (listingFetch scenarioEnv scenarioPlatform sourceA (world0 [])) = Inr (js ''LA'')"
  by (simp add: listingFetch_def fetchWithRetry_first waitForDomain_def sleep_def timerDelay_def TIMEOUT_MAX_def fetch_def
      scenarioEnv_def envOf_def sampleNet_def world0_def responseOk_def Let_def)

theorem crawlPortal_counts_witness:
  "fst (listingFetch scenarioEnv scenarioPlatform sourceA (world0 [])) = Inr (js ''LA'') \<and>
   articlesFound (fst (crawlPortal scenarioEnv scenarioPlatform sampleDatabase sourceA (world0 []))) = 4 \<and>
   articlesCrawled (fst (crawlPortal scenarioEnv scenarioPlatform sampleDatabase sourceA (world0 []))) = 2 \<and>
   newArticles (fst (crawlPortal scenarioEnv scenarioPlatform sampleDatabase sourceA (world0 []))) = 1 \<and>
   length (filter isParsed
     (linkOutcomes scenarioEnv scenarioPlatform sampleDatabase sourceA
        (getDomain scenarioPlatform (baseUrl sourceA))
        (snd (listingFetch scenarioEnv scenarioPlatform sourceA (world0 [])))
        (take MAX_ARTICLES_PER_PORTAL (parseArticleLinks scenarioPlatform (js ''LA'') sourceA)))) = 2 \<and>
   length (filter (\<lambda>x. x = Stored)
     (linkOutcomes scenarioEnv scenarioPlatform sampleDatabase sourceA
        (getDomain scenarioPlatform (baseUrl sourceA))
        (snd (listingFetch scenarioEnv scenarioPlatform sourceA (world0 [])))
        (take MAX_ARTICLES_PER_PORTAL (parseArticleLinks scenarioPlatform (js ''LA'') sourceA)))) = 1 \<and>
   length (inserted (snd (crawlPortal scenarioEnv scenarioPlatform sampleDatabase sourceA (world0 [])))) = 1"
proof -
  note l = scenario_listing_A
  note c = crawlPortal_counts [of scenarioEnv scenarioPlatform sampleDatabase sourceA "world0 []"]
  note c3 = c [THEN conjunct2, THEN conjunct2, THEN conjunct1]
  note c4 = c [THEN conjunct2, THEN conjunct2, THEN conjunct2, THEN spec, of "js ''LA''",
      THEN mp, OF l]
  show ?thesis using c3 c4 l scenario_crawl_A by (auto simp add: world0_def)
qed

theorem crawlPortal_parse_failure_witness:
  "fst (listingFetch scenarioEnv scenarioPlatform sourceA (world0 [])) = Inr (js ''LA'') \<and>
   success (fst (crawlPortal scenarioEnv scenarioPlatform sampleDatabase sourceA (world0 []))) \<and>
   concat (map2 outcomeErrors
     (take MAX_ARTICLES_PER_PORTAL (parseArticleLinks scenarioPlatform (js ''LA'') sourceA))
     (linkOutcomes scenarioEnv scenarioPlatform sampleDatabase sourceA
        (getDomain scenarioPlatform (baseUrl sourceA))
        (snd (listingFetch scenarioEnv scenarioPlatform sourceA (world0 [])))
        (take MAX_ARTICLES_PER_PORTAL (parseArticleLinks scenarioPlatform (js ''LA'') sourceA))))
     = [articleError (js ''https://www.a.test/read/4'') (httpError 404 (js ''Not Found''))] \<and>
   length (linkOutcomes scenarioEnv scenarioPlatform sampleDatabase sourceA
        (getDomain scenarioPlatform (baseUrl sourceA))
        (snd (listingFetch scenarioEnv scenarioPlatform sourceA (world0 [])))
        (take MAX_ARTICLES_PER_PORTAL (parseArticleLinks scenarioPlatform (js ''LA'') sourceA))) = 4"
  using crawlPortal_parse_failure [OF scenario_listing_A, of sampleDatabase] scenario_listing_A
    scenario_crawl_A
  by (simp add: scenario_links MAX_ARTICLES_PER_PORTAL_def)

lemma scenario_outcomes_A:
  "linkOutcomes scenarioEnv scenarioPlatform sampleDatabase sourceA
     (getDomain scenarioPlatform (baseUrl sourceA))
     (snd (listingFetch scenarioEnv scenarioPlatform sourceA (world0 [])))
     (take MAX_ARTICLES_PER_PORTAL (parseArticleLinks scenarioPlatform (js ''LA'') sourceA))
   = [Stored, Duplicate, ParseFailed, FetchFailed (httpError 404 (js ''Not Found''))]"
  by (simp add: linkOutcome_def afterLink_def listingFetch_def processArticle_def
      fetchWithRetry_first waitForDomain_def
      sleep_def timerDelay_def TIMEOUT_MAX_def fetch_def scenarioEnv_def envOf_def sampleNet_def scenario_links scenario_P1
      scenario_P0 sampleDatabase_def isArticleDuplicate_def world0_def responseOk_def
      MAX_ARTICLES_PER_PORTAL_def Let_def)

text \<open>
  In the scenario the third link of source \<open>A\<close> does not parse into a document; the only
  error the crawl records is the failed fetch of the fourth.
\<close>

theorem crawlPortal_parse_failure_counterexample:
  "linkOutcomes scenarioEnv scenarioPlatform sampleDatabase sourceA
     (getDomain scenarioPlatform (baseUrl sourceA))
     (snd (listingFetch scenarioEnv scenarioPlatform sourceA (world0 [])))
     (take MAX_ARTICLES_PER_PORTAL (parseArticleLinks scenarioPlatform (js ''LA'') sourceA))
   = [Stored, Duplicate, ParseFailed, FetchFailed (httpError 404 (js ''Not Found''))] \<and>
   errors (fst (crawlPortal scenarioEnv scenarioPlatform sampleDatabase sourceA (world0 [])))
   = [articleError (js ''https://www.a.test/read/4'') (httpError 404 (js ''Not Found''))]"
  using scenario_outcomes_A scenario_crawl_A by simp

lemma sourceC_fields [simp]:
  "name sourceC = js ''C''" "baseUrl sourceC = js ''https://www.c.test/news/''"
  "delayMs sourceC = Some 1500"
  by (simp_all add: sourceC_def sampleConfig_def)

lemma scenario_listing_C:
  "fst (listingFetch scenarioEnv scenarioPlatform sourceC w) = Inr (js ''LC'')"
  by (simp add: listingFetch_def fetchWithRetry_first
      scenarioEnv_def envOf_def sampleNet_def responseOk_def Let_def)

lemma scenario_links_C: "parseArticleLinks scenarioPlatform (js ''LC'') sourceC = []"
  by (simp add: parseArticleLinks_def scenarioPlatform_def samplePlatform_def sourceC_def
      sampleConfig_def)

theorem crawlPortal_no_links_witness:
  "fst (listingFetch scenarioEnv scenarioPlatform sourceC (world0 [])) = Inr (js ''LC'') \<and>
   parseArticleLinks scenarioPlatform (js ''LC'') sourceC = [] \<and>
   fst (crawlPortal scenarioEnv scenarioPlatform sampleDatabase sourceC (world0 [])) =
     \<lparr>resultPortal = js ''C'', success = True, articlesFound = 0, articlesCrawled = 0,
      newArticles = 0, errors = [], durationMs = 120\<rparr>"
  using crawlPortal_no_links [of scenarioEnv scenarioPlatform sourceC "world0 []" "js ''LC''"
      sampleDatabase, OF scenario_listing_C scenario_links_C]
    scenario_listing_C [of "world0 []"] scenario_links_C
  by (simp add: listingFetch_def fetchWithRetry_first waitForDomain_def sleep_def timerDelay_def TIMEOUT_MAX_def fetch_def
      scenarioEnv_def envOf_def sampleNet_def world0_def responseOk_def Let_def)

text \<open>
  In the scenario the listing of source \<open>C\<close> is fetched and has no links; the result reports
  success and its error list is empty.
\<close>

theorem crawlPortal_no_links_counterexample:
  "parseArticleLinks scenarioPlatform (js ''LC'') sourceC = [] \<and>
   success (fst (crawlPortal scenarioEnv scenarioPlatform sampleDatabase sourceC (world0 []))) \<and>
   errors (fst (crawlPortal scenarioEnv scenarioPlatform sampleDatabase sourceC (world0 []))) = []"
  using crawlPortal_ok [of scenarioEnv scenarioPlatform sourceC "world0 []" "js ''LC''"
      sampleDatabase, OF scenario_listing_C] scenario_links_C
  by simp

lemma sourceD_fields [simp]:
  "name sourceD = js ''D''" "baseUrl sourceD = js ''https://www.d.test/news/''"
  "delayMs sourceD = Some 1500"
  by (simp_all add: sourceD_def sampleConfig_def)

lemma scenario_domain_D [simp]:
  "getDomain scenarioPlatform (js ''https://www.d.test/news/'') = js ''www.d.test''"
  by (simp add: getDomain_def scenarioPlatform_def samplePlatform_def sampleHostname_def
      startsWith_def js_def)

lemma scenario_listing_D:
  "fst (listingFetch scenarioEnv scenarioPlatform sourceD w) = Inr (js ''LD'')"
  by (simp add: listingFetch_def fetchWithRetry_first
      scenarioEnv_def envOf_def sampleNet_def responseOk_def Let_def)

lemma scenario_links_D:
  "parseArticleLinks scenarioPlatform (js ''LD'') sourceD =
     [js ''https://www.d.test/n/a'', js ''https://www.d.test/n/b'', js ''https://www.d.test/n/c'',
      js ''https://www.d.test/n/d'', js ''https://www.d.test/n/e'', js ''https://www.d.test/n/f'',
      js ''https://www.d.test/n/g'', js ''https://www.d.test/n/h'', js ''https://www.d.test/n/i'',
      js ''https://www.d.test/n/j'', js ''https://www.d.test/n/k'', js ''https://www.d.test/n/l'',
      js ''https://www.d.test/n/m'', js ''https://www.d.test/n/n'', js ''https://www.d.test/n/o'',
      js ''https://www.d.test/n/p'']"
  by (simp add: parseArticleLinks_def linkStep_def scenarioPlatform_def sourceD_def
      samplePlatform_def sampleConfig_def anchor_def
      resolveUrl_def sampleResolve_def sampleHostname_def isValidArticleUrl_def skipPatterns_def
      toLowerCase_def plain_def lowerUnit_def startsWith_def js_def Let_def)

lemma scenario_P1_D:
  "parseArticle scenarioPlatform (js ''P1'') u sourceD =
     Some \<lparr>url = u, title = js ''Laba BCA naik tajam'', content = None, publishedAt = None,
           portal = js ''D''\<rparr>"
  by (simp add: parseArticle_def scenarioPlatform_def sourceD_def samplePlatform_def
      sampleConfig_def extractTitle_def
      extractContent_def extractDate_def selectorList_def firstText_def cleanText_def trim_def
      isSpace_def js_def Let_def)

lemma scenario_P0_D: "parseArticle scenarioPlatform (js ''P0'') u sourceD = None"
  by (simp add: parseArticle_def scenarioPlatform_def sourceD_def samplePlatform_def
      sampleConfig_def extractTitle_def
      extractContent_def extractDate_def selectorList_def firstText_def cleanText_def trim_def
      isSpace_def js_def Let_def)

lemmas run_defs = fetchWithRetry_first waitForDomain_def sleep_def timerDelay_def TIMEOUT_MAX_def
  fetch_def scenarioEnv_def envOf_def sampleNet_def sampleDatabase_def isArticleDuplicate_def
  world0_def responseOk_def MAX_ARTICLES_PER_PORTAL_def Let_def

lemma scenario_run_D:
  "(case crawlPortal scenarioEnv scenarioPlatform sampleDatabase sourceD (world0 []) of
      (r, w) \<Rightarrow>
        articlesFound r = 16 \<and> articlesCrawled r = 2 \<and> newArticles r = 1 \<and>
        length (errors r) = 12 \<and>
        requests w =
          [js ''https://www.d.test/news/'',
           js ''https://www.d.test/n/a'', js ''https://www.d.test/n/b'', js ''https://www.d.test/n/c'',
           js ''https://www.d.test/n/d'', js ''https://www.d.test/n/e'', js ''https://www.d.test/n/f'',
           js ''https://www.d.test/n/g'', js ''https://www.d.test/n/h'', js ''https://www.d.test/n/i'',
           js ''https://www.d.test/n/j'', js ''https://www.d.test/n/k'', js ''https://www.d.test/n/l'',
           js ''https://www.d.test/n/m'', js ''https://www.d.test/n/n'', js ''https://www.d.test/n/o''] \<and>
        map url (inserted w) = [js ''https://www.d.test/n/a''])"
  by (simp add: crawlPortal_def processArticle_def run_defs scenario_links_D scenario_P1_D
      scenario_P0_D)

lemma scenario_crawl_D:
  "articlesFound (fst (crawlPortal scenarioEnv scenarioPlatform sampleDatabase sourceD (world0 []))) = 16 \<and>
   articlesCrawled (fst (crawlPortal scenarioEnv scenarioPlatform sampleDatabase sourceD (world0 []))) = 2 \<and>
   newArticles (fst (crawlPortal scenarioEnv scenarioPlatform sampleDatabase sourceD (world0 []))) = 1 \<and>
   length (errors (fst (crawlPortal scenarioEnv scenarioPlatform sampleDatabase sourceD (world0 [])))) = 12 \<and>
   requests (snd (crawlPortal scenarioEnv scenarioPlatform sampleDatabase sourceD (world0 []))) =
     [js ''https://www.d.test/news/'',
      js ''https://www.d.test/n/a'', js ''https://www.d.test/n/b'', js ''https://www.d.test/n/c'',
      js ''https://www.d.test/n/d'', js ''https://www.d.test/n/e'', js ''https://www.d.test/n/f'',
      js ''https://www.d.test/n/g'', js ''https://www.d.test/n/h'', js ''https://www.d.test/n/i'',
      js ''https://www.d.test/n/j'', js ''https://www.d.test/n/k'', js ''https://www.d.test/n/l'',
      js ''https://www.d.test/n/m'', js ''https://www.d.test/n/n'', js ''https://www.d.test/n/o''] \<and>
   map url (inserted (snd (crawlPortal scenarioEnv scenarioPlatform sampleDatabase sourceD (world0 []))))
     = [js ''https://www.d.test/n/a'']"
  using scenario_run_D
  by (cases "crawlPortal scenarioEnv scenarioPlatform sampleDatabase sourceD (world0 ([] :: NewsArticleInsert list))")
     simp

lemma scenario_outcomes_D:
  "linkOutcomes scenarioEnv scenarioPlatform sampleDatabase sourceD
     (getDomain scenarioPlatform (baseUrl sourceD))
     (snd (listingFetch scenarioEnv scenarioPlatform sourceD (world0 [])))
     (take 15 (parseArticleLinks scenarioPlatform (js ''LD'') sourceD))
   = [Stored, Duplicate, ParseFailed] @ replicate 12 (FetchFailed (httpError 404 (js ''Not Found'')))"
  by (simp add: linkOutcome_def afterLink_def listingFetch_def processArticle_def run_defs
      scenario_links_D scenario_P1_D scenario_P0_D replicate_num)

text \<open>The sixteenth link of source \<open>D\<close> is there, and its page parses into a document.\<close>

lemma scenario_sixteenth:
  "net scenarioEnv k (js ''https://www.d.test/n/p'') = Response 200 (js ''OK'') (js ''P2'') \<and>
   map_option title (parseArticle scenarioPlatform (js ''P2'') (js ''https://www.d.test/n/p'') sourceD)
     = Some (js ''Rupiah menguat lagi'')"
  by (simp add: scenarioEnv_def envOf_def sampleNet_def parseArticle_def scenarioPlatform_def
      sourceD_def samplePlatform_def sampleConfig_def extractTitle_def
      extractContent_def extractDate_def selectorList_def firstText_def cleanText_def trim_def
      isSpace_def js_def Let_def)

theorem crawlPortal_cap_witness:
  "fst (listingFetch scenarioEnv scenarioPlatform sourceD (world0 ([] :: NewsArticleInsert list))) = Inr (js ''LD'') \<and>
   MAX_ARTICLES_PER_PORTAL < length (parseArticleLinks scenarioPlatform (js ''LD'') sourceD) \<and>
   articlesFound (fst (crawlPortal scenarioEnv scenarioPlatform sampleDatabase sourceD (world0 []))) = 16 \<and>
   articlesCrawled (fst (crawlPortal scenarioEnv scenarioPlatform sampleDatabase sourceD (world0 []))) = 2 \<and>
   newArticles (fst (crawlPortal scenarioEnv scenarioPlatform sampleDatabase sourceD (world0 []))) = 1 \<and>
   linkOutcomes scenarioEnv scenarioPlatform sampleDatabase sourceD
     (getDomain scenarioPlatform (baseUrl sourceD))
     (snd (listingFetch scenarioEnv scenarioPlatform sourceD (world0 [])))
     (take 15 (parseArticleLinks scenarioPlatform (js ''LD'') sourceD))
   = [Stored, Duplicate, ParseFailed] @ replicate 12 (FetchFailed (httpError 404 (js ''Not Found''))) \<and>
   map url (inserted (snd (crawlPortal scenarioEnv scenarioPlatform sampleDatabase sourceD (world0 []))))
     = [js ''https://www.d.test/n/a''] \<and>
   requests (snd (crawlPortal scenarioEnv scenarioPlatform sampleDatabase sourceD (world0 []))) =
     [js ''https://www.d.test/news/'',
      js ''https://www.d.test/n/a'', js ''https://www.d.test/n/b'', js ''https://www.d.test/n/c'',
      js ''https://www.d.test/n/d'', js ''https://www.d.test/n/e'', js ''https://www.d.test/n/f'',
      js ''https://www.d.test/n/g'', js ''https://www.d.test/n/h'', js ''https://www.d.test/n/i'',
      js ''https://www.d.test/n/j'', js ''https://www.d.test/n/k'', js ''https://www.d.test/n/l'',
      js ''https://www.d.test/n/m'', js ''https://www.d.test/n/n'', js ''https://www.d.test/n/o''] \<and>
   drop 15 (parseArticleLinks scenarioPlatform (js ''LD'') sourceD) = [js ''https://www.d.test/n/p''] \<and>
   net scenarioEnv 16 (js ''https://www.d.test/n/p'') = Response 200 (js ''OK'') (js ''P2'') \<and>
   map_option title (parseArticle scenarioPlatform (js ''P2'') (js ''https://www.d.test/n/p'') sourceD)
     = Some (js ''Rupiah menguat lagi'') \<and>
   set (drop 15 (parseArticleLinks scenarioPlatform (js ''LD'') sourceD)) \<inter>
     set (drop (length (requests (snd (listingFetch scenarioEnv scenarioPlatform sourceD (world0 ([] :: NewsArticleInsert list))))))
            (requests (snd (crawlPortal scenarioEnv scenarioPlatform sampleDatabase sourceD (world0 []))))) = {}"
proof -
  have len: "MAX_ARTICLES_PER_PORTAL < length (parseArticleLinks scenarioPlatform (js ''LD'') sourceD)"
    by (simp add: scenario_links_D MAX_ARTICLES_PER_PORTAL_def)
  note cap = crawlPortal_cap [of scenarioEnv scenarioPlatform sourceD "world0 ([] :: NewsArticleInsert list)" "js ''LD''"
      sampleDatabase, OF scenario_listing_D len]
  note cap8 = cap [THEN conjunct2, THEN conjunct2, THEN conjunct2, THEN conjunct2, THEN conjunct2,
      THEN conjunct2]
  have last: "drop 15 (parseArticleLinks scenarioPlatform (js ''LD'') sourceD) = [js ''https://www.d.test/n/p'']"
    by (simp add: scenario_links_D)
  note c = scenario_crawl_D
  show ?thesis
    using scenario_listing_D [of "world0 ([] :: NewsArticleInsert list)"] len cap8 last
      scenario_outcomes_D c scenario_sixteenth [of 16]
    by simp
qed

subsection \<open>All sources\<close>

lemma chunkLoop_Some:
  assumes "0 < sz"
  shows "\<exists>cs. chunkLoop array sz i acc = Some (acc @ cs) \<and> concat cs = drop i array \<and>
              (\<forall>c \<in> set cs. c \<noteq> [] \<and> length c \<le> sz)"
proof (induction "length array - i" arbitrary: i acc rule: less_induct)
  case less
  show ?case
  proof (cases "i < length array")
    case False
    then show ?thesis by (subst chunkLoop.simps) simp
  next
    case True
    let ?c = "take sz (drop i array)"
    have "length array - (i + sz) < length array - i" using True assms by simp
    from less [OF this, of "acc @ [?c]"]
    obtain cs where cs: "chunkLoop array sz (i + sz) (acc @ [?c]) = Some ((acc @ [?c]) @ cs)"
      "concat cs = drop (i + sz) array" "\<forall>c \<in> set cs. c \<noteq> [] \<and> length c \<le> sz"
      by blast
    have ne: "?c \<noteq> []" using True assms by simp
    have "concat (?c # cs) = drop i array"
      using cs(2) by (simp add: add.commute [of i sz] drop_drop [symmetric] del: drop_drop)
    moreover have "chunkLoop array sz i acc = Some (acc @ (?c # cs))"
      using True cs(1) by (subst chunkLoop.simps) simp
    ultimately show ?thesis using cs(3) ne by (intro exI [of _ "?c # cs"]) simp
  qed
qed

lemma chunkArray_Some:
  "\<exists>batches. chunkArray configs MAX_CONCURRENT_PORTALS = Some batches \<and> concat batches = configs \<and>
     (\<forall>b \<in> set batches. b \<noteq> [] \<and> length b \<le> MAX_CONCURRENT_PORTALS)"
  using chunkLoop_Some [of MAX_CONCURRENT_PORTALS configs 0 "[]"]
  by (simp add: chunkArray_def MAX_CONCURRENT_PORTALS_def)

lemma crawlBatch_results:
  "list_all2 (crawled e p db) batch (fst (crawlBatch e p db batch w))"
proof (induction batch arbitrary: w)
  case Nil
  show ?case by simp
next
  case (Cons config batch)
  obtain r w1 where c: "crawlPortal e p db config w = (r, w1)" by (cases "crawlPortal e p db config w")
  obtain rs w2 where b: "crawlBatch e p db batch w1 = (rs, w2)" by (cases "crawlBatch e p db batch w1")
  have "crawled e p db config r" using c by (auto simp add: crawled_def intro: exI [of _ w])
  moreover have "list_all2 (crawled e p db) batch rs" using Cons.IH [of w1] b by simp
  ultimately show ?case using c b by simp
qed

lemma crawlBatches_results:
  "\<exists>rs'. fst (crawlBatches e p db batches rs w) = rs @ rs' \<and>
          list_all2 (crawled e p db) (concat batches) rs'"
proof (induction batches arbitrary: rs w)
  case Nil
  show ?case by simp
next
  case (Cons batch batches)
  obtain br w1 where b: "crawlBatch e p db batch w = (br, w1)" by (cases "crawlBatch e p db batch w")
  have br: "list_all2 (crawled e p db) batch br" using crawlBatch_results [of e p db batch w] b by simp
  from Cons.IH [of "rs @ br" "sleep e 2000 w1"]
  obtain rs' where rs': "fst (crawlBatches e p db batches (rs @ br) (sleep e 2000 w1)) = (rs @ br) @ rs'"
    "list_all2 (crawled e p db) (concat batches) rs'"
    by blast
  show ?case
    using b rs' br by (intro exI [of _ "br @ rs'"]) (simp add: list_all2_appendI)
qed

lemma foldl_sum: "foldl (\<lambda>sum r. sum + int (f r)) a rs = a + sum_list (map (\<lambda>r. int (f r)) rs)"
  by (induction rs arbitrary: a) simp_all

lemma crawlPortal_portal: "resultPortal (fst (crawlPortal e p db config w)) = name config"
  by (cases "fst (listingFetch e p config w)") (simp_all add: crawlPortal_failed crawlPortal_ok)

lemma crawled_portal: "crawled e p db config r \<Longrightarrow> resultPortal r = name config"
  by (auto simp add: crawled_def crawlPortal_portal)

lemma crawled_names:
  "list_all2 (crawled e p db) configs rs \<Longrightarrow> map resultPortal rs = map name configs"
  by (induction rule: list_all2_induct) (simp_all add: crawled_portal)

text \<open>
  Claim C3. For every list of configured sources, \<open>crawlAllPortals\<close> returns a summary. Its
  results are, source by source and in the order of the configuration, what \<open>crawlPortal\<close>
  returns for that source, whether that crawl failed or not; \<open>totalPortals\<close> is the number of
  sources, \<open>successfulPortals\<close> the number of results with \<open>success\<close>, \<open>failedPortals\<close> the rest
  and never negative, and \<open>totalArticlesFound\<close> and \<open>totalNewArticles\<close> are the sums of
  \<open>articlesFound\<close> and \<open>newArticles\<close> over the results.
\<close>

theorem crawlAllPortals_summary:
  "\<exists>summary w'.
     crawlAllPortals e p db configs w = Some (summary, w') \<and>
     list_all2 (crawled e p db) configs (results summary) \<and>
     map resultPortal (results summary) = map name configs \<and>
     totalPortals summary = int (length configs) \<and>
     successfulPortals summary = int (length (filter success (results summary))) \<and>
     successfulPortals summary + failedPortals summary = totalPortals summary \<and>
     0 \<le> failedPortals summary \<and>
     totalArticlesFound summary = sum_list (map (\<lambda>r. int (articlesFound r)) (results summary)) \<and>
     totalNewArticles summary = sum_list (map (\<lambda>r. int (newArticles r)) (results summary))"
proof -
  from chunkArray_Some [of configs]
  obtain batches where ch: "chunkArray configs MAX_CONCURRENT_PORTALS = Some batches"
    "concat batches = configs"
    by blast
  obtain rs w1 where cb: "crawlBatches e p db batches [] w = (rs, w1)"
    by (cases "crawlBatches e p db batches [] w")
  from crawlBatches_results [of e p db batches "[]" w] cb ch(2)
  have all: "list_all2 (crawled e p db) configs rs" by simp
  then have len: "length rs = length configs" by (simp add: list_all2_lengthD)
  have "length (filter success rs) \<le> length configs"
    using length_filter_le [of success rs] len by simp
  then show ?thesis
    using ch(1) cb all crawled_names [OF all]
    by (simp add: crawlAllPortals_def Let_def foldl_sum)
qed

lemma sourceB_fields [simp]:
  "name sourceB = js ''B''" "baseUrl sourceB = js ''https://www.b.test/news/''"
  "delayMs sourceB = Some 1500"
  by (simp_all add: sourceB_def sampleConfig_def)

lemma scenario_listing_B:
  "fst (listingFetch scenarioEnv scenarioPlatform sourceB w) = Inl (httpError 404 (js ''Not Found''))"
  by (simp add: listingFetch_def fetchWithRetry_first
      scenarioEnv_def envOf_def sampleNet_def responseOk_def Let_def)

lemma scenario_chunks:
  "chunkArray [sourceB, sourceC] MAX_CONCURRENT_PORTALS = Some [[sourceB, sourceC]]"
  by (simp add: chunkArray_def MAX_CONCURRENT_PORTALS_def chunkLoop.simps)

theorem crawlAllPortals_summary_witness:
  "map_option
     (\<lambda>x. (totalPortals (fst x), successfulPortals (fst x), failedPortals (fst x),
           totalArticlesFound (fst x), totalNewArticles (fst x),
           map resultPortal (results (fst x)), map success (results (fst x)),
           map errors (results (fst x))))
     (crawlAllPortals scenarioEnv scenarioPlatform sampleDatabase [sourceB, sourceC]
        (world0 ([] :: NewsArticleInsert list)))
   = Some (2, 1, 1, 0, 0, [js ''B'', js ''C''], [False, True],
           [[portalError (httpError 404 (js ''Not Found''))], []])"
  using crawlAllPortals_summary [of scenarioEnv scenarioPlatform sampleDatabase "[sourceB, sourceC]"
      "world0 ([] :: NewsArticleInsert list)"]
  by (simp add: crawlAllPortals_def scenario_chunks crawlPortal_failed [OF scenario_listing_B]
      crawlPortal_ok [OF scenario_listing_C] scenario_links_C Let_def)

section \<open>Properties of the deduplicator\<close>

subsection \<open>Normalization of plain texts\<close>

lemma trim_halves: "trim s = trimEnd (trimStart s)"
  by (simp add: trim_def trimStart_def trimEnd_def)

lemma isSpace_plain: "isSpace c \<Longrightarrow> plain c"
  by (auto simp add: isSpace_def plain_def)

lemma toLowerCase_plain: "list_all plain s \<Longrightarrow> toLowerCase p s = map lowerUnit s"
  by (simp add: toLowerCase_def)

lemma isSpace_lowerUnit [simp]: "isSpace (lowerUnit c) = isSpace c"
  by (auto simp add: isSpace_def lowerUnit_def)

lemma isSpace_canonUnit [simp]: "isSpace (canonUnit c) = isSpace c"
  by (auto simp add: canonUnit_def) (auto simp add: isSpace_def lowerUnit_def)

lemma isSpace_32 [simp]: "isSpace 32"
  by (simp add: isSpace_def)

lemma collapseSpaces_map:
  assumes "\<And>c. isSpace (f c) = isSpace c"
  shows "collapseSpaces (map f s) = map (\<lambda>c. if isSpace c then 32 else f c) (collapseSpaces s)"
proof (induction s rule: collapseSpaces.induct)
  case 1
  show ?case by simp
next
  case (2 c cs)
  show ?case
  proof (cases "isSpace c")
    case True
    have "dropWhile isSpace (map f cs) = map f (dropWhile isSpace cs)"
      using assms by (simp add: dropWhile_map comp_def)
    with True 2(1) [OF True] assms show ?thesis by simp
  next
    case False
    with 2(2) [OF False] assms show ?thesis by simp
  qed
qed

lemma unify_lower:
  "unifyDashes (unifyQuotes (map (\<lambda>c. if isSpace c then 32 else lowerUnit c) s)) = map canonUnit s"
  by (auto simp add: unifyDashes_def unifyQuotes_def canonUnit_def lowerUnit_def isSpace_def)

lemma trimStart_map:
  assumes "\<And>c. isSpace (f c) = isSpace c"
  shows "trimStart (map f s) = map f (trimStart s)"
  using assms by (simp add: trimStart_def dropWhile_map comp_def)

lemma trimEnd_map:
  assumes "\<And>c. isSpace (f c) = isSpace c"
  shows "trimEnd (map f s) = map f (trimEnd s)"
  using assms by (simp add: trimEnd_def dropWhile_map comp_def rev_map)

lemma trim_map:
  assumes "\<And>c. isSpace (f c) = isSpace c"
  shows "trim (map f s) = map f (trim s)"
  using assms by (simp add: trim_halves trimStart_map trimEnd_map)

text \<open>
  On a plain text, normalization squeezes the white space and then takes every character
  to the one that stands for its variants; or the other way round.
\<close>

lemma normalizeText_plain:
  assumes "list_all plain s"
  shows "normalizeText p s = map canonUnit (trim (collapseSpaces s))"
proof -
  have "unifyDashes (unifyQuotes (collapseSpaces (map lowerUnit s))) = map canonUnit (collapseSpaces s)"
    by (simp add: collapseSpaces_map unify_lower)
  then show ?thesis
    using assms by (simp add: normalizeText_def toLowerCase_plain trim_map)
qed

lemma normalizeText_canon:
  assumes "list_all plain s"
  shows "normalizeText p s = trim (collapseSpaces (map canonUnit s))"
proof -
  have "map (\<lambda>c. if isSpace c then 32 else canonUnit c) (collapseSpaces s) = map canonUnit (collapseSpaces s)"
    by (auto simp add: canonUnit_def)
  then have "collapseSpaces (map canonUnit s) = map canonUnit (collapseSpaces s)"
    by (simp add: collapseSpaces_map)
  then show ?thesis using assms by (simp add: normalizeText_plain trim_map)
qed

lemma trimStart_collapse_fixed:
  assumes "x = [] \<or> \<not> isSpace (hd x)"
  shows "trimStart (collapseSpaces x) = collapseSpaces x"
  using assms by (cases x) (auto simp add: trimStart_def)

lemma trimStart_collapseSpaces: "trimStart (collapseSpaces s) = collapseSpaces (trimStart s)"
proof (cases s)
  case Nil
  then show ?thesis by (simp add: trimStart_def)
next
  case (Cons c cs)
  show ?thesis
  proof (cases "isSpace c")
    case True
    have "dropWhile isSpace cs = [] \<or> \<not> isSpace (hd (dropWhile isSpace cs))"
      using hd_dropWhile [of isSpace cs] by auto
    from trimStart_collapse_fixed [OF this] True Cons show ?thesis
      by (simp add: trimStart_def)
  next
    case False
    with Cons show ?thesis by (simp add: trimStart_def)
  qed
qed

lemma trimEnd_Cons:
  "trimEnd (a # x) = (if isSpace a \<and> trimEnd x = [] then [] else a # trimEnd x)"
  by (auto simp add: trimEnd_def dropWhile_append)

lemma dropWhile_spaces: "list_all isSpace ws \<Longrightarrow> dropWhile isSpace ws = []"
  by (simp add: list_all_iff)

lemma dropWhile_spaces_append:
  "list_all isSpace ws \<Longrightarrow> dropWhile isSpace (ws @ b) = dropWhile isSpace b"
  by (simp add: list_all_iff)

lemma dropWhile_nonspaces_append:
  "\<not> list_all isSpace cs \<Longrightarrow> dropWhile isSpace (cs @ b) = dropWhile isSpace cs @ b"
  by (auto simp add: dropWhile_append list_all_iff)

lemma collapseSpaces_all_spaces:
  "list_all isSpace ws \<Longrightarrow> collapseSpaces ws = (if ws = [] then [] else [32])"
  by (cases ws) (simp_all add: dropWhile_spaces)

lemma trimEnd_collapse_append:
  assumes "list_all isSpace ws"
  shows "trimEnd (collapseSpaces (s @ ws)) = trimEnd (collapseSpaces s)"
proof (induction s rule: collapseSpaces.induct)
  case 1
  show ?case using assms by (simp add: collapseSpaces_all_spaces trimEnd_Cons) (simp add: trimEnd_def)
next
  case (2 c cs)
  show ?case
  proof (cases "isSpace c")
    case True
    show ?thesis
    proof (cases "list_all isSpace cs")
      case all: True
      then have a: "dropWhile isSpace (cs @ ws) = []" and b: "dropWhile isSpace cs = []"
        using assms by (simp_all add: dropWhile_spaces)
      show ?thesis using True by (simp add: a b)
    next
      case False
      note a = dropWhile_nonspaces_append [OF False, of ws]
      show ?thesis using True 2(1) [OF True] by (simp add: a trimEnd_Cons)
    qed
  next
    case False
    with 2(2) [OF False] show ?thesis by (simp add: trimEnd_Cons)
  qed
qed

lemma trim_collapse_padded:
  assumes "list_all isSpace pre" "list_all isSpace post"
  shows "trim (collapseSpaces (pre @ t @ post)) = trim (collapseSpaces t)"
proof -
  have pre: "trimStart (pre @ t @ post) = trimStart (t @ post)"
    using assms(1) by (simp add: trimStart_def list_all_iff)
  show ?thesis
  proof (cases "list_all isSpace t")
    case True
    then have a: "trimStart (t @ post) = []" and b: "trimStart t = []"
      using assms(2) by (simp_all add: trimStart_def dropWhile_spaces)
    show ?thesis by (simp add: trim_halves trimStart_collapseSpaces pre a b)
  next
    case False
    have a: "trimStart (t @ post) = trimStart t @ post"
      using dropWhile_nonspaces_append [OF False, of post] by (simp add: trimStart_def)
    show ?thesis
      by (simp add: trim_halves trimStart_collapseSpaces pre a trimEnd_collapse_append [OF assms(2)])
  qed
qed

lemma collapseSpaces_run:
  assumes "ws \<noteq> []" "list_all isSpace ws"
  shows "collapseSpaces (a @ ws @ b) = collapseSpaces (a @ 32 # b)"
proof (induction a rule: collapseSpaces.induct)
  case 1
  from assms obtain c cs where ws: "ws = c # cs" "isSpace c" "list_all isSpace cs"
    by (cases ws) auto
  show ?case using ws(2) by (simp add: ws(1) dropWhile_spaces_append [OF ws(3)])
next
  case (2 c cs)
  show ?case
  proof (cases "isSpace c")
    case True
    show ?thesis
    proof (cases "list_all isSpace cs")
      case all: True
      have a: "dropWhile isSpace (cs @ ws @ b) = dropWhile isSpace b"
        using dropWhile_spaces_append [OF all, of "ws @ b"] dropWhile_spaces_append [OF assms(2), of b]
        by simp
      have b: "dropWhile isSpace (cs @ 32 # b) = dropWhile isSpace b"
        using dropWhile_spaces_append [OF all, of "32 # b"] by simp
      show ?thesis using True by (simp add: a b)
    next
      case False
      note a = dropWhile_nonspaces_append [OF False, of "ws @ b"]
        dropWhile_nonspaces_append [OF False, of "32 # b"]
      show ?thesis using True 2(1) [OF True] by (simp add: a)
    qed
  next
    case False
    with 2(2) [OF False] show ?thesis by simp
  qed
qed

lemma normalizeText_padded:
  assumes "list_all plain t" "list_all isSpace pre" "list_all isSpace post"
  shows "normalizeText p (pre @ t @ post) = normalizeText p t"
proof -
  have "list_all plain (pre @ t @ post)"
    using assms by (auto simp add: list_all_iff isSpace_plain)
  then show ?thesis
    using assms by (simp add: normalizeText_plain trim_collapse_padded del: append_assoc)
qed

lemma normalizeText_run:
  assumes "list_all plain a" "list_all plain b" "ws \<noteq> []" "list_all isSpace ws"
  shows "normalizeText p (a @ ws @ b) = normalizeText p (a @ 32 # b)"
proof -
  have "plain 32" by (simp add: plain_def)
  then have "list_all plain (a @ ws @ b)" "list_all plain (a @ 32 # b)"
    using assms by (auto simp add: list_all_iff isSpace_plain)
  then show ?thesis
    using assms by (simp add: normalizeText_plain collapseSpaces_run)
qed

lemma normalizeText_variants:
  assumes "list_all plain s" "list_all plain t" "variants s t"
  shows "normalizeText p s = normalizeText p t"
  using assms by (simp add: normalizeText_canon variants_def)

subsection \<open>Fingerprints\<close>

text \<open>The digests of four short messages, computed by rewriting.\<close>

lemmas sha_defs = sha256_def pad_def be64_def replicate_num compress_def schedule_def nextW_def
  K256_def H256_def rotr_def bsig0_def bsig1_def ssig0_def ssig1_def Ch_def Maj_def add32_def Let_def

lemma sha_up:
  "sha256 [98, 97, 110, 107, 32, 98, 99, 97, 124, 112, 114, 111, 102, 105, 116, 32, 117, 112, 46] =
     (1014905792, 153814927, 31624330, 363835786, 3588848244, 1438548411, 557446012, 625499324)"
  by (simp add: sha_defs)

lemma sha_down:
  "sha256 [98, 97, 110, 107, 32, 98, 99, 97, 124, 112, 114, 111, 102, 105, 116, 32, 100, 111, 119, 110, 46] =
     (2638416308, 2513297760, 1621887367, 2541990927, 1079857923, 1224355288, 1477218779, 3832117636)"
  by (simp add: sha_defs)

lemma sha_curly:
  "sha256 [98, 99, 97, 226, 128, 153, 115, 124] =
     (1220625603, 1012768316, 410155463, 1357016186, 3515223068, 710309147, 137813118, 2728026312)"
  by (simp add: sha_defs)

lemma sha_straight:
  "sha256 [98, 99, 97, 34, 115, 124] =
     (3569250944, 1791958147, 2328921697, 2960025370, 1576521150, 816346752, 2742903469, 1649931658)"
  by (simp add: sha_defs)

lemmas norm_defs = normalizeText_def toLowerCase_def plain_def lowerUnit_def unifyQuotes_def
  unifyDashes_def trim_def isSpace_def js_def

lemmas hex_defs = hex32_def hexDigit_def

lemma hash_up:
  "generateContentHash p (js ''Bank BCA'') (Some (js ''Profit up.'')) =
     js ''3c7e3bc0092b078f01e28c8a15afb18ad5e97a7455be81bb2139f37c25485cbc''"
  by (simp add: generateContentHash_def norm_defs sha_up hex_defs)

lemma hash_down:
  "generateContentHash p (js ''Bank BCA'') (Some (js ''Profit down.'')) =
     js ''9d4309b495cde16060ac09879783b40f405d530348fa2dd8580c91dbe4697984''"
  by (simp add: generateContentHash_def norm_defs sha_down hex_defs)

lemma hash_curly:
  "generateContentHash p [66, 67, 65, 8217, 115] None =
     js ''48c144c33c5d9e3c187279c750e26c7ad1860c1c2a56751b0836dc7ea29a60c8''"
  by (simp add: generateContentHash_def norm_defs sha_curly hex_defs)

lemma hash_straight:
  "generateContentHash p [66, 67, 65, 39, 115] None =
     js ''d4be72806acf1c838ad08661b06e671a5df7cdbe30a87680a37d62ad6257f58a''"
  by (simp add: generateContentHash_def norm_defs sha_straight hex_defs)

lemma normalizeText_Nil: "normalizeText p [] = []"
  by (simp add: normalizeText_def toLowerCase_def unifyQuotes_def unifyDashes_def trim_def)

lemma generateContentHash_hashedString:
  "generateContentHash p t c = digestHex (sha256 (utf8 (hashedString p t c)))"
  by (cases c) (simp_all add: generateContentHash_def hashedString_def normalizedBody_def
      normalizeText_Nil Let_def)

text \<open>
  On a text whose lower-case form holds no curly quote, the normalization of the source is
  the normalization the specification describes.
\<close>

lemma collapseSpaces_set: "set (collapseSpaces s) \<subseteq> insert 32 (set s)"
proof (induction s rule: collapseSpaces.induct)
  case 1
  show ?case by simp
next
  case (2 c cs)
  show ?case
  proof (cases "isSpace c")
    case True
    have "set (dropWhile isSpace cs) \<subseteq> set cs" by (rule set_dropWhileD [THEN subsetI])
    with 2(1) [OF True] True show ?thesis by auto
  next
    case False
    with 2(2) [OF False] show ?thesis by auto
  qed
qed

lemma normalizeText_specNormalize:
  assumes "noCurly (toLowerCase p s)"
  shows "normalizeText p s = specNormalize p s"
proof -
  let ?s = "collapseSpaces (toLowerCase p s)"
  from assms have "\<forall>c \<in> set (toLowerCase p s). c \<noteq> 8216 \<and> c \<noteq> 8217 \<and> c \<noteq> 8220 \<and> c \<noteq> 8221"
    by (simp add: noCurly_def list_all_iff)
  then have "\<forall>c \<in> set ?s. c \<noteq> 8216 \<and> c \<noteq> 8217 \<and> c \<noteq> 8220 \<and> c \<noteq> 8221"
    using collapseSpaces_set [of "toLowerCase p s"] by fastforce
  then have "specUnifyQuotes ?s = unifyQuotes ?s"
    by (simp add: specUnifyQuotes_def unifyQuotes_def)
  then show ?thesis by (simp add: specNormalize_def normalizeText_def)
qed

text \<open>
  Claim C1, as amended. The fingerprint is the SHA-256 digest, in hexadecimal, of the
  normalized title, a bar, and the first 500 characters of the normalized body. So two
  inputs with the same normalized title and the same first 500 characters of the normalized
  body have the same fingerprint, and so have any two inputs for which the hashed string is
  the same. The normalized form is the one the specification describes (lower case, runs of
  white space collapsed to one space, quotes unified, dashes unified, trimmed) on every text
  whose lower-case form holds no curly quote. The normalized form of a plain text does not
  change when white space is put
  around the text, when a run of white space is put for a single space, or when a character
  is changed for a variant of it: a letter for the same letter in the other case, a white
  space character for another, a straight quote for the other straight quote, a hyphen, en
  dash or em dash for another of the three. In particular the fingerprints of
  ("Bank  BCA", "Profit up.") and of ("bank bca", "Profit up.") are equal, and those of
  ("Bank BCA", "Profit up.") and of ("Bank BCA", "Profit down.") differ.
\<close>

theorem generateContentHash_stable:
  "generateContentHash p t1 c1 = digestHex (sha256 (utf8 (hashedString p t1 c1))) \<and>
   (normalizeText p t1 = normalizeText p t2 \<and>
    take 500 (normalizedBody p c1) = take 500 (normalizedBody p c2) \<longrightarrow>
      generateContentHash p t1 c1 = generateContentHash p t2 c2) \<and>
   (hashedString p t1 c1 = hashedString p t2 c2 \<longrightarrow>
      generateContentHash p t1 c1 = generateContentHash p t2 c2) \<and>
   (noCurly (toLowerCase p t) \<longrightarrow> normalizeText p t = specNormalize p t) \<and>
   (list_all plain t \<and> list_all isSpace pre \<and> list_all isSpace post \<longrightarrow>
      normalizeText p (pre @ t @ post) = normalizeText p t) \<and>
   (list_all plain a \<and> list_all plain b \<and> ws \<noteq> [] \<and> list_all isSpace ws \<longrightarrow>
      normalizeText p (a @ ws @ b) = normalizeText p (a @ 32 # b)) \<and>
   (list_all plain s \<and> list_all plain s' \<and> variants s s' \<longrightarrow>
      normalizeText p s = normalizeText p s') \<and>
   generateContentHash p (js ''Bank  BCA'') (Some (js ''Profit up.'')) =
     generateContentHash p (js ''bank bca'') (Some (js ''Profit up.'')) \<and>
   generateContentHash p (js ''Bank BCA'') (Some (js ''Profit up.'')) \<noteq>
     generateContentHash p (js ''Bank BCA'') (Some (js ''Profit down.''))"
proof -
  have same: "normalizeText p (js ''Bank  BCA'') = normalizeText p (js ''bank bca'')"
    by (simp add: norm_defs)
  have differ: "generateContentHash p (js ''Bank BCA'') (Some (js ''Profit up.'')) \<noteq>
     generateContentHash p (js ''Bank BCA'') (Some (js ''Profit down.''))"
    unfolding hash_up hash_down by (simp add: js_def)
  have eq: "generateContentHash p (js ''Bank  BCA'') (Some (js ''Profit up.'')) =
     generateContentHash p (js ''bank bca'') (Some (js ''Profit up.''))"
    using same by (simp add: generateContentHash_hashedString hashedString_def)
  have cong: "generateContentHash p t1 c1 = generateContentHash p t2 c2"
    if "hashedString p t1 c1 = hashedString p t2 c2"
    using that by (simp add: generateContentHash_hashedString)
  have cong': "generateContentHash p t1 c1 = generateContentHash p t2 c2"
    if "normalizeText p t1 = normalizeText p t2"
      "take 500 (normalizedBody p c1) = take 500 (normalizedBody p c2)"
    using that by (simp add: generateContentHash_hashedString hashedString_def)
  show ?thesis
    using differ eq cong cong' generateContentHash_hashedString [of p t1 c1]
      normalizeText_padded [of t pre post p] normalizeText_run [of a b ws p]
      normalizeText_variants [of s s' p] normalizeText_specNormalize [of p t]
    by blast
qed

theorem generateContentHash_stable_witness:
  "list_all plain (js ''Bank BCA'') \<and> list_all isSpace [32, 9] \<and> list_all isSpace [10] \<and>
   noCurly (toLowerCase (samplePlatform []) (js ''Bank BCA'')) \<and>
   specNormalize (samplePlatform []) (js ''Bank BCA'') = js ''bank bca'' \<and>
   normalizeText (samplePlatform []) ([32, 9] @ js ''Bank BCA'' @ [10]) = js ''bank bca'' \<and>
   normalizeText (samplePlatform []) (js ''Bank BCA'') = js ''bank bca'' \<and>
   list_all plain (js ''Bank'') \<and> list_all plain (js ''BCA'') \<and> list_all isSpace [32, 160, 9] \<and>
   normalizeText (samplePlatform []) (js ''Bank'' @ [32, 160, 9] @ js ''BCA'') = js ''bank bca'' \<and>
   list_all plain [66, 67, 65, 39, 115, 32, 8211, 32, 50, 48, 50, 53] \<and>
   list_all plain [98, 99, 97, 34, 83, 160, 45, 32, 50, 48, 50, 53] \<and>
   variants [66, 67, 65, 39, 115, 32, 8211, 32, 50, 48, 50, 53]
            [98, 99, 97, 34, 83, 160, 45, 32, 50, 48, 50, 53] \<and>
   normalizeText (samplePlatform []) [66, 67, 65, 39, 115, 32, 8211, 32, 50, 48, 50, 53] =
     [98, 99, 97, 34, 115, 32, 45, 32, 50, 48, 50, 53] \<and>
   normalizeText (samplePlatform []) [98, 99, 97, 34, 83, 160, 45, 32, 50, 48, 50, 53] =
     [98, 99, 97, 34, 115, 32, 45, 32, 50, 48, 50, 53] \<and>
   generateContentHash (samplePlatform []) [66, 67, 65, 39, 115, 32, 8211, 32, 50, 48, 50, 53]
       (Some ([32, 9] @ js ''Bank BCA'' @ [10])) =
     generateContentHash (samplePlatform []) [98, 99, 97, 34, 83, 160, 45, 32, 50, 48, 50, 53]
       (Some (js ''Bank'' @ [32, 160, 9] @ js ''BCA''))"
proof -
  let ?P = "samplePlatform [] :: page platform"
  let ?s = "[66, 67, 65, 39, 115, 32, 8211, 32, 50, 48, 50, 53] :: jsstring"
  let ?s' = "[98, 99, 97, 34, 83, 160, 45, 32, 50, 48, 50, 53] :: jsstring"
  note th = generateContentHash_stable [of ?P ?s "Some ([32, 9] @ js ''Bank BCA'' @ [10])"
      ?s' "Some (js ''Bank'' @ [32, 160, 9] @ js ''BCA'')" "js ''Bank BCA''" "[32, 9]" "[10]"
      "js ''Bank''" "js ''BCA''" "[32, 160, 9]" ?s ?s']
  have pl: "list_all plain (js ''Bank BCA'')" "list_all plain (js ''Bank'')" "list_all plain (js ''BCA'')"
    "list_all plain ?s" "list_all plain ?s'"
    by (simp_all add: plain_def js_def)
  have sp: "list_all isSpace [32, 9]" "list_all isSpace [10]" "list_all isSpace [32, 160, 9]"
    by (simp_all add: isSpace_def)
  have va: "variants ?s ?s'"
    by (simp add: variants_def canonUnit_def lowerUnit_def isSpace_def)
  have n1: "normalizeText ?P (js ''Bank BCA'') = js ''bank bca''"
    by (simp add: norm_defs)
  have nc: "noCurly (toLowerCase ?P (js ''Bank BCA''))"
    by (simp add: noCurly_def toLowerCase_def plain_def lowerUnit_def js_def)
  from th nc n1 have sn: "specNormalize ?P (js ''Bank BCA'') = js ''bank bca''"
    by simp
  have n2: "normalizeText ?P (js ''Bank'' @ 32 # js ''BCA'') = js ''bank bca''"
    by (simp add: norm_defs)
  have n3: "normalizeText ?P ?s' = [98, 99, 97, 34, 115, 32, 45, 32, 50, 48, 50, 53]"
    by (simp add: norm_defs)
  from th pl sp va have
    a: "normalizeText ?P ([32, 9] @ js ''Bank BCA'' @ [10]) = normalizeText ?P (js ''Bank BCA'')" and
    b: "normalizeText ?P (js ''Bank'' @ [32, 160, 9] @ js ''BCA'') = normalizeText ?P (js ''Bank'' @ 32 # js ''BCA'')" and
    c: "normalizeText ?P ?s = normalizeText ?P ?s'"
    by simp_all
  have d: "take 500 (normalizedBody ?P (Some ([32, 9] @ js ''Bank BCA'' @ [10]))) =
           take 500 (normalizedBody ?P (Some (js ''Bank'' @ [32, 160, 9] @ js ''BCA'')))"
    using a b n1 n2 by (simp add: normalizedBody_def)
  from th c d have
    e: "generateContentHash ?P ?s (Some ([32, 9] @ js ''Bank BCA'' @ [10])) =
        generateContentHash ?P ?s' (Some (js ''Bank'' @ [32, 160, 9] @ js ''BCA''))"
    by blast
  show ?thesis
    using pl sp va a b c n1 n2 n3 e nc sn by simp
qed

text \<open>
  Two inputs whose normalized titles differ, and whose fingerprints are equal all the same,
  the bar of the one title being read as the separator; and two titles that differ in the
  apostrophe only, the one typographic and the other straight, whose normalizations in the
  words of the specification are equal, and whose fingerprints differ.
\<close>

theorem generateContentHash_counterexample:
  "normalizeText (samplePlatform []) (js ''a|b'') \<noteq> normalizeText (samplePlatform []) (js ''a'') \<and>
   generateContentHash (samplePlatform []) (js ''a|b'') None =
     generateContentHash (samplePlatform []) (js ''a'') (Some (js ''b|'')) \<and>
   specNormalize (samplePlatform []) [66, 67, 65, 8217, 115] =
     specNormalize (samplePlatform []) [66, 67, 65, 39, 115] \<and>
   generateContentHash (samplePlatform []) [66, 67, 65, 8217, 115] None \<noteq>
     generateContentHash (samplePlatform []) [66, 67, 65, 39, 115] None"
proof -
  let ?P = "samplePlatform [] :: page platform"
  have 1: "normalizeText ?P (js ''a|b'') \<noteq> normalizeText ?P (js ''a'')"
    by (simp add: norm_defs)
  have 2: "generateContentHash ?P (js ''a|b'') None = generateContentHash ?P (js ''a'') (Some (js ''b|''))"
    by (simp add: generateContentHash_hashedString hashedString_def normalizedBody_def norm_defs)
  have 3: "specNormalize ?P [66, 67, 65, 8217, 115] = specNormalize ?P [66, 67, 65, 39, 115]"
    by (simp add: specNormalize_def specUnifyQuotes_def toLowerCase_def plain_def lowerUnit_def
        unifyDashes_def trim_def isSpace_def)
  have 4: "generateContentHash ?P [66, 67, 65, 8217, 115] None \<noteq> generateContentHash ?P [66, 67, 65, 39, 115] None"
    unfolding hash_curly hash_straight by (simp add: js_def)
  from 1 2 3 4 show ?thesis by blast
qed

end
